(* ===== verification/Prelude.thy ===== *)
theory Prelude
  imports Main "HOL-Library.Word" "HOL-Library.List_Lexorder" "HOL-Library.Char_ord"
begin

text \<open>
  Shared vocabulary of the development: the names of the model's basic types, the Go
  runtime helpers that several components use (decimal formatting of integers as done by
  \<open>fmt\<close>/\<open>strconv\<close>, \<open>strings.Contains\<close>, \<open>strings.ToLower\<close> on ASCII,
  \<open>strings.ReplaceAll\<close> with a one-byte pattern) and the generic lemmas about them,
  declared into the collections below so that component proofs can use them by name.
  Go strings are byte sequences; HOL's \<open>char\<close> is a byte, so \<open>string\<close> models a Go
  string exactly.
\<close>

named_theorems lexer_simps "characteristic equations of the SQL literal lexers"
named_theorems render_simps "rendering equations of Go formatting helpers"
named_theorems contains_intros "introduction rules for substring containment"

type_synonym int64 = "64 word"

abbreviation squote :: char where "squote \<equiv> CHR 0x27"
abbreviation bslash :: char where "bslash \<equiv> CHR 0x5C"
abbreviation dquote :: char where "dquote \<equiv> CHR 0x22"

section \<open>Decimal formatting of integers (fmt \<open>%d\<close>, \<open>%v\<close>, strconv.Itoa)\<close>

definition digit_char :: "nat \<Rightarrow> char" where
  "digit_char d = char_of (48 + d)"

definition is_digit :: "char \<Rightarrow> bool" where
  "is_digit c \<longleftrightarrow> CHR ''0'' \<le> c \<and> c \<le> CHR ''9''"

definition digit_val :: "char \<Rightarrow> nat" where
  "digit_val c = of_char c - 48"

fun nat_dec :: "nat \<Rightarrow> string" where
  "nat_dec n = (if n < 10 then [digit_char n] else nat_dec (n div 10) @ [digit_char (n mod 10)])"

definition int_dec :: "int \<Rightarrow> string" where
  "int_dec i = (if i < 0 then CHR ''-'' # nat_dec (nat (- i)) else nat_dec (nat i))"

text \<open>Reading back a run of decimal digits, most significant first.\<close>

definition digits_val :: "string \<Rightarrow> nat" where
  "digits_val ds = foldl (\<lambda>acc c. 10 * acc + digit_val c) 0 ds"

declare nat_dec.simps [simp del]

lemma digit_char_is_digit [simp]: "d < 10 \<Longrightarrow> is_digit (digit_char d)"
  by (auto simp: digit_char_def is_digit_def less_eq_char_def)

lemma digit_val_digit_char [simp]: "d < 10 \<Longrightarrow> digit_val (digit_char d) = d"
  by (simp add: digit_char_def digit_val_def)

lemma nat_dec_nonempty [simp]: "nat_dec n \<noteq> []"
  by (subst nat_dec.simps) simp

lemma nat_dec_digits [render_simps]: "\<forall>c \<in> set (nat_dec n). is_digit c"
proof (induction n rule: nat_dec.induct)
  case (1 n)
  then show ?case by (subst nat_dec.simps) auto
qed

lemma digits_val_snoc [simp]: "digits_val (ds @ [c]) = 10 * digits_val ds + digit_val c"
  by (simp add: digits_val_def)

lemma digits_val_nat_dec [render_simps]: "digits_val (nat_dec n) = n"
proof (induction n rule: nat_dec.induct)
  case (1 n)
  show ?case
  proof (cases "n < 10")
    case True
    then show ?thesis by (subst nat_dec.simps) (simp add: digits_val_def)
  next
    case False
    with "1.IH" show ?thesis by (subst nat_dec.simps) simp
  qed
qed

lemma int_dec_nonneg [render_simps]: "0 \<le> i \<Longrightarrow> int_dec i = nat_dec (nat i)"
  by (simp add: int_dec_def)

lemma int_dec_neg [render_simps]: "i < 0 \<Longrightarrow> int_dec i = CHR ''-'' # nat_dec (nat (- i))"
  by (simp add: int_dec_def)

lemma minus_not_digit [simp]: "\<not> is_digit (CHR ''-'')"
  by (simp add: is_digit_def less_eq_char_def)

lemma squote_not_digit [simp]: "\<not> is_digit squote"
  by (simp add: is_digit_def less_eq_char_def)

section \<open>Substring search (strings.Contains, strings.HasPrefix)\<close>

fun has_prefix :: "string \<Rightarrow> string \<Rightarrow> bool" where
  "has_prefix s [] = True"
| "has_prefix [] (c # cs) = False"
| "has_prefix (x # xs) (c # cs) = (x = c \<and> has_prefix xs cs)"

fun str_contains :: "string \<Rightarrow> string \<Rightarrow> bool" where
  "str_contains [] sub = (sub = [])"
| "str_contains (x # xs) sub = (has_prefix (x # xs) sub \<or> str_contains xs sub)"

lemma has_prefix_iff: "has_prefix s p \<longleftrightarrow> (\<exists>r. s = p @ r)"
  by (induction s p rule: has_prefix.induct) auto

lemma str_contains_iff: "str_contains s sub \<longleftrightarrow> (\<exists>a b. s = a @ sub @ b)"
proof (induction s)
  case Nil
  then show ?case by auto
next
  case (Cons x xs)
  have "(\<exists>a b. x # xs = a @ sub @ b) \<longleftrightarrow>
        (\<exists>b. x # xs = sub @ b) \<or> (\<exists>a b. xs = a @ sub @ b)"
    by (auto simp: Cons_eq_append_conv)
  with Cons.IH show ?case by (simp add: has_prefix_iff)
qed

section \<open>ASCII case folding (strings.ToLower on ASCII text)\<close>

definition ascii_lower :: "char \<Rightarrow> char" where
  "ascii_lower c = (if CHR ''A'' \<le> c \<and> c \<le> CHR ''Z'' then char_of (of_char c + (32::nat)) else c)"

definition to_lower :: "string \<Rightarrow> string" where
  "to_lower s = map ascii_lower s"

lemma takeWhile_neq_append [simp]: "x \<notin> set xs \<Longrightarrow> takeWhile (\<lambda>c. c \<noteq> x) (xs @ x # ys) = xs"
  by (induction xs) auto

lemma dropWhile_neq_append [simp]: "x \<notin> set xs \<Longrightarrow> dropWhile (\<lambda>c. c \<noteq> x) (xs @ x # ys) = x # ys"
  by (induction xs) auto

section \<open>Joining with a separator (strings.Join)\<close>

fun join_with :: "string \<Rightarrow> string list \<Rightarrow> string" where
  "join_with sep [] = []"
| "join_with sep [x] = x"
| "join_with sep (x # y # ys) = x @ sep @ join_with sep (y # ys)"


section \<open>Printing helpers\<close>

text \<open>The request-body cleaning of the loggers, \<open>strings.NewReplacer("\n", "", "\r", "", " ", "").Replace\<close>.\<close>

definition strip_body :: "string \<Rightarrow> string" where
  "strip_body s = filter (\<lambda>c. c \<noteq> CHR 0x0A \<and> c \<noteq> CHR 0x0D \<and> c \<noteq> CHR '' '') s"

definition pad_right :: "nat \<Rightarrow> string \<Rightarrow> string" where
  "pad_right w s = s @ replicate (w - length s) CHR '' ''"

definition pad_left :: "nat \<Rightarrow> string \<Rightarrow> string" where
  "pad_left w s = replicate (w - length s) CHR '' '' @ s"

section \<open>Substring containment\<close>

lemma str_contains_Nil [simp]: "str_contains s []"
  by (simp add: str_contains_iff) (metis append_Nil)

lemma str_contains_refl [contains_intros]: "str_contains s s"
  by (simp add: str_contains_iff) (metis append_Nil append_Nil2)

lemma str_contains_append_left [contains_intros]: "str_contains s x \<Longrightarrow> str_contains (a @ s) x"
  by (auto simp: str_contains_iff) (metis append.assoc)

lemma str_contains_append_right [contains_intros]: "str_contains s x \<Longrightarrow> str_contains (s @ c) x"
  by (auto simp: str_contains_iff) (metis append.assoc)

lemma str_contains_trans: "str_contains a b \<Longrightarrow> str_contains b c \<Longrightarrow> str_contains a c"
  by (auto simp: str_contains_iff) (metis append.assoc)

lemma str_contains_join [contains_intros]: "x \<in> set xs \<Longrightarrow> str_contains (join_with sep xs) x"
proof (induction sep xs rule: join_with.induct)
  case (1 sep)
  then show ?case by simp
next
  case (2 sep x')
  then show ?case by (auto simp: str_contains_iff intro: exI [of _ "[]"])
next
  case (3 sep x' y ys)
  then show ?case
    by (auto simp: str_contains_iff) (metis append.assoc append_Nil2, metis append.assoc)
qed

lemma join_with_Cons_head [contains_intros]: "str_contains (join_with sep (v # vs)) v"
  by (cases vs) (auto simp: str_contains_iff intro: exI [of _ "[]"])

end
