(* ===== verification/Sql.thy ===== *)
theory Sql
  imports Prelude
begin

text \<open>
  The downstream consumer's reading of the synthesized command. The service publishes an
  SQL INSERT statement as text; the consumer executes it verbatim on PostgreSQL (spec
  section 6, broker wire contract). This theory models the part of the PostgreSQL lexer that
  the service's output relies on: the literals \<open>NULL\<close>, \<open>true\<close>/\<open>false\<close>, signed
  decimal integers, standard string literals \<open>'...'\<close> (with \<open>''\<close> for a quote and the
  backslash an ordinary character, \<open>standard_conforming_strings = on\<close>) and escape string
  literals \<open>E'...'\<close> (backslash escapes). Octal, hexadecimal and Unicode backslash
  escapes are not modelled: the lexer rejects them (\<open>None\<close>), so a round-trip theorem
  through it never depends on them. This is the abstract side against which the encoder
  and the synthesizer are proved; it models no code of the repository.
\<close>

datatype sql_value = SNull | SInt int | SBool bool | SText string

definition prepend :: "char \<Rightarrow> (string \<times> string) option \<Rightarrow> (string \<times> string) option" where
  "prepend c r = map_option (\<lambda>(s, rest). (c # s, rest)) r"

lemma prepend_Some [simp]: "prepend c (Some (s, r)) = Some (c # s, r)"
  by (simp add: prepend_def)

lemma prepend_None [simp]: "prepend c None = None"
  by (simp add: prepend_def)

lemma prepend_eq_Some [simp]: "prepend c x = Some (t, r) \<longleftrightarrow> (\<exists>t'. x = Some (t', r) \<and> t = c # t')"
  by (cases x) (auto simp: prepend_def)

section \<open>String literal bodies\<close>

text \<open>Body of \<open>'...'\<close> after the opening quote: \<open>''\<close> is a quote, a lone quote ends it.\<close>

fun lex_std_body :: "string \<Rightarrow> (string \<times> string) option" where
  "lex_std_body [] = None"
| "lex_std_body [c] = (if c = squote then Some ([], []) else None)"
| "lex_std_body (c # d # ds) =
     (if c = squote then (if d = squote then prepend squote (lex_std_body ds) else Some ([], d # ds))
      else prepend c (lex_std_body (d # ds)))"

text \<open>Backslash escapes of \<open>E'...'\<close> that PostgreSQL maps to one character.\<close>

definition e_escape :: "char \<Rightarrow> char option" where
  "e_escape c =
     (if c = CHR ''b'' then Some (CHR 0x08) else if c = CHR ''f'' then Some (CHR 0x0C)
      else if c = CHR ''n'' then Some (CHR 0x0A) else if c = CHR ''r'' then Some (CHR 0x0D)
      else if c = CHR ''t'' then Some (CHR 0x09)
      else if is_digit c \<or> c = CHR ''x'' \<or> c = CHR ''u'' \<or> c = CHR ''U'' then None
      else Some c)"

fun lex_e_body :: "string \<Rightarrow> (string \<times> string) option" where
  "lex_e_body [] = None"
| "lex_e_body [c] = (if c = squote then Some ([], []) else None)"
| "lex_e_body (c # d # ds) =
     (if c = squote then (if d = squote then prepend squote (lex_e_body ds) else Some ([], d # ds))
      else if c = bslash then (case e_escape d of None \<Rightarrow> None | Some x \<Rightarrow> prepend x (lex_e_body ds))
      else prepend c (lex_e_body (d # ds)))"

section \<open>Literals and value lists\<close>

definition lex_int :: "string \<Rightarrow> (int \<times> string) option" where
  "lex_int s =
     (case s of
        [] \<Rightarrow> None
      | c # r \<Rightarrow>
          (let neg = (c = CHR ''-''); body = (if neg then r else s);
               ds = takeWhile is_digit body
           in if ds = [] then None
              else Some ((if neg then - int (digits_val ds) else int (digits_val ds)),
                         dropWhile is_digit body)))"

definition lex_value :: "string \<Rightarrow> (sql_value \<times> string) option" where
  "lex_value s =
     (if has_prefix s ''NULL'' then Some (SNull, drop 4 s)
      else if has_prefix s ''true'' then Some (SBool True, drop 4 s)
      else if has_prefix s ''false'' then Some (SBool False, drop 5 s)
      else case s of
        [] \<Rightarrow> None
      | c # r \<Rightarrow>
          (if c = squote then map_option (\<lambda>(t, rest). (SText t, rest)) (lex_std_body r)
           else if c = CHR ''E'' then
             (case r of
                d # r' \<Rightarrow> (if d = squote then map_option (\<lambda>(t, rest). (SText t, rest)) (lex_e_body r')
                           else None)
              | [] \<Rightarrow> None)
           else map_option (\<lambda>(i, rest). (SInt i, rest)) (lex_int s)))"

text \<open>Characteristic equations of the string lexers on their first two characters.\<close>

lemma lex_std_body_qq [lexer_simps]: "lex_std_body (squote # squote # xs) = prepend squote (lex_std_body xs)"
  by simp

lemma lex_std_body_other [lexer_simps]:
  "c \<noteq> squote \<Longrightarrow> xs \<noteq> [] \<Longrightarrow> lex_std_body (c # xs) = prepend c (lex_std_body xs)"
  by (cases xs) auto

lemma lex_std_body_end [lexer_simps]:
  "rest = [] \<or> hd rest \<noteq> squote \<Longrightarrow> lex_std_body (squote # rest) = Some ([], rest)"
  by (cases rest) auto

lemma lex_e_body_qq [lexer_simps]: "lex_e_body (squote # squote # xs) = prepend squote (lex_e_body xs)"
  by simp

lemma e_escape_bslash [simp]: "e_escape bslash = Some bslash"
  by (simp add: e_escape_def is_digit_def less_eq_char_def)

lemma lex_e_body_bb [lexer_simps]: "lex_e_body (bslash # bslash # xs) = prepend bslash (lex_e_body xs)"
  by simp

lemma lex_e_body_other [lexer_simps]:
  "c \<noteq> squote \<Longrightarrow> c \<noteq> bslash \<Longrightarrow> xs \<noteq> [] \<Longrightarrow> lex_e_body (c # xs) = prepend c (lex_e_body xs)"
  by (cases xs) auto

lemma lex_e_body_end [lexer_simps]:
  "rest = [] \<or> hd rest \<noteq> squote \<Longrightarrow> lex_e_body (squote # rest) = Some ([], rest)"
  by (cases rest) auto

text \<open>Each lexer consumes input; this is the termination argument of the list lexer.\<close>

lemma lex_std_body_shorter: "lex_std_body s = Some (t, r) \<Longrightarrow> length r < length s"
  by (induction s arbitrary: t rule: lex_std_body.induct)
     (fastforce split: if_splits)+

lemma lex_e_body_shorter: "lex_e_body s = Some (t, r) \<Longrightarrow> length r < length s"
  by (induction s arbitrary: t rule: lex_e_body.induct)
     (fastforce split: if_splits option.splits)+

lemma dropWhile_shorter: "takeWhile P xs \<noteq> [] \<Longrightarrow> length (dropWhile P xs) < length xs"
  by (cases xs) (auto simp: le_imp_less_Suc length_dropWhile_le split: if_splits)

lemma lex_int_shorter: "lex_int s = Some (i, r) \<Longrightarrow> length r < length s"
  by (auto simp: lex_int_def Let_def le_imp_less_Suc length_dropWhile_le
      split: list.splits if_splits dest!: dropWhile_shorter)

lemma has_prefix_drop_shorter: "has_prefix s p \<Longrightarrow> p \<noteq> [] \<Longrightarrow> length (drop (length p) s) < length s"
  by (auto simp: has_prefix_iff)

lemma lex_value_shorter: "lex_value s = Some (v, r) \<Longrightarrow> length r < length s"
  unfolding lex_value_def
  by (auto split: if_splits list.splits
      dest!: lex_std_body_shorter lex_e_body_shorter lex_int_shorter
      simp: has_prefix_iff)

text \<open>
  \<open>lex_values\<close> reads \<open>v1, v2, ..., vn)\<close>, the argument list of \<open>VALUES(\<close>, and
  returns the values and the text after the closing parenthesis.
\<close>

function lex_values :: "string \<Rightarrow> (sql_value list \<times> string) option" where
  "lex_values s =
     (case lex_value s of
        None \<Rightarrow> None
      | Some (v, r) \<Rightarrow>
          (if has_prefix r '', '' then map_option (\<lambda>(vs, r'). (v # vs, r')) (lex_values (drop 2 r))
           else if has_prefix r '')'' then Some ([v], drop 1 r)
           else None))"
  by pat_completeness auto
termination
proof (relation "measure length")
  fix s vr v r
  assume "lex_value s = Some vr" and "(v, r) = vr"
  then have "length r < length s" by (auto intro: lex_value_shorter)
  then show "(drop 2 r, s) \<in> measure length" by simp
qed simp

declare lex_values.simps [simp del]

section \<open>The statement \<open>INSERT INTO t (c1, ..., cn) VALUES(v1, ..., vn);\<close>\<close>

fun split_on :: "char \<Rightarrow> string \<Rightarrow> string list" where
  "split_on c [] = [[]]"
| "split_on c (x # xs) = (if x = c then [] # split_on c xs
                          else (case split_on c xs of [] \<Rightarrow> [[x]] | w # ws \<Rightarrow> (x # w) # ws))"

definition split_cols :: "string \<Rightarrow> string list" where
  "split_cols s = map (dropWhile (\<lambda>c. c = CHR '' '')) (split_on CHR '','' s)"

text \<open>A column name the statement layout can carry unambiguously.\<close>

definition good_column :: "string \<Rightarrow> bool" where
  "good_column n \<longleftrightarrow> n \<noteq> [] \<and> hd n \<noteq> CHR '' '' \<and>
     CHR '','' \<notin> set n \<and> CHR '')'' \<notin> set n \<and> CHR ''%'' \<notin> set n"

definition parse_insert :: "string \<Rightarrow> (string \<times> string list \<times> sql_value list) option" where
  "parse_insert s =
     (if has_prefix s ''INSERT INTO '' then
        let r = drop 12 s; table = takeWhile (\<lambda>c. c \<noteq> CHR '' '') r; r = dropWhile (\<lambda>c. c \<noteq> CHR '' '') r
        in if has_prefix r '' ('' then
             let r = drop 2 r; cols = takeWhile (\<lambda>c. c \<noteq> CHR '')'') r; r = dropWhile (\<lambda>c. c \<noteq> CHR '')'') r
             in if has_prefix r '') VALUES('' then
                  (case lex_values (drop 9 r) of
                     None \<Rightarrow> None
                   | Some (vs, rest) \<Rightarrow> if rest = '';'' then Some (table, split_cols cols, vs) else None)
                else None
           else None
      else None)"

lemma split_on_no_sep: "c \<notin> set xs \<Longrightarrow> split_on c xs = [xs]"
  by (induction xs) auto

lemma split_on_sep: "c \<notin> set xs \<Longrightarrow> split_on c (xs @ c # ys) = xs # split_on c ys"
proof (induction xs)
  case Nil
  then show ?case by simp
next
  case (Cons x xs)
  then show ?case by (cases "split_on c (xs @ c # ys)") auto
qed

lemma split_on_not_Nil: "split_on c xs \<noteq> []"
  by (induction xs) (auto split: list.splits)

lemma split_on_Cons_other:
  "x \<noteq> c \<Longrightarrow> \<exists>w ws. split_on c xs = w # ws \<and> split_on c (x # xs) = (x # w) # ws"
  using split_on_not_Nil [of c xs] by (cases "split_on c xs") auto

lemma split_cols_space: "split_cols (CHR '' '' # xs) = split_cols xs"
proof -
  obtain w ws where "split_on CHR '','' xs = w # ws"
    and "split_on CHR '','' (CHR '' '' # xs) = (CHR '' '' # w) # ws"
    using split_on_Cons_other [of "CHR '' ''" "CHR '',''" xs] by auto
  then show ?thesis by (simp add: split_cols_def)
qed

lemma split_cols_join:
  assumes "ns \<noteq> []" and "\<forall>n \<in> set ns. CHR '','' \<notin> set n \<and> (n = [] \<or> hd n \<noteq> CHR '' '')"
  shows "split_cols (join_with '', '' ns) = ns"
  using assms
proof (induction ns)
  case Nil
  then show ?case by simp
next
  case (Cons x xs)
  have x: "CHR '','' \<notin> set x" "dropWhile (\<lambda>c. c = CHR '' '') x = x"
    using Cons.prems(2) by (auto simp: dropWhile_eq_self_iff)
  show ?case
  proof (cases xs)
    case Nil
    with x show ?thesis by (simp add: split_cols_def split_on_no_sep)
  next
    case (Cons y ys)
    with Cons.IH Cons.prems(2) have IH: "split_cols (join_with '', '' xs) = xs" by simp
    have "split_cols (join_with '', '' (x # xs)) = x # split_cols (CHR '' '' # join_with '', '' xs)"
      using x Cons by (simp add: split_cols_def split_on_sep)
    with IH show ?thesis by (simp add: split_cols_space)
  qed
qed

lemma join_with_no_char: "c \<notin> set sep \<Longrightarrow> \<forall>n \<in> set ns. c \<notin> set n \<Longrightarrow> c \<notin> set (join_with sep ns)"
  by (induction sep ns rule: join_with.induct) auto

end
