(* ===== verification/Literal.thy ===== *)
theory Literal
  imports Sql
begin

text \<open>
  The Literal Encoder (spec 4.1): the helpers of \<open>src/utility/utility.go\<close> and
  \<open>src/utility/validation.go\<close> that turn one Go value into SQL text. A Go
  \<open>interface{}\<close> argument (of \<open>NullIfEmpty\<close> and of \<open>fmt.Sprintf\<close>) is the
  datatype \<open>go_value\<close>, with one constructor per dynamic type the code passes
  (\<open>int\<close>, \<open>string\<close>, \<open>bool\<close>); a Go \<open>int\<close> is a 64-bit word read as signed.
  Each encoder is proved against the consumer's lexer of theory \<open>Sql\<close>: what the
  encoder writes, PostgreSQL reads back as the intended value.
\<close>

datatype go_value = GInt int64 | GStr string | GBool bool

section \<open>Encoders\<close>

text \<open>\<open>SafeString\<close>: every single quote is doubled, byte by byte.\<close>

fun safe_string :: "string \<Rightarrow> string" where
  "safe_string [] = []"
| "safe_string (c # cs) = (if c = squote then [squote, squote] else [c]) @ safe_string cs"

text \<open>\<open>strings.ReplaceAll(s, old, new)\<close> for a one-byte \<open>old\<close>, the only form the code uses.\<close>

definition replace_all_byte :: "char \<Rightarrow> string \<Rightarrow> string \<Rightarrow> string" where
  "replace_all_byte c new s = concat (map (\<lambda>x. if x = c then new else [x]) s)"

text \<open>\<open>SafeJsonString\<close>: backslashes doubled, then quotes doubled, wrapped in \<open>E'...'\<close>.\<close>

definition safe_json_string :: "string \<Rightarrow> string" where
  "safe_json_string json_str =
     (let result = replace_all_byte bslash [bslash, bslash] json_str;
          result = replace_all_byte squote [squote, squote] result
      in ''E'' @ [squote] @ result @ [squote])"


text \<open>\<open>NullIfEmpty\<close>: a type switch on the dynamic type of its argument.\<close>

fun null_if_empty :: "go_value \<Rightarrow> string" where
  "null_if_empty (GInt v) = (if v = 0 then ''NULL'' else int_dec (sint v))"
| "null_if_empty (GStr v) = (if v = [] \<or> v = ''[]'' then ''NULL'' else [squote] @ v @ [squote])"
| "null_if_empty (GBool _) = ''NULL''"

text \<open>The \<open>%v\<close> verb of \<open>fmt.Sprintf\<close> on the three dynamic types.\<close>

fun fmt_v :: "go_value \<Rightarrow> string" where
  "fmt_v (GInt v) = int_dec (sint v)"
| "fmt_v (GStr s) = s"
| "fmt_v (GBool b) = (if b then ''true'' else ''false'')"

text \<open>
  \<open>fmt.Sprintf\<close> on a format whose only verbs are \<open>%v\<close> (the only verb the code's
  formats contain): each \<open>%v\<close> takes the next argument, a missing argument prints
  \<open>%!v(MISSING)\<close>, surplus arguments are listed after \<open>%!(EXTRA \<close>.
\<close>

fun go_extra :: "go_value \<Rightarrow> string" where
  "go_extra (GInt v) = ''int='' @ fmt_v (GInt v)"
| "go_extra (GStr s) = ''string='' @ s"
| "go_extra (GBool b) = ''bool='' @ fmt_v (GBool b)"

fun sprintf_v :: "string \<Rightarrow> go_value list \<Rightarrow> string" where
  "sprintf_v [] [] = []"
| "sprintf_v [] (a # args) = ''%!(EXTRA '' @ join_with '', '' (map go_extra (a # args)) @ '')''"
| "sprintf_v [c] args = c # sprintf_v [] args"
| "sprintf_v (c # d # fmt) args =
     (if c = CHR ''%'' \<and> d = CHR ''v''
      then (case args of [] \<Rightarrow> ''%!v(MISSING)'' @ sprintf_v fmt [] | a # rest \<Rightarrow> fmt_v a @ sprintf_v fmt rest)
      else c # sprintf_v (d # fmt) args)"

text \<open>\<open>NewNullString\<close> and \<open>NewNullInt\<close>: an \<open>sql.Null*\<close> is valid unless empty or zero.\<close>

definition new_null_string :: "string \<Rightarrow> string option" where
  "new_null_string s = (if length s = 0 then None else Some s)"

definition new_null_int :: "int64 \<Rightarrow> int64 option" where
  "new_null_int s = (if s = 0 then None else Some s)"

text \<open>\<open>InArray\<close>: the first index holding the value, or \<open>(False, -1)\<close>.\<close>

fun in_array_from :: "nat \<Rightarrow> string \<Rightarrow> string list \<Rightarrow> bool \<times> int" where
  "in_array_from i val [] = (False, -1)"
| "in_array_from i val (v # vs) = (if val = v then (True, int i) else in_array_from (Suc i) val vs)"

definition in_array :: "string \<Rightarrow> string list \<Rightarrow> bool \<times> int" where
  "in_array val array = in_array_from 0 val array"

section \<open>What a string column means\<close>

text \<open>
  The intended column value of a string field encoded by \<open>NullIfEmpty\<close>: SQL NULL for
  the empty string and for the text \<open>[]\<close>, the text itself otherwise.
\<close>

definition str_column :: "string \<Rightarrow> sql_value" where
  "str_column s = (if s = [] \<or> s = ''[]'' then SNull else SText s)"

text \<open>Where a literal may end inside the statement: before \<open>,\<close>, \<open>)\<close> or at the end.\<close>

definition lit_stop :: "string \<Rightarrow> bool" where
  "lit_stop rest \<longleftrightarrow> rest = [] \<or> hd rest = CHR '','' \<or> hd rest = CHR '')''"

text \<open>
  \<open>lexes_to a v\<close>: the \<open>%v\<close> rendering of the Go argument \<open>a\<close>, followed by anything
  that may follow a literal, is read by the consumer as the single value \<open>v\<close>.
\<close>

definition lexes_to :: "go_value \<Rightarrow> sql_value \<Rightarrow> bool" where
  "lexes_to a v \<longleftrightarrow> (\<forall>rest. lit_stop rest \<longrightarrow> lex_value (fmt_v a @ rest) = Some (v, rest))"

lemma lit_stop_not_squote [simp]: "lit_stop rest \<Longrightarrow> rest = [] \<or> hd rest \<noteq> squote"
  by (auto simp: lit_stop_def)

lemma lit_stop_not_digit [simp]: "lit_stop rest \<Longrightarrow> rest = [] \<or> \<not> is_digit (hd rest)"
  by (auto simp: lit_stop_def is_digit_def less_eq_char_def)

section \<open>Basic facts about the encoders\<close>

lemma safe_string_append [simp]: "safe_string (xs @ ys) = safe_string xs @ safe_string ys"
  by (induction xs) auto

lemma safe_string_id: "squote \<notin> set s \<Longrightarrow> safe_string s = s"
  by (induction s) auto

lemma safe_string_Nil_iff [simp]: "safe_string s = [] \<longleftrightarrow> s = []"
  by (cases s) auto

lemma safe_string_brackets_iff [simp]: "safe_string s = ''[]'' \<longleftrightarrow> s = ''[]''"
proof
  assume "safe_string s = ''[]''"
  then show "s = ''[]''"
    by (cases s rule: list.exhaust; cases "tl s" rule: list.exhaust) (auto split: if_splits)
qed simp

lemma replace_all_byte_Cons [simp]:
  "replace_all_byte c new (x # xs) = (if x = c then new else [x]) @ replace_all_byte c new xs"
  by (simp add: replace_all_byte_def)

lemma replace_all_byte_Nil [simp]: "replace_all_byte c new [] = []"
  by (simp add: replace_all_byte_def)

text \<open>The one-byte escape that \<open>SafeJsonString\<close> applies to each input byte.\<close>

definition json_esc :: "char \<Rightarrow> string" where
  "json_esc c = (if c = bslash then [bslash, bslash] else if c = squote then [squote, squote] else [c])"

lemma safe_json_string_esc:
  "safe_json_string j = ''E'' @ [squote] @ concat (map json_esc j) @ [squote]"
proof -
  have "replace_all_byte squote [squote, squote] (replace_all_byte bslash [bslash, bslash] j)
        = concat (map json_esc j)"
    by (induction j) (auto simp: json_esc_def)
  then show ?thesis by (simp add: safe_json_string_def)
qed

section \<open>Round trips through the consumer's lexer\<close>

lemma lex_std_body_safe_string:
  "rest = [] \<or> hd rest \<noteq> squote \<Longrightarrow> lex_std_body (safe_string s @ squote # rest) = Some (s, rest)"
proof (induction s)
  case Nil
  then show ?case by (simp add: lexer_simps)
next
  case (Cons c cs)
  then show ?case
    by (simp add: lexer_simps del: lex_std_body.simps)
qed

lemma lex_e_body_json_esc:
  "rest = [] \<or> hd rest \<noteq> squote \<Longrightarrow> lex_e_body (concat (map json_esc j) @ squote # rest) = Some (j, rest)"
proof (induction j)
  case Nil
  then show ?case by (simp add: lexer_simps)
next
  case (Cons c cs)
  then show ?case
    by (simp add: json_esc_def lexer_simps del: lex_e_body.simps)
qed

lemma takeWhile_digits_stop:
  assumes "\<forall>c \<in> set ds. is_digit c" and "rest = [] \<or> \<not> is_digit (hd rest)"
  shows "takeWhile is_digit (ds @ rest) = ds" and "dropWhile is_digit (ds @ rest) = rest"
  using assms by (cases rest; simp add: takeWhile_append2 dropWhile_append2)+

lemma nat_dec_Cons: "\<exists>c cs. nat_dec n = c # cs \<and> is_digit c"
  using nat_dec_nonempty [of n] nat_dec_digits [of n] by (cases "nat_dec n") auto

lemma lex_int_int_dec:
  assumes "rest = [] \<or> \<not> is_digit (hd rest)"
  shows "lex_int (int_dec i @ rest) = Some (i, rest)"
proof (cases "i < 0")
  case True
  have tw: "takeWhile is_digit (nat_dec (nat (- i)) @ rest) = nat_dec (nat (- i))"
    and dw: "dropWhile is_digit (nat_dec (nat (- i)) @ rest) = rest"
    using takeWhile_digits_stop [OF nat_dec_digits assms] by simp_all
  show ?thesis
    using True tw dw by (simp add: lex_int_def int_dec_neg digits_val_nat_dec)
next
  case False
  obtain c cs where c: "nat_dec (nat i) = c # cs" "is_digit c"
    using nat_dec_Cons by blast
  have tw: "takeWhile is_digit (nat_dec (nat i) @ rest) = nat_dec (nat i)"
    and dw: "dropWhile is_digit (nat_dec (nat i) @ rest) = rest"
    using takeWhile_digits_stop [OF nat_dec_digits assms] by simp_all
  have "c \<noteq> CHR ''-''" using c(2) by auto
  moreover have "int (digits_val (c # cs)) = i"
    using c(1) False digits_val_nat_dec [of "nat i"] by simp
  ultimately show ?thesis
    using False c tw dw by (simp add: lex_int_def int_dec_nonneg)
qed

lemma int_dec_head: "\<exists>c cs. int_dec i = c # cs \<and> (c = CHR ''-'' \<or> is_digit c)"
proof (cases "i < 0")
  case True then show ?thesis by (simp add: int_dec_def)
next
  case False then show ?thesis using nat_dec_Cons [of "nat i"] by (auto simp: int_dec_def)
qed

lemma digit_not_letter: "is_digit c \<Longrightarrow> c \<noteq> CHR ''N'' \<and> c \<noteq> CHR ''t'' \<and> c \<noteq> CHR ''f'' \<and> c \<noteq> CHR ''E'' \<and> c \<noteq> squote"
  by (auto simp: is_digit_def less_eq_char_def)

lemma lex_value_int_dec [lexer_simps]:
  assumes "lit_stop rest"
  shows "lex_value (int_dec i @ rest) = Some (SInt i, rest)"
proof -
  obtain c cs where c: "int_dec i = c # cs" "c = CHR ''-'' \<or> is_digit c"
    using int_dec_head by blast
  have nl: "c \<noteq> CHR ''N'' \<and> c \<noteq> CHR ''t'' \<and> c \<noteq> CHR ''f'' \<and> c \<noteq> CHR ''E'' \<and> c \<noteq> squote"
    using c(2) digit_not_letter by auto
  have "lex_int (int_dec i @ rest) = Some (i, rest)"
    using assms by (intro lex_int_int_dec) simp
  then show ?thesis
    using nl c(1) by (simp add: lex_value_def)
qed

lemma lex_value_NULL [lexer_simps]:
  "lex_value (CHR ''N'' # CHR ''U'' # CHR ''L'' # CHR ''L'' # rest) = Some (SNull, rest)"
  by (simp add: lex_value_def)

lemma lex_value_squote [lexer_simps]:
  "lex_value (squote # r) = map_option (\<lambda>(t, rest). (SText t, rest)) (lex_std_body r)"
  by (simp add: lex_value_def)

lemma lex_value_E [lexer_simps]:
  "lex_value (CHR ''E'' # squote # r) = map_option (\<lambda>(t, rest). (SText t, rest)) (lex_e_body r)"
  by (simp add: lex_value_def)

lemma length_nat_dec_le: "n < 10 ^ k \<Longrightarrow> 0 < k \<Longrightarrow> length (nat_dec n) \<le> k"
proof (induction n arbitrary: k rule: nat_dec.induct)
  case (1 n)
  show ?case
  proof (cases "n < 10")
    case True
    with "1.prems" show ?thesis by (subst nat_dec.simps) simp
  next
    case False
    then obtain k' where k: "k = Suc k'" using "1.prems" by (cases k) auto
    with False "1.prems" have "n div 10 < 10 ^ k'" by (simp add: less_mult_imp_div_less mult.commute)
    moreover from False "1.prems" k have "0 < k'"
      by (cases k') auto
    ultimately have "length (nat_dec (n div 10)) \<le> k'" using "1.IH" False by blast
    with False k show ?thesis by (subst nat_dec.simps) simp
  qed
qed

section \<open>Column encoders, in the form the synthesizer uses\<close>

lemma lexes_to_int: "lexes_to (GInt v) (SInt (sint v))"
  by (simp add: lexes_to_def lexer_simps)

lemma lexes_to_bool: "lexes_to (GBool b) (SBool b)"
  by (simp add: lexes_to_def lex_value_def)

lemma lexes_to_safe_str: "lexes_to (GStr (null_if_empty (GStr (safe_string s)))) (str_column s)"
  by (auto simp: lexes_to_def str_column_def lexer_simps lex_std_body_safe_string)

lemma lexes_to_plain_str: "squote \<notin> set s \<Longrightarrow> lexes_to (GStr (null_if_empty (GStr s))) (str_column s)"
  using lexes_to_safe_str [of s] by (simp add: safe_string_id)

lemma lexes_to_json: "lexes_to (GStr (safe_json_string j)) (SText j)"
  by (auto simp: lexes_to_def safe_json_string_esc lexer_simps lex_e_body_json_esc)

lemma str_column_Nil [simp]: "str_column [] = SNull"
  by (simp add: str_column_def)

lemma lexes_to_empty_str: "lexes_to (GStr (null_if_empty (GStr []))) SNull"
  using lexes_to_plain_str [of "[]"] by simp

lemmas lexes_to_rules = lexes_to_int lexes_to_bool lexes_to_safe_str lexes_to_plain_str lexes_to_json
  lexes_to_empty_str

section \<open>Formatting with \<open>%v\<close>\<close>

lemma sprintf_v_other: "c \<noteq> CHR ''%'' \<Longrightarrow> sprintf_v (c # fmt) args = c # sprintf_v fmt args"
  by (cases fmt) auto

lemma sprintf_v_lit: "CHR ''%'' \<notin> set lit \<Longrightarrow> sprintf_v (lit @ fmt) args = lit @ sprintf_v fmt args"
  by (induction lit) (auto simp: sprintf_v_other)

lemma sprintf_v_verbs:
  "length args = Suc n \<Longrightarrow>
   sprintf_v (join_with '', '' (replicate (Suc n) ''%v'') @ tail) args = join_with '', '' (map fmt_v args) @ sprintf_v tail []"
proof (induction n arbitrary: args)
  case 0
  then obtain a where "args = [a]" by (cases args) auto
  then show ?case by simp
next
  case (Suc n)
  then obtain a rest where a: "args = a # rest" and "length rest = Suc n" by (cases args) auto
  with Suc.IH have "sprintf_v (join_with '', '' (replicate (Suc n) ''%v'') @ tail) rest =
                    join_with '', '' (map fmt_v rest) @ sprintf_v tail []" by blast
  moreover obtain b rest' where "rest = b # rest'" using \<open>length rest = Suc n\<close> by (cases rest) auto
  ultimately show ?case using a by (simp add: sprintf_v_other)
qed

section \<open>Properties of the Literal Encoder\<close>

text \<open>
  C5. Quote escaping is reversible and injection-safe: the literal \<open>'SafeString(s)'\<close> is
  read back by PostgreSQL as exactly \<open>s\<close>, and the literal ends at the closing quote the
  encoder wrote, whatever \<open>s\<close> contains, so nothing of the rest of the statement is
  absorbed into it and nothing of \<open>s\<close> escapes from it.
\<close>

theorem safe_string_roundtrip:
  "lit_stop rest \<Longrightarrow> lex_value (squote # safe_string s @ squote # rest) = Some (SText s, rest)"
  by (simp add: lexer_simps lex_std_body_safe_string)

text \<open>
  C6. JSON escaping is reversible: \<open>SafeJsonString(j)\<close> is an \<open>E'...'\<close> literal whose
  backslash and quote unescaping yields exactly \<open>j\<close>, for every JSON text \<open>j\<close>,
  backslashes and quotes included.
\<close>

theorem safe_json_string_roundtrip:
  "lit_stop rest \<Longrightarrow> lex_value (safe_json_string j @ rest) = Some (SText j, rest)"
  by (simp add: safe_json_string_esc lexer_simps lex_e_body_json_esc)

text \<open>
  C25. A string column encoded as \<open>NullIfEmpty(SafeString(s))\<close> is read back as SQL NULL
  when \<open>s\<close> is empty or the text \<open>[]\<close>, and as the text \<open>s\<close> otherwise.
\<close>

theorem null_if_empty_safe_column:
  "lit_stop rest \<Longrightarrow>
   lex_value (null_if_empty (GStr (safe_string s)) @ rest) = Some (str_column s, rest)"
  by (auto simp: str_column_def lexer_simps lex_std_body_safe_string)

text \<open>
  The integer branch of \<open>NullIfEmpty\<close>: zero is written as NULL, every other value
  as its exact decimal text, which the consumer reads back as the same signed value.
\<close>

theorem null_if_empty_int_roundtrip:
  "lit_stop rest \<Longrightarrow>
   lex_value (null_if_empty (GInt v) @ rest) = Some (if v = 0 then SNull else SInt (sint v), rest)"
  by (simp add: lexer_simps)



text \<open>
  The \<open>%v\<close> text of a Go \<open>int\<close> column has at most 20 characters: a sign and at
  most 19 digits, since every 64-bit signed value is below \<open>10^19\<close> in magnitude.
\<close>

theorem fmt_v_int_length: "length (fmt_v (GInt v)) \<le> 20"
proof -
  have lo: "- (2 ^ 63) \<le> sint v" and hi: "sint v < 2 ^ 63"
    using sint_ge [of v] sint_lt [of v] by simp_all
  have "nat \<bar>sint v\<bar> < 10 ^ 19"
    using lo hi by (simp add: nat_less_iff)
  then have "length (nat_dec (nat \<bar>sint v\<bar>)) \<le> 19"
    by (rule length_nat_dec_le) simp
  then show ?thesis
    by (cases "sint v < 0") (simp_all add: int_dec_def)
qed

section \<open>Witnesses\<close>

theorem safe_string_roundtrip_witness:
  "lit_stop '', 7)'' \<and>
   lex_value (squote # safe_string [CHR ''O'', squote, CHR ''B''] @ squote # '', 7)'') =
   Some (SText [CHR ''O'', squote, CHR ''B''], '', 7)'')"
  using safe_string_roundtrip [of "'', 7)''" "[CHR ''O'', squote, CHR ''B'']"]
  by (simp add: lit_stop_def)

theorem safe_json_string_roundtrip_witness:
  "lit_stop '');'' \<and>
   lex_value (safe_json_string [CHR ''a'', bslash, squote, dquote] @ '');'') =
   Some (SText [CHR ''a'', bslash, squote, dquote], '');'')"
  using safe_json_string_roundtrip [of "'');''" "[CHR ''a'', bslash, squote, dquote]"]
  by (simp add: lit_stop_def)

theorem null_if_empty_safe_column_witness:
  "lit_stop '', 1)'' \<and>
   lex_value (null_if_empty (GStr (safe_string ''[]'')) @ '', 1)'') = Some (SNull, '', 1)'')"
  using null_if_empty_safe_column [of "'', 1)''" "''[]''"]
  by (simp add: lit_stop_def str_column_def)

theorem null_if_empty_int_roundtrip_witness:
  "lit_stop '')'' \<and>
   lex_value (null_if_empty (GInt (-42)) @ '')'') = Some (SInt (-42), '')'')"
  using null_if_empty_int_roundtrip [of "'')''" "-42"]
  by (simp add: lit_stop_def)

end
