(* ===== verification/Json.thy ===== *)
theory Json
  imports Prelude
begin

text \<open>
  Go's \<open>encoding/json\<close> as the code uses it: a decoded \<open>interface{}\<close> value is the
  datatype \<open>json\<close> (a JSON object decoded into \<open>map[string]interface{}\<close> is
  \<open>JObj\<close> with distinct keys; a number decoded into \<open>float64\<close> is \<open>JNum\<close> carrying
  the text \<open>json.Marshal\<close> prints for that float); \<open>json.Marshal\<close> is
  \<open>json_encode\<close>, with map keys sorted (\<open>iface_norm\<close>) and struct fields in
  declaration order. String escaping follows the encoder of Go 1.22 and later with HTML
  escaping on: quote and backslash get a backslash, \<open>\b \f \n \r \t\<close> their short forms,
  other control bytes and \<open><\<close>, \<open>>\<close>, \<open>&\<close> the form \<open>\u00XX\<close>, the line and
  paragraph separators U+2028 and U+2029 a backslash and \<open>u2028\<close>/\<open>u2029\<close>. Other bytes are
  copied; this is Go's behaviour on valid UTF-8, which every string produced by
  \<open>json.Unmarshal\<close> is. This theory models a library the code calls, not code of the
  repository.
\<close>

datatype json = JNull | JBool bool | JNum string | JStr string | JArr "json list"
  | JObj "(string \<times> json) list"

text \<open>A Go slice that may be nil (\<open>None\<close>, marshalled as \<open>null\<close>).\<close>

type_synonym 'a go_slice = "'a list option"

definition slice_items :: "'a go_slice \<Rightarrow> 'a list" where
  "slice_items s = (case s of None \<Rightarrow> [] | Some xs \<Rightarrow> xs)"

definition hex_digit :: "nat \<Rightarrow> char" where
  "hex_digit n = (''0123456789abcdef'') ! (n mod 16)"

definition json_escape_byte :: "char \<Rightarrow> string" where
  "json_escape_byte c =
     (if c = dquote \<or> c = bslash then [bslash, c]
      else if c = CHR 0x08 then [bslash, CHR ''b''] else if c = CHR 0x0C then [bslash, CHR ''f'']
      else if c = CHR 0x0A then [bslash, CHR ''n''] else if c = CHR 0x0D then [bslash, CHR ''r'']
      else if c = CHR 0x09 then [bslash, CHR ''t'']
      else if of_char c < (32::nat) \<or> c = CHR ''<'' \<or> c = CHR ''>'' \<or> c = CHR ''&''
      then [bslash, CHR ''u'', CHR ''0'', CHR ''0'', hex_digit (of_char c div 16), hex_digit (of_char c)]
      else [c])"

fun json_escape :: "string \<Rightarrow> string" where
  "json_escape [] = []"
| "json_escape (c # cs) =
     (if c = CHR 0xE2 \<and> take 2 cs = [CHR 0x80, CHR 0xA8] then bslash # ''u2028'' @ json_escape (drop 2 cs)
      else if c = CHR 0xE2 \<and> take 2 cs = [CHR 0x80, CHR 0xA9] then bslash # ''u2029'' @ json_escape (drop 2 cs)
      else json_escape_byte c @ json_escape cs)"

definition json_quote :: "string \<Rightarrow> string" where
  "json_quote s = [dquote] @ json_escape s @ [dquote]"

fun json_encode :: "json \<Rightarrow> string" where
  "json_encode JNull = ''null''"
| "json_encode (JBool b) = (if b then ''true'' else ''false'')"
| "json_encode (JNum t) = t"
| "json_encode (JStr s) = json_quote s"
| "json_encode (JArr vs) = ''['' @ join_with '','' (map json_encode vs) @ '']''"
| "json_encode (JObj kvs) =
     ''{'' @ join_with '','' (map (\<lambda>(k, v). json_quote k @ '':'' @ json_encode v) kvs) @ ''}''"

text \<open>A decoded map is marshalled with its keys in sorted byte order, at every depth.\<close>

fun iface_norm :: "json \<Rightarrow> json" where
  "iface_norm (JArr vs) = JArr (map iface_norm vs)"
| "iface_norm (JObj kvs) = JObj (sort_key fst (map (\<lambda>(k, v). (k, iface_norm v)) kvs))"
| "iface_norm v = v"

definition marshal_iface :: "json \<Rightarrow> string" where
  "marshal_iface v = json_encode (iface_norm v)"

text \<open>Field encoders for the Go types that appear in the order structs.\<close>

definition int_json :: "int64 \<Rightarrow> json" where
  "int_json v = JNum (int_dec (sint v))"

definition str_ptr_json :: "string option \<Rightarrow> json" where
  "str_ptr_json p = (case p of None \<Rightarrow> JNull | Some s \<Rightarrow> JStr s)"

definition slice_json :: "('a \<Rightarrow> json) \<Rightarrow> 'a go_slice \<Rightarrow> json" where
  "slice_json enc s = (case s of None \<Rightarrow> JNull | Some xs \<Rightarrow> JArr (map enc xs))"

text \<open>A decoded object is well formed when no key occurs twice, at every depth.\<close>

fun json_wf :: "json \<Rightarrow> bool" where
  "json_wf (JArr vs) = (\<forall>v \<in> set vs. json_wf v)"
| "json_wf (JObj kvs) = (distinct (map fst kvs) \<and> (\<forall>(k, v) \<in> set kvs. json_wf v))"
| "json_wf v = True"

text \<open>Lookup of a key in a decoded map, as Go's \<open>m[k]\<close> with the comma-ok form.\<close>

definition obj_get :: "(string \<times> json) list \<Rightarrow> string \<Rightarrow> json option" where
  "obj_get kvs k = map_of kvs k"

lemma slice_items_simps [simp]: "slice_items None = []" "slice_items (Some xs) = xs"
  by (simp_all add: slice_items_def)

end
