(* ===== verification/Orders.thy ===== *)
theory Orders
  imports Json
begin

text \<open>
  The order data model of \<open>src/internal/handler/model/ppob.go\<close> and
  \<open>src/internal/handler/model/nonppob.go\<close>: one record per Go struct, fields in
  declaration order and prefixed by the struct (record fields are global names in HOL).
  Go \<open>string\<close> is \<open>string\<close>, \<open>int\<close> is a 64-bit word, \<open>bool\<close> is \<open>bool\<close>,
  \<open>*string\<close> is \<open>string option\<close>, \<open>interface{}\<close> is a decoded \<open>json\<close> value and a
  slice is a \<open>go_slice\<close> (nil or a list). For every struct the theory also gives its
  \<open>json.Marshal\<close> encoding, read off the \<open>json:"..."\<close> tags: the keys in field
  order, \<open>interface{}\<close> fields marshalled as decoded maps. The field \<open>MetadataRaw\<close>
  (tag \<open>json:"-"\<close>) is never marshalled. The types \<open>AggregatorMetadata\<close> and
  \<open>Aggregator\<close> of \<open>ppob.go\<close>, which the code declares but never uses, are modelled
  with their encoders (theory \<open>Metadata\<close> relates them to the extractor).
\<close>

section \<open>PPOB\<close>

record ppob_customer =
  pc_id :: string
  pc_name :: string
  pc_type :: string
  pc_phone :: string

record ppob_product =
  pp_id :: string
  pp_name :: string
  pp_category :: string

record ppob_category =
  pcat_id :: string
  pcat_name :: string

record ppob_payment =
  ppay_reference_id :: string
  ppay_channel :: string
  ppay_payment_code :: string
  ppay_payment_gateway :: string
  ppay_metadata :: json

record ppob_commission_fee =
  pcf_jatis :: int64
  pcf_aggregator :: int64
  pcf_biller :: int64

record ppob_inquiry =
  inq_id :: string
  inq_account_ref :: string
  inq_expiry :: string
  inq_response :: json
  inq_created_at :: string
  inq_updated_at :: "string option"
  inq_deleted_at :: "string option"

record ppob_order_detail =
  pd_id :: string
  pd_item_id :: string
  pd_item_parent_id :: string
  pd_inquiry :: ppob_inquiry
  pd_item_name :: string
  pd_nominal :: int64
  pd_transaction_status :: string
  pd_price :: int64
  pd_tax :: int64
  pd_fee :: int64
  pd_reference :: string
  pd_metadata :: json
  pd_created_at :: string
  pd_updated_at :: string
  pd_updated_by :: string
  pd_product_code :: string

record ppob_order_history =
  ph_id :: string
  ph_status :: string
  ph_metadata :: json
  ph_created_at :: string
  ph_created_by :: string

record ppob_order =
  po_id :: string
  po_reference_id :: string
  po_customer :: ppob_customer
  po_product :: ppob_product
  po_category :: ppob_category
  po_payment :: ppob_payment
  po_commission_fee :: ppob_commission_fee
  po_amount :: int64
  po_service_fee :: int64
  po_payment_fee :: int64
  po_total_tax :: int64
  po_total_fee :: int64
  po_total :: int64
  po_payment_status :: string
  po_order_status :: string
  po_expired_at :: string
  po_created_at :: string
  po_updated_at :: string
  po_source :: string
  po_details :: "ppob_order_detail go_slice"
  po_history :: "ppob_order_history go_slice"
  po_metadata :: json
  po_metadata_raw :: string

definition ppob_inquiry_json :: "ppob_inquiry \<Rightarrow> json" where
  "ppob_inquiry_json i = JObj
     [(''id'', JStr (inq_id i)), (''account_ref'', JStr (inq_account_ref i)),
      (''expiry'', JStr (inq_expiry i)), (''response'', iface_norm (inq_response i)),
      (''created_at'', JStr (inq_created_at i)), (''updated_at'', str_ptr_json (inq_updated_at i)),
      (''deleted_at'', str_ptr_json (inq_deleted_at i))]"

definition ppob_detail_json :: "ppob_order_detail \<Rightarrow> json" where
  "ppob_detail_json d = JObj
     [(''id'', JStr (pd_id d)), (''item_id'', JStr (pd_item_id d)),
      (''item_parent_id'', JStr (pd_item_parent_id d)), (''inquiry'', ppob_inquiry_json (pd_inquiry d)),
      (''item_name'', JStr (pd_item_name d)), (''nominal'', int_json (pd_nominal d)),
      (''transaction_status'', JStr (pd_transaction_status d)), (''price'', int_json (pd_price d)),
      (''tax'', int_json (pd_tax d)), (''fee'', int_json (pd_fee d)),
      (''reference'', JStr (pd_reference d)), (''metadata'', iface_norm (pd_metadata d)),
      (''created_at'', JStr (pd_created_at d)), (''updated_at'', JStr (pd_updated_at d)),
      (''updated_by'', JStr (pd_updated_by d)), (''product_code'', JStr (pd_product_code d))]"

definition ppob_history_json :: "ppob_order_history \<Rightarrow> json" where
  "ppob_history_json h = JObj
     [(''id'', JStr (ph_id h)), (''status'', JStr (ph_status h)),
      (''metadata'', iface_norm (ph_metadata h)), (''created_at'', JStr (ph_created_at h)),
      (''created_by'', JStr (ph_created_by h))]"

text \<open>
  \<open>AggregatorMetadata\<close> and \<open>Aggregator\<close>, the typed form of the aggregator part of an
  order's metadata (the code reads that part untyped, theory \<open>Metadata\<close>); a nil
  pointer under \<open>omitempty\<close> is left out.
\<close>

record aggregator =
  ag_id :: string
  ag_name :: string
  ag_contact :: string

record aggregator_metadata =
  am_aggregator :: "aggregator option"

definition aggregator_json :: "aggregator \<Rightarrow> json" where
  "aggregator_json a = JObj [(''id'', JStr (ag_id a)), (''name'', JStr (ag_name a)), (''contact'', JStr (ag_contact a))]"

definition aggregator_metadata_json :: "aggregator_metadata \<Rightarrow> json" where
  "aggregator_metadata_json m =
     JObj (case am_aggregator m of None \<Rightarrow> [] | Some a \<Rightarrow> [(''aggregator'', aggregator_json a)])"

section \<open>Non-PPOB\<close>

record tenant =
  tenant_id :: string
  tenant_name :: string

record store =
  store_id :: string
  store_name :: string

record nonppob_customer =
  nc_id :: string
  nc_name :: string
  nc_phone :: string
  nc_address :: string

record delivery =
  dl_method :: string
  dl_reference_id :: string
  dl_delivery_url :: "string option"
  dl_metadata :: json

record nonppob_payment =
  np_reference_id :: string
  np_channel :: string
  np_payment_code :: string
  np_payment_gateway :: string
  np_metadata :: json

record commission_fee =
  cf_jatis :: int64
  cf_aggregator :: int64
  cf_biller :: int64

record nonppob_order_detail =
  nd_id :: int64
  nd_count :: int64
  nd_deducted :: bool
  nd_note :: string
  nd_item_id :: string
  nd_item_name :: string
  nd_base_price :: int64
  nd_price :: int64
  nd_discount :: int64
  nd_created_at :: string
  nd_updated_at :: string

record nonppob_order_history =
  nh_id :: int64
  nh_order_id :: int64
  nh_order_status :: string
  nh_description :: string
  nh_metadata :: json
  nh_created_at :: string

record nonppob_order =
  no_id :: string
  no_reference_id :: string
  no_tenant :: tenant
  no_store :: store
  no_customer :: nonppob_customer
  no_delivery :: delivery
  no_payment :: nonppob_payment
  no_item_qty :: int64
  no_amount :: int64
  no_voucher_code :: string
  no_voucher_amount :: int64
  no_service_fee :: int64
  no_payment_fee :: int64
  no_delivery_fee :: int64
  no_discount :: int64
  no_insurance_fee :: int64
  no_total_before_tax :: int64
  no_total_tax :: int64
  no_total :: int64
  no_is_paid :: bool
  no_payment_status :: string
  no_order_status :: string
  no_expired_at :: string
  no_created_at :: string
  no_updated_at :: string
  no_referral_code :: string
  no_commission_fee :: commission_fee
  no_details :: "nonppob_order_detail go_slice"
  no_history :: "nonppob_order_history go_slice"
  no_metadata :: json
  no_metadata_raw :: string

definition nonppob_detail_json :: "nonppob_order_detail \<Rightarrow> json" where
  "nonppob_detail_json d = JObj
     [(''id'', int_json (nd_id d)), (''count'', int_json (nd_count d)),
      (''deducted'', JBool (nd_deducted d)), (''note'', JStr (nd_note d)),
      (''item_id'', JStr (nd_item_id d)), (''item_name'', JStr (nd_item_name d)),
      (''base_price'', int_json (nd_base_price d)), (''price'', int_json (nd_price d)),
      (''discount'', int_json (nd_discount d)), (''created_at'', JStr (nd_created_at d)),
      (''updated_at'', JStr (nd_updated_at d))]"

definition nonppob_history_json :: "nonppob_order_history \<Rightarrow> json" where
  "nonppob_history_json h = JObj
     [(''id'', int_json (nh_id h)), (''order_id'', int_json (nh_order_id h)),
      (''order_status'', JStr (nh_order_status h)), (''description'', JStr (nh_description h)),
      (''metadata'', iface_norm (nh_metadata h)), (''created_at'', JStr (nh_created_at h))]"

section \<open>Example orders\<close>

text \<open>
  A PPOB order whose customer phone carries a quote, and the Non-PPOB order of the
  specification's end-to-end scenario (section 8): delivery URL \<open>null\<close>, amount 50000,
  discount 0.
\<close>

definition ppob_injection_example :: ppob_order where
  "ppob_injection_example =
     \<lparr>po_id = ''O1'', po_reference_id = ''R1'',
      po_customer = \<lparr>pc_id = ''C1'', pc_name = ''Ann'', pc_type = ''member'',
                     pc_phone = [CHR ''0'', squote, CHR '','', CHR '' '', squote, CHR ''1'']\<rparr>,
      po_product = \<lparr>pp_id = [], pp_name = [], pp_category = []\<rparr>,
      po_category = \<lparr>pcat_id = [], pcat_name = []\<rparr>,
      po_payment = \<lparr>ppay_reference_id = ''P1'', ppay_channel = ''va'', ppay_payment_code = ''BCA'',
                    ppay_payment_gateway = ''pg'', ppay_metadata = JNull\<rparr>,
      po_commission_fee = \<lparr>pcf_jatis = 0, pcf_aggregator = 0, pcf_biller = 0\<rparr>,
      po_amount = 1000, po_service_fee = 0, po_payment_fee = 0, po_total_tax = 0, po_total_fee = 0,
      po_total = 1000, po_payment_status = [], po_order_status = [], po_expired_at = [],
      po_created_at = [], po_updated_at = [], po_source = [], po_details = None, po_history = None,
      po_metadata = JNull, po_metadata_raw = ''{}''\<rparr>"

definition ppob_example :: ppob_order where
  "ppob_example = ppob_injection_example
     \<lparr>po_customer := \<lparr>pc_id = ''C1'', pc_name = [CHR ''O'', squote, CHR ''N''], pc_type = ''member'',
                      pc_phone = ''0812''\<rparr>,
      po_product := \<lparr>pp_id = ''P9'', pp_name = ''Pulsa 10k'', pp_category = ''prepaid''\<rparr>,
      po_commission_fee := \<lparr>pcf_jatis = 100, pcf_aggregator = 50, pcf_biller = 25\<rparr>,
      po_metadata := JObj [(''aggregator'', JObj [(''id'', JStr ''A1''), (''name'', JStr ''Agg''),
                                                 (''contact'', JStr ''08123'')])]\<rparr>"

definition nonppob_spec_example :: nonppob_order where
  "nonppob_spec_example =
     \<lparr>no_id = ''N1'', no_reference_id = ''R1'', no_tenant = \<lparr>tenant_id = ''T1'', tenant_name = ''Tenant''\<rparr>,
      no_store = \<lparr>store_id = ''S1'', store_name = ''Store''\<rparr>,
      no_customer = \<lparr>nc_id = ''C1'', nc_name = ''Budi'', nc_phone = ''0812'', nc_address = ''Jl. Satu''\<rparr>,
      no_delivery = \<lparr>dl_method = ''pickup'', dl_reference_id = [], dl_delivery_url = None, dl_metadata = JNull\<rparr>,
      no_payment = \<lparr>np_reference_id = ''P1'', np_channel = ''va'', np_payment_code = ''BCA'',
                    np_payment_gateway = ''pg'', np_metadata = JNull\<rparr>,
      no_item_qty = 1, no_amount = 50000, no_voucher_code = [], no_voucher_amount = 0, no_service_fee = 0,
      no_payment_fee = 0, no_delivery_fee = 0, no_discount = 0, no_insurance_fee = 0,
      no_total_before_tax = 50000, no_total_tax = 0, no_total = 50000, no_is_paid = False,
      no_payment_status = ''pending'', no_order_status = ''new'', no_expired_at = [], no_created_at = [],
      no_updated_at = [], no_referral_code = [],
      no_commission_fee = \<lparr>cf_jatis = 0, cf_aggregator = 0, cf_biller = 0\<rparr>,
      no_details = Some [], no_history = None, no_metadata = JNull, no_metadata_raw = ''{}''\<rparr>"

end
