(* ===== verification/Metadata.thy ===== *)
theory Metadata
  imports Orders
begin

text \<open>
  The Nested Metadata Extractor (spec 4.2): \<open>extractAggregatorMetadata\<close> of
  \<open>src/internal/usecase/ppob.go\<close> and the first-detail account reference and the
  product/category lookups that \<open>Create\<close> performs before formatting. Every failed Go
  type assertion or missing key is a branch that yields the empty string. The abstract
  specification is a path lookup in the decoded JSON value (\<open>json_path\<close>): the extractor
  returns the strings found at \<open>aggregator.id\<close>, \<open>aggregator.name\<close> and
  \<open>aggregator.contact\<close>, and the empty string wherever the path is missing or does not
  end in a string.
\<close>

definition json_string_field :: "(string \<times> json) list \<Rightarrow> string \<Rightarrow> string" where
  "json_string_field agg k = (case obj_get agg k of Some (JStr s) \<Rightarrow> s | _ \<Rightarrow> [])"

fun extract_aggregator_metadata :: "json \<Rightarrow> string \<times> string \<times> string" where
  "extract_aggregator_metadata JNull = ([], [], [])"
| "extract_aggregator_metadata (JObj metadata_map) =
     (case obj_get metadata_map ''aggregator'' of
        None \<Rightarrow> ([], [], [])
      | Some (JObj agg) \<Rightarrow>
          (json_string_field agg ''id'', json_string_field agg ''name'', json_string_field agg ''contact'')
      | Some _ \<Rightarrow> ([], [], []))"
| "extract_aggregator_metadata _ = ([], [], [])"

text \<open>\<open>accountRef\<close>: the inquiry's account reference of the first detail, if there is one.\<close>

definition ppob_account_ref :: "ppob_order \<Rightarrow> string" where
  "ppob_account_ref order =
     (if length (slice_items (po_details order)) > 0
      then inq_account_ref (pd_inquiry (hd (slice_items (po_details order)))) else [])"

text \<open>Product and category fields are taken only when the product (category) id is set.\<close>

definition ppob_product_info :: "ppob_order \<Rightarrow> string \<times> string \<times> string" where
  "ppob_product_info order =
     (if pp_id (po_product order) \<noteq> []
      then (pp_id (po_product order), pp_name (po_product order), pp_category (po_product order))
      else ([], [], []))"

definition ppob_category_info :: "ppob_order \<Rightarrow> string \<times> string" where
  "ppob_category_info order =
     (if pcat_id (po_category order) \<noteq> []
      then (pcat_id (po_category order), pcat_name (po_category order)) else ([], []))"

section \<open>Specification: lookup along a path of keys\<close>

fun json_path :: "json \<Rightarrow> string list \<Rightarrow> json option" where
  "json_path v [] = Some v"
| "json_path (JObj m) (k # ks) = (case obj_get m k of None \<Rightarrow> None | Some v \<Rightarrow> json_path v ks)"
| "json_path _ (k # ks) = None"

definition json_path_str :: "json \<Rightarrow> string list \<Rightarrow> string" where
  "json_path_str v p = (case json_path v p of Some (JStr s) \<Rightarrow> s | _ \<Rightarrow> [])"

text \<open>The extractor reads back the fields of a typed \<open>AggregatorMetadata\<close> encoded by \<open>json.Marshal\<close>.\<close>

lemma extract_aggregator_metadata_typed:
  "extract_aggregator_metadata (aggregator_metadata_json m) =
     (case am_aggregator m of None \<Rightarrow> ([], [], []) | Some a \<Rightarrow> (ag_id a, ag_name a, ag_contact a))"
  by (simp add: aggregator_metadata_json_def aggregator_json_def obj_get_def json_string_field_def
      split: option.splits)

lemma json_string_field_path: "json_string_field agg k = json_path_str (JObj agg) [k]"
  by (simp add: json_string_field_def json_path_str_def split: option.splits json.splits)

text \<open>
  C20. The extractor is the path lookup: for every decoded metadata value, whatever its
  shape, it returns the strings at \<open>aggregator.id\<close>, \<open>aggregator.name\<close> and
  \<open>aggregator.contact\<close>, each the empty string where the path is absent, passes through a
  non-object or ends in a non-string. It never fails.
\<close>

theorem extract_aggregator_metadata_spec:
  "extract_aggregator_metadata m =
     (json_path_str m [''aggregator'', ''id''], json_path_str m [''aggregator'', ''name''],
      json_path_str m [''aggregator'', ''contact''])"
proof (cases m)
  case (JObj kvs)
  then show ?thesis
    by (auto simp: json_path_str_def json_string_field_path split: option.splits json.splits)
qed (simp_all add: json_path_str_def)

text \<open>
  The examples of the specification (section 8): an aggregator object with all three
  fields yields them; an empty object, \<open>null\<close>, and an aggregator that is not an object
  yield three empty strings.
\<close>

theorem extract_aggregator_metadata_examples:
  "extract_aggregator_metadata
     (JObj [(''aggregator'', JObj [(''id'', JStr ''A1''), (''name'', JStr ''Agg''), (''contact'', JStr ''08123'')])])
     = (''A1'', ''Agg'', ''08123'') \<and>
   extract_aggregator_metadata (JObj []) = ([], [], []) \<and>
   extract_aggregator_metadata JNull = ([], [], []) \<and>
   extract_aggregator_metadata (JObj [(''aggregator'', JStr ''A1'')]) = ([], [], []) \<and>
   extract_aggregator_metadata (JObj [(''aggregator'', JObj [(''id'', JNum ''7'')])]) = ([], [], [])"
  by (simp add: obj_get_def json_string_field_def)

end
