(* ===== verification/Command.thy ===== *)
theory Command
  imports Literal Metadata
begin

text \<open>
  The Command Synthesizer (spec 4.4): the statement-building part of \<open>Create\<close> in
  \<open>src/internal/usecase/ppob.go\<close> and \<open>src/internal/usecase/nonppob.go\<close>. Each
  \<open>Create\<close> computes its locals (the JSON texts of details, history and metadata, the
  extracted aggregator, product, category, account reference and delivery URL) and calls
  \<open>fmt.Sprintf\<close> with a fixed format and one argument per column; the model keeps the
  format string verbatim (\<open>ppob_insert_format\<close>, \<open>nonppob_insert_format\<close>) and the
  argument list in source order (\<open>ppob_sprintf_args\<close>, \<open>nonppob_sprintf_args\<close>).
  \<open>json.Marshal\<close> of the schema-typed details and history and of decoded metadata cannot
  fail (no channel, function or non-finite float can occur in them), so the error returns
  after the two \<open>json.Marshal\<close> calls are unreachable and not modelled.

  The specification is the column table \<open>ppob_row\<close> / \<open>nonppob_row\<close>: for every
  column name, in wire order, the SQL value the downstream consumer must store. The
  refinement theorems state that the consumer's parse of the synthesized text (theory
  \<open>Sql\<close>) yields exactly the table's column names and values, under the one
  hypothesis the code needs: the fields it passes to \<open>NullIfEmpty\<close> without
  \<open>SafeString\<close> contain no single quote.
\<close>

section \<open>PPOB\<close>

definition ppob_insert_format :: string where
  "ppob_insert_format = ''INSERT INTO orders_ppob (id, reference_id, customer_id, customer_name, customer_type, customer_phone, product_id, product_name, product_category, category_id, category_name, account_ref, payment_reference, payment_channel, payment_code, payment_gateway, payment_metadata, amount, commission_jatis, commission_biller, commission_aggregator, service_fee, payment_fee, total_tax, total_fee, total, payment_status, order_status, source, expired_at, created_at, updated_at, aggregator_id, aggregator_name, aggregator_phone, metadata, details, history, metadata_source) VALUES(%v, %v, %v, %v, %v, %v, %v, %v, %v, %v, %v, %v, %v, %v, %v, %v, %v, %v, %v, %v, %v, %v, %v, %v, %v, %v, %v, %v, %v, %v, %v, %v, %v, %v, %v, %v, %v, %v, %v);''"

definition ppob_sprintf_args :: "ppob_order \<Rightarrow> go_value list" where
  "ppob_sprintf_args order =
     (let details_json = json_encode (slice_json ppob_detail_json (po_details order));
          history_json = json_encode (slice_json ppob_history_json (po_history order));
          (aggregator_id, aggregator_name, aggregator_phone) = extract_aggregator_metadata (po_metadata order);
          (product_id, product_name, product_category) = ppob_product_info order;
          (category_id, category_name) = ppob_category_info order;
          account_ref = ppob_account_ref order;
          metadata_json = marshal_iface (po_metadata order);
          payment_metadata_json = marshal_iface (ppay_metadata (po_payment order))
      in [GStr (null_if_empty (GStr (po_id order))),
       GStr (null_if_empty (GStr (po_reference_id order))),
       GStr (null_if_empty (GStr (pc_id (po_customer order)))),
       GStr (null_if_empty (GStr (safe_string (pc_name (po_customer order))))),
       GStr (null_if_empty (GStr (safe_string (pc_type (po_customer order))))),
       GStr (null_if_empty (GStr (pc_phone (po_customer order)))),
       GStr (null_if_empty (GStr (product_id))),
       GStr (null_if_empty (GStr (safe_string (product_name)))),
       GStr (null_if_empty (GStr (safe_string (product_category)))),
       GStr (null_if_empty (GStr (category_id))),
       GStr (null_if_empty (GStr (safe_string (category_name)))),
       GStr (null_if_empty (GStr (account_ref))),
       GStr (null_if_empty (GStr (ppay_reference_id (po_payment order)))),
       GStr (null_if_empty (GStr (safe_string (ppay_channel (po_payment order))))),
       GStr (null_if_empty (GStr (safe_string (ppay_payment_code (po_payment order))))),
       GStr (null_if_empty (GStr (safe_string (ppay_payment_gateway (po_payment order))))),
       GStr (safe_json_string (payment_metadata_json)),
       GInt (po_amount order),
       GInt (pcf_jatis (po_commission_fee order)),
       GInt (pcf_biller (po_commission_fee order)),
       GInt (pcf_aggregator (po_commission_fee order)),
       GInt (po_service_fee order),
       GInt (po_payment_fee order),
       GInt (po_total_tax order),
       GInt (po_total_fee order),
       GInt (po_total order),
       GStr (null_if_empty (GStr (po_payment_status order))),
       GStr (null_if_empty (GStr (po_order_status order))),
       GStr (null_if_empty (GStr (po_source order))),
       GStr (null_if_empty (GStr (po_expired_at order))),
       GStr (null_if_empty (GStr (po_created_at order))),
       GStr (null_if_empty (GStr (po_updated_at order))),
       GStr (null_if_empty (GStr (aggregator_id))),
       GStr (null_if_empty (GStr (safe_string (aggregator_name)))),
       GStr (null_if_empty (GStr (aggregator_phone))),
       GStr (safe_json_string (metadata_json)),
       GStr (safe_json_string (details_json)),
       GStr (safe_json_string (history_json)),
       GStr (safe_json_string (po_metadata_raw order))])"

definition ppob_create_sql :: "ppob_order \<Rightarrow> string" where
  "ppob_create_sql order = sprintf_v ppob_insert_format (ppob_sprintf_args order)"

section \<open>Non-PPOB\<close>

definition nonppob_insert_format :: string where
  "nonppob_insert_format = ''INSERT INTO orders_nonppob (id, reference_id, customer_id, customer_name, customer_phone, customer_address, tenant_id, tenant_name, store_id, store_name, delivery_method, delivery_reference, delivery_fee, delivery_url, payment_reference, payment_channel, payment_code, payment_gateway, payment_fee, item_qty, amount, voucher_code, voucher_amount, discount, service_fee, insurance_fee, total_before_tax, total_tax, total, commission_jatis, commission_aggregator, commission_biller, referral_code, is_paid, payment_status, order_status, expired_at, created_at, updated_at, details, history, metadata_source) VALUES(%v, %v, %v, %v, %v, %v, %v, %v, %v, %v, %v, %v, %v, %v, %v, %v, %v, %v, %v, %v, %v, %v, %v, %v, %v, %v, %v, %v, %v, %v, %v, %v, %v, %v, %v, %v, %v, %v, %v, %v, %v, %v);''"

definition nonppob_sprintf_args :: "nonppob_order \<Rightarrow> go_value list" where
  "nonppob_sprintf_args order =
     (let details_json = json_encode (slice_json nonppob_detail_json (no_details order));
          history_json = json_encode (slice_json nonppob_history_json (no_history order));
          delivery_url = (case dl_delivery_url (no_delivery order) of None \<Rightarrow> [] | Some u \<Rightarrow> u)
      in [GStr (null_if_empty (GStr (no_id order))),
       GStr (null_if_empty (GStr (no_reference_id order))),
       GStr (null_if_empty (GStr (nc_id (no_customer order)))),
       GStr (null_if_empty (GStr (safe_string (nc_name (no_customer order))))),
       GStr (null_if_empty (GStr (nc_phone (no_customer order)))),
       GStr (null_if_empty (GStr (nc_address (no_customer order)))),
       GStr (null_if_empty (GStr (tenant_id (no_tenant order)))),
       GStr (null_if_empty (GStr (safe_string (tenant_name (no_tenant order))))),
       GStr (null_if_empty (GStr (store_id (no_store order)))),
       GStr (null_if_empty (GStr (safe_string (store_name (no_store order))))),
       GStr (null_if_empty (GStr (safe_string (dl_method (no_delivery order))))),
       GStr (null_if_empty (GStr (dl_reference_id (no_delivery order)))),
       GInt (no_delivery_fee order),
       GStr (null_if_empty (GStr (safe_string (delivery_url)))),
       GStr (null_if_empty (GStr (np_reference_id (no_payment order)))),
       GStr (null_if_empty (GStr (safe_string (np_channel (no_payment order))))),
       GStr (null_if_empty (GStr (safe_string (np_payment_code (no_payment order))))),
       GStr (null_if_empty (GStr (safe_string (np_payment_gateway (no_payment order))))),
       GInt (no_payment_fee order),
       GInt (no_item_qty order),
       GInt (no_amount order),
       GStr (null_if_empty (GStr (no_voucher_code order))),
       GInt (no_voucher_amount order),
       GInt (no_discount order),
       GInt (no_service_fee order),
       GInt (no_insurance_fee order),
       GInt (no_total_before_tax order),
       GInt (no_total_tax order),
       GInt (no_total order),
       GInt (cf_jatis (no_commission_fee order)),
       GInt (cf_aggregator (no_commission_fee order)),
       GInt (cf_biller (no_commission_fee order)),
       GStr (null_if_empty (GStr (no_referral_code order))),
       GBool (no_is_paid order),
       GStr (null_if_empty (GStr (no_payment_status order))),
       GStr (null_if_empty (GStr (no_order_status order))),
       GStr (null_if_empty (GStr (no_expired_at order))),
       GStr (null_if_empty (GStr (no_created_at order))),
       GStr (null_if_empty (GStr (no_updated_at order))),
       GStr (safe_json_string (details_json)),
       GStr (safe_json_string (history_json)),
       GStr (safe_json_string (no_metadata_raw order))])"

definition nonppob_create_sql :: "nonppob_order \<Rightarrow> string" where
  "nonppob_create_sql order = sprintf_v nonppob_insert_format (nonppob_sprintf_args order)"

section \<open>Specification: the column tables\<close>

definition ppob_row :: "ppob_order \<Rightarrow> (string \<times> sql_value) list" where
  "ppob_row order =
     [(''id'', str_column (po_id order)),
      (''reference_id'', str_column (po_reference_id order)),
      (''customer_id'', str_column (pc_id (po_customer order))),
      (''customer_name'', str_column (pc_name (po_customer order))),
      (''customer_type'', str_column (pc_type (po_customer order))),
      (''customer_phone'', str_column (pc_phone (po_customer order))),
      (''product_id'', str_column (pp_id (po_product order))),
      (''product_name'', (if pp_id (po_product order) = [] then SNull else str_column (pp_name (po_product order)))),
      (''product_category'', (if pp_id (po_product order) = [] then SNull else str_column (pp_category (po_product order)))),
      (''category_id'', str_column (pcat_id (po_category order))),
      (''category_name'', (if pcat_id (po_category order) = [] then SNull else str_column (pcat_name (po_category order)))),
      (''account_ref'', (case slice_items (po_details order) of [] \<Rightarrow> SNull | d # _ \<Rightarrow> str_column (inq_account_ref (pd_inquiry d)))),
      (''payment_reference'', str_column (ppay_reference_id (po_payment order))),
      (''payment_channel'', str_column (ppay_channel (po_payment order))),
      (''payment_code'', str_column (ppay_payment_code (po_payment order))),
      (''payment_gateway'', str_column (ppay_payment_gateway (po_payment order))),
      (''payment_metadata'', SText (marshal_iface (ppay_metadata (po_payment order)))),
      (''amount'', SInt (sint (po_amount order))),
      (''commission_jatis'', SInt (sint (pcf_jatis (po_commission_fee order)))),
      (''commission_biller'', SInt (sint (pcf_biller (po_commission_fee order)))),
      (''commission_aggregator'', SInt (sint (pcf_aggregator (po_commission_fee order)))),
      (''service_fee'', SInt (sint (po_service_fee order))),
      (''payment_fee'', SInt (sint (po_payment_fee order))),
      (''total_tax'', SInt (sint (po_total_tax order))),
      (''total_fee'', SInt (sint (po_total_fee order))),
      (''total'', SInt (sint (po_total order))),
      (''payment_status'', str_column (po_payment_status order)),
      (''order_status'', str_column (po_order_status order)),
      (''source'', str_column (po_source order)),
      (''expired_at'', str_column (po_expired_at order)),
      (''created_at'', str_column (po_created_at order)),
      (''updated_at'', str_column (po_updated_at order)),
      (''aggregator_id'', str_column (fst (extract_aggregator_metadata (po_metadata order)))),
      (''aggregator_name'', str_column (fst (snd (extract_aggregator_metadata (po_metadata order))))),
      (''aggregator_phone'', str_column (snd (snd (extract_aggregator_metadata (po_metadata order))))),
      (''metadata'', SText (marshal_iface (po_metadata order))),
      (''details'', SText (json_encode (slice_json ppob_detail_json (po_details order)))),
      (''history'', SText (json_encode (slice_json ppob_history_json (po_history order)))),
      (''metadata_source'', SText (po_metadata_raw order))]"

definition nonppob_row :: "nonppob_order \<Rightarrow> (string \<times> sql_value) list" where
  "nonppob_row order =
     [(''id'', str_column (no_id order)),
      (''reference_id'', str_column (no_reference_id order)),
      (''customer_id'', str_column (nc_id (no_customer order))),
      (''customer_name'', str_column (nc_name (no_customer order))),
      (''customer_phone'', str_column (nc_phone (no_customer order))),
      (''customer_address'', str_column (nc_address (no_customer order))),
      (''tenant_id'', str_column (tenant_id (no_tenant order))),
      (''tenant_name'', str_column (tenant_name (no_tenant order))),
      (''store_id'', str_column (store_id (no_store order))),
      (''store_name'', str_column (store_name (no_store order))),
      (''delivery_method'', str_column (dl_method (no_delivery order))),
      (''delivery_reference'', str_column (dl_reference_id (no_delivery order))),
      (''delivery_fee'', SInt (sint (no_delivery_fee order))),
      (''delivery_url'', (case dl_delivery_url (no_delivery order) of None \<Rightarrow> SNull | Some u \<Rightarrow> str_column u)),
      (''payment_reference'', str_column (np_reference_id (no_payment order))),
      (''payment_channel'', str_column (np_channel (no_payment order))),
      (''payment_code'', str_column (np_payment_code (no_payment order))),
      (''payment_gateway'', str_column (np_payment_gateway (no_payment order))),
      (''payment_fee'', SInt (sint (no_payment_fee order))),
      (''item_qty'', SInt (sint (no_item_qty order))),
      (''amount'', SInt (sint (no_amount order))),
      (''voucher_code'', str_column (no_voucher_code order)),
      (''voucher_amount'', SInt (sint (no_voucher_amount order))),
      (''discount'', SInt (sint (no_discount order))),
      (''service_fee'', SInt (sint (no_service_fee order))),
      (''insurance_fee'', SInt (sint (no_insurance_fee order))),
      (''total_before_tax'', SInt (sint (no_total_before_tax order))),
      (''total_tax'', SInt (sint (no_total_tax order))),
      (''total'', SInt (sint (no_total order))),
      (''commission_jatis'', SInt (sint (cf_jatis (no_commission_fee order)))),
      (''commission_aggregator'', SInt (sint (cf_aggregator (no_commission_fee order)))),
      (''commission_biller'', SInt (sint (cf_biller (no_commission_fee order)))),
      (''referral_code'', str_column (no_referral_code order)),
      (''is_paid'', SBool (no_is_paid order)),
      (''payment_status'', str_column (no_payment_status order)),
      (''order_status'', str_column (no_order_status order)),
      (''expired_at'', str_column (no_expired_at order)),
      (''created_at'', str_column (no_created_at order)),
      (''updated_at'', str_column (no_updated_at order)),
      (''details'', SText (json_encode (slice_json nonppob_detail_json (no_details order)))),
      (''history'', SText (json_encode (slice_json nonppob_history_json (no_history order)))),
      (''metadata_source'', SText (no_metadata_raw order))]"

text \<open>The fields each \<open>Create\<close> passes to \<open>NullIfEmpty\<close> without \<open>SafeString\<close>.\<close>

definition ppob_plain_fields :: "ppob_order \<Rightarrow> string list" where
  "ppob_plain_fields order =
     [po_id order, po_reference_id order, pc_id (po_customer order), pc_phone (po_customer order),
      pp_id (po_product order), pcat_id (po_category order), ppob_account_ref order,
      ppay_reference_id (po_payment order), po_payment_status order, po_order_status order,
      po_source order, po_expired_at order, po_created_at order, po_updated_at order,
      fst (extract_aggregator_metadata (po_metadata order)),
      snd (snd (extract_aggregator_metadata (po_metadata order)))]"

definition nonppob_plain_fields :: "nonppob_order \<Rightarrow> string list" where
  "nonppob_plain_fields order =
     [no_id order, no_reference_id order, nc_id (no_customer order), nc_phone (no_customer order),
      nc_address (no_customer order), tenant_id (no_tenant order), store_id (no_store order),
      dl_reference_id (no_delivery order), np_reference_id (no_payment order), no_voucher_code order,
      no_referral_code order, no_payment_status order, no_order_status order, no_expired_at order,
      no_created_at order, no_updated_at order]"

definition no_squote :: "string list \<Rightarrow> bool" where
  "no_squote strs \<longleftrightarrow> (\<forall>s \<in> set strs. squote \<notin> set s)"

section \<open>The statement as the consumer reads it\<close>

lemma lex_values_join:
  "list_all2 lexes_to args vs \<Longrightarrow> args \<noteq> [] \<Longrightarrow>
   lex_values (join_with '', '' (map fmt_v args) @ CHR '')'' # rest) = Some (vs, rest)"
proof (induction args vs rule: list_all2_induct)
  case Nil
  then show ?case by simp
next
  case (Cons a args v vs)
  show ?case
  proof (cases args)
    case Nil
    with Cons have "vs = []" by simp
    have "lex_value (fmt_v a @ CHR '')'' # rest) = Some (v, CHR '')'' # rest)"
      using Cons.hyps(1) by (simp add: lexes_to_def lit_stop_def)
    with Nil \<open>vs = []\<close> show ?thesis by (subst lex_values.simps) simp
  next
    case (Cons b bs)
    have "lex_value (fmt_v a @ '', '' @ join_with '', '' (map fmt_v args) @ CHR '')'' # rest) =
          Some (v, '', '' @ join_with '', '' (map fmt_v args) @ CHR '')'' # rest)"
      using Cons.hyps(1) by (simp add: lexes_to_def lit_stop_def)
    with Cons Cons.IH show ?thesis by (subst lex_values.simps) simp
  qed
qed

lemma parse_insert_build:
  assumes "CHR '' '' \<notin> set table" and "CHR '')'' \<notin> set cols"
    and "list_all2 lexes_to args vs" and "args \<noteq> []"
  shows "parse_insert (''INSERT INTO '' @ table @ '' ('' @ cols @ '') VALUES('' @
                       join_with '', '' (map fmt_v args) @ '');'') = Some (table, split_cols cols, vs)"
proof -
  have lv: "lex_values (join_with '', '' (map fmt_v args) @ CHR '')'' # '';'') = Some (vs, '';'')"
    using assms(3,4) by (rule lex_values_join)
  show ?thesis
    using assms(1,2) lv by (simp add: parse_insert_def Let_def)
qed

lemma sprintf_insert_parse:
  assumes fmt: "fmt = ''INSERT INTO '' @ table @ '' ('' @ join_with '', '' cols @ '') VALUES('' @
                      join_with '', '' (replicate (Suc n) ''%v'') @ '');''"
    and len: "length args = Suc n"
    and tbl: "CHR '' '' \<notin> set table" "CHR ''%'' \<notin> set table"
    and cols: "cols \<noteq> []" "\<forall>c \<in> set cols. good_column c"
    and lex: "list_all2 lexes_to args vs"
  shows "parse_insert (sprintf_v fmt args) = Some (table, cols, vs)"
proof -
  let ?C = "join_with '', '' cols"
  let ?P = "''INSERT INTO '' @ table @ '' ('' @ ?C @ '') VALUES(''"
  have pc: "CHR ''%'' \<notin> set ?C"
    using cols(2) by (intro join_with_no_char) (auto simp: good_column_def)
  have rc: "CHR '')'' \<notin> set ?C"
    using cols(2) by (intro join_with_no_char) (auto simp: good_column_def)
  have pre: "CHR ''%'' \<notin> set ?P" using tbl(2) pc by simp
  have sql_text: "sprintf_v fmt args = ''INSERT INTO '' @ table @ '' ('' @ ?C @ '') VALUES('' @
                                   join_with '', '' (map fmt_v args) @ '');''"
    using sprintf_v_lit [OF pre] sprintf_v_verbs [OF len] fmt by simp
  have split: "split_cols ?C = cols"
    using cols by (intro split_cols_join) (auto simp: good_column_def)
  have "args \<noteq> []" using len by auto
  with tbl(1) rc lex have "parse_insert (sprintf_v fmt args) = Some (table, split_cols ?C, vs)"
    unfolding sql_text by (rule parse_insert_build)
  with split show ?thesis by simp
qed

section \<open>PPOB: layout and arguments\<close>

lemma ppob_insert_format_layout:
  "ppob_insert_format = ''INSERT INTO '' @ ''orders_ppob'' @ '' ('' @ join_with '', '' (map fst (ppob_row order)) @
     '') VALUES('' @ join_with '', '' (replicate (Suc 38) ''%v'') @ '');''"
  by (simp add: ppob_insert_format_def ppob_row_def numeral_eq_Suc)

lemma ppob_sprintf_args_length: "length (ppob_sprintf_args order) = Suc 38"
  unfolding ppob_sprintf_args_def Let_def by (simp add: case_prod_beta)

lemma ppob_columns_good: "\<forall>c \<in> set (map fst (ppob_row order)). good_column c"
  by (simp add: ppob_row_def good_column_def)

lemma ppob_args_lex:
  assumes "no_squote (ppob_plain_fields order)"
  shows "list_all2 lexes_to (ppob_sprintf_args order) (map snd (ppob_row order))"
proof -
  obtain ai an ap where agg: "extract_aggregator_metadata (po_metadata order) = (ai, an, ap)"
    by (cases "extract_aggregator_metadata (po_metadata order)") auto
  show ?thesis
    using assms agg
    by (cases "slice_items (po_details order)")
       (simp_all add: ppob_sprintf_args_def ppob_row_def Let_def ppob_product_info_def ppob_category_info_def
         ppob_account_ref_def no_squote_def ppob_plain_fields_def lexes_to_rules
         del: null_if_empty.simps fmt_v.simps)
qed

section \<open>Non-PPOB: layout and arguments\<close>

lemma nonppob_insert_format_layout:
  "nonppob_insert_format = ''INSERT INTO '' @ ''orders_nonppob'' @ '' ('' @ join_with '', '' (map fst (nonppob_row order)) @
     '') VALUES('' @ join_with '', '' (replicate (Suc 41) ''%v'') @ '');''"
  by (simp add: nonppob_insert_format_def nonppob_row_def numeral_eq_Suc)

lemma nonppob_sprintf_args_length: "length (nonppob_sprintf_args order) = Suc 41"
  unfolding nonppob_sprintf_args_def Let_def by simp

lemma nonppob_columns_good: "\<forall>c \<in> set (map fst (nonppob_row order)). good_column c"
  by (simp add: nonppob_row_def good_column_def)

lemma nonppob_args_lex:
  assumes "no_squote (nonppob_plain_fields order)"
  shows "list_all2 lexes_to (nonppob_sprintf_args order) (map snd (nonppob_row order))"
  using assms
  by (cases "dl_delivery_url (no_delivery order)")
     (simp_all add: nonppob_sprintf_args_def nonppob_row_def Let_def no_squote_def nonppob_plain_fields_def
       lexes_to_rules del: null_if_empty.simps fmt_v.simps)

section \<open>Properties of the Command Synthesizer\<close>

text \<open>
  C1. The PPOB command is correct on the wire: the consumer parses the text built by
  \<open>Create\<close> as an insert into \<open>orders_ppob\<close> whose column names are exactly the
  specified 39 names in order and whose values are exactly the specified values of the
  order, column by column, whenever the fields that bypass \<open>SafeString\<close> hold no quote.
\<close>

theorem ppob_sql_refines:
  "no_squote (ppob_plain_fields order) \<Longrightarrow>
   parse_insert (ppob_create_sql order) =
     Some (''orders_ppob'', map fst (ppob_row order), map snd (ppob_row order))"
  unfolding ppob_create_sql_def
  by (rule sprintf_insert_parse [OF ppob_insert_format_layout ppob_sprintf_args_length _ _ _ ppob_columns_good
        ppob_args_lex]) (simp_all add: ppob_row_def)

text \<open>
  C2. The Non-PPOB command is correct on the wire: the consumer parses it as an insert into
  \<open>orders_nonppob\<close> with the specified 42 columns in order and, for each, the specified
  value of the order, whenever the fields that bypass \<open>SafeString\<close> hold no quote.
\<close>

theorem nonppob_sql_refines:
  "no_squote (nonppob_plain_fields order) \<Longrightarrow>
   parse_insert (nonppob_create_sql order) =
     Some (''orders_nonppob'', map fst (nonppob_row order), map snd (nonppob_row order))"
  unfolding nonppob_create_sql_def
  by (rule sprintf_insert_parse [OF nonppob_insert_format_layout nonppob_sprintf_args_length _ _ _
        nonppob_columns_good nonppob_args_lex]) (simp_all add: nonppob_row_def)

text \<open>
  The no-quote hypothesis of the PPOB refinement is needed: a quote in a field that bypasses \<open>SafeString\<close>
  (here the customer phone \<open>0', '1\<close>) terminates the literal early, and the consumer
  reads a statement with 39 columns but 40 values, the phone split into two texts.
\<close>

theorem ppob_unescaped_phone_injection:
  "(case parse_insert (ppob_create_sql ppob_injection_example) of
      None \<Rightarrow> False
    | Some (t, cs, vs) \<Rightarrow> t = ''orders_ppob'' \<and> length cs = 39 \<and> length vs = 40 \<and>
        cs ! 5 = ''customer_phone'' \<and> vs ! 5 = SText ''0'' \<and> vs ! 6 = SText ''1'')"
  unfolding ppob_injection_example_def by code_simp

section \<open>Witnesses\<close>

theorem ppob_sql_refines_witness:
  "no_squote (ppob_plain_fields ppob_example) \<and>
   parse_insert (ppob_create_sql ppob_example) =
     Some (''orders_ppob'', map fst (ppob_row ppob_example), map snd (ppob_row ppob_example))"
proof -
  have h: "no_squote (ppob_plain_fields ppob_example)"
    by (simp add: ppob_example_def ppob_injection_example_def ppob_plain_fields_def no_squote_def
        ppob_account_ref_def obj_get_def json_string_field_def)
  show ?thesis using h ppob_sql_refines [OF h] by (rule conjI)
qed

theorem nonppob_sql_refines_witness:
  "no_squote (nonppob_plain_fields nonppob_spec_example) \<and>
   parse_insert (nonppob_create_sql nonppob_spec_example) =
     Some (''orders_nonppob'', map fst (nonppob_row nonppob_spec_example),
           map snd (nonppob_row nonppob_spec_example)) \<and>
   map_of (nonppob_row nonppob_spec_example) ''delivery_url'' = Some SNull \<and>
   map_of (nonppob_row nonppob_spec_example) ''amount'' = Some (SInt 50000) \<and>
   map_of (nonppob_row nonppob_spec_example) ''discount'' = Some (SInt 0)"
proof -
  have h: "no_squote (nonppob_plain_fields nonppob_spec_example)"
    by (simp add: nonppob_spec_example_def nonppob_plain_fields_def no_squote_def)
  have cols: "map_of (nonppob_row nonppob_spec_example) ''delivery_url'' = Some SNull \<and>
     map_of (nonppob_row nonppob_spec_example) ''amount'' = Some (SInt 50000) \<and>
     map_of (nonppob_row nonppob_spec_example) ''discount'' = Some (SInt 0)"
    by (simp add: nonppob_row_def nonppob_spec_example_def)
  show ?thesis using h nonppob_sql_refines [OF h] cols by blast
qed

end
