(* ===== verification/Validation.thy ===== *)
theory Validation
  imports Orders
begin

text \<open>
  The Schema Validator (spec 4.3). \<open>validator.Struct(order)\<close> of go-playground/validator
  walks the struct's fields in declaration order, descends into nested struct fields in
  place (a \<open>required\<close> tag on a non-pointer struct field is skipped, the nested fields
  are checked), does not descend into slices without a \<open>dive\<close> tag, and reports one
  \<open>FieldError\<close> (tag, field name, parameter) for every failed rule; \<open>required\<close> fails on
  the zero value (empty string, zero int). The rule lists below are read off the
  \<open>validate:"..."\<close> tags of \<open>src/internal/handler/model\<close>; the field name is the Go
  field name without its parent, as \<open>FieldError.Field()\<close> reports it.
  \<open>ValidationErrorHandle\<close> of \<open>src/utility/validation.go\<close> turns the errors into one
  lower-cased message by overwriting a variable in a loop.
\<close>

datatype field_error = FieldError (fe_tag: string) (fe_field: string) (fe_param: string)

text \<open>The error a validator returns: its list of field errors, or any other error value.\<close>

datatype validation_error = ValidationErrors "field_error list" | OtherError string

definition required_str :: "string \<Rightarrow> string \<Rightarrow> field_error list" where
  "required_str field v = (if v = [] then [FieldError ''required'' field []] else [])"

definition required_int :: "string \<Rightarrow> int64 \<Rightarrow> field_error list" where
  "required_int field v = (if v = 0 then [FieldError ''required'' field []] else [])"

section \<open>Rules of the PPOB structs\<close>

definition ppob_customer_errors :: "ppob_customer \<Rightarrow> field_error list" where
  "ppob_customer_errors c =
     required_str ''Id'' (pc_id c) @ required_str ''Name'' (pc_name c) @ required_str ''Type'' (pc_type c)"

definition ppob_payment_errors :: "ppob_payment \<Rightarrow> field_error list" where
  "ppob_payment_errors p =
     required_str ''ReferenceId'' (ppay_reference_id p) @ required_str ''Channel'' (ppay_channel p) @
     required_str ''PaymentCode'' (ppay_payment_code p) @ required_str ''PaymentGateway'' (ppay_payment_gateway p)"

text \<open>
  \<open>Product\<close>, \<open>Category\<close> and \<open>CommissionFee\<close> are descended into but carry no rules;
  \<open>Details\<close> and \<open>History\<close> are slices without \<open>dive\<close> and are not descended into.
\<close>

definition ppob_order_errors :: "ppob_order \<Rightarrow> field_error list" where
  "ppob_order_errors order =
     required_str ''Id'' (po_id order) @ required_str ''ReferenceId'' (po_reference_id order) @
     ppob_customer_errors (po_customer order) @ ppob_payment_errors (po_payment order) @
     required_int ''Amount'' (po_amount order)"

section \<open>Rules of the Non-PPOB structs\<close>

definition tenant_errors :: "tenant \<Rightarrow> field_error list" where
  "tenant_errors t = required_str ''Id'' (tenant_id t) @ required_str ''Name'' (tenant_name t)"

definition store_errors :: "store \<Rightarrow> field_error list" where
  "store_errors s = required_str ''Id'' (store_id s) @ required_str ''Name'' (store_name s)"

definition nonppob_customer_errors :: "nonppob_customer \<Rightarrow> field_error list" where
  "nonppob_customer_errors c = required_str ''Id'' (nc_id c) @ required_str ''Name'' (nc_name c)"

definition delivery_errors :: "delivery \<Rightarrow> field_error list" where
  "delivery_errors d = required_str ''Method'' (dl_method d)"

definition nonppob_payment_errors :: "nonppob_payment \<Rightarrow> field_error list" where
  "nonppob_payment_errors p =
     required_str ''ReferenceId'' (np_reference_id p) @ required_str ''Channel'' (np_channel p) @
     required_str ''PaymentCode'' (np_payment_code p) @ required_str ''PaymentGateway'' (np_payment_gateway p)"

definition nonppob_order_errors :: "nonppob_order \<Rightarrow> field_error list" where
  "nonppob_order_errors order =
     required_str ''Id'' (no_id order) @ required_str ''ReferenceId'' (no_reference_id order) @
     tenant_errors (no_tenant order) @ store_errors (no_store order) @
     nonppob_customer_errors (no_customer order) @ delivery_errors (no_delivery order) @
     nonppob_payment_errors (no_payment order) @
     required_int ''ItemQty'' (no_item_qty order) @ required_int ''Amount'' (no_amount order)"

text \<open>\<open>validator.Struct\<close>: \<open>nil\<close> when no rule fails.\<close>

definition validate_struct :: "field_error list \<Rightarrow> validation_error option" where
  "validate_struct errs = (if errs = [] then None else Some (ValidationErrors errs))"

section \<open>ValidationErrorHandle\<close>

definition tag_message :: "field_error \<Rightarrow> string option" where
  "tag_message v =
     (let f = fe_field v; p = fe_param v in
      if fe_tag v = ''required'' then Some (f @ '' required'')
      else if fe_tag v = ''min'' then Some (f @ '' input value must be greater than '' @ p @ '' character'')
      else if fe_tag v = ''max'' then Some (f @ '' input value must be lower than '' @ p @ '' character'')
      else if fe_tag v = ''lte'' then Some (f @ '' input value must be below '' @ p)
      else if fe_tag v = ''gte'' then Some (f @ '' input value must be above '' @ p)
      else if fe_tag v = ''numeric'' then Some (f @ '' input value must be numeric'')
      else if fe_tag v = ''url'' then Some (f @ '' input value must be am url'')
      else if fe_tag v = ''email'' then Some (f @ '' input value must be an email'')
      else if fe_tag v = ''password'' then Some (f @ '' input value must be filled'')
      else None)"

definition validation_error_handle :: "validation_error \<Rightarrow> string" where
  "validation_error_handle err =
     (let message = (case err of
          ValidationErrors casted_object \<Rightarrow>
            foldl (\<lambda>message v. case tag_message v of None \<Rightarrow> message | Some m \<Rightarrow> m) [] casted_object
        | OtherError _ \<Rightarrow> [])
      in to_lower message)"

section \<open>Lemmas: the diagnostic is the last known message\<close>

lemma handle_fold:
  "foldl (\<lambda>message v. case tag_message v of None \<Rightarrow> message | Some m \<Rightarrow> m) acc es =
   (case rev (List.map_filter tag_message es) of [] \<Rightarrow> acc | m # _ \<Rightarrow> m)"
  by (induction es rule: rev_induct)
     (auto simp: map_filter_simps List.map_filter_def split: option.splits list.splits)

lemma tag_message_required: "fe_tag e = ''required'' \<Longrightarrow> tag_message e = Some (fe_field e @ '' required'')"
  by (simp add: tag_message_def)

lemma to_lower_append: "to_lower (a @ b) = to_lower a @ to_lower b"
  by (simp add: to_lower_def)

lemma to_lower_required [simp]: "to_lower '' required'' = '' required''"
  by (simp add: to_lower_def ascii_lower_def)

lemma map_filter_required:
  "\<forall>e \<in> set es. fe_tag e = ''required'' \<Longrightarrow>
   List.map_filter tag_message es = map (\<lambda>e. fe_field e @ '' required'') es"
  by (induction es) (simp_all add: map_filter_simps tag_message_required)

lemma required_str_tags [simp]: "e \<in> set (required_str f v) \<Longrightarrow> fe_tag e = ''required''"
  by (simp add: required_str_def split: if_splits)

lemma required_int_tags [simp]: "e \<in> set (required_int f v) \<Longrightarrow> fe_tag e = ''required''"
  by (simp add: required_int_def split: if_splits)

lemma required_Nil [simp]:
  "required_str f v = [] \<longleftrightarrow> v \<noteq> []" "required_int f w = [] \<longleftrightarrow> w \<noteq> 0"
  by (simp_all add: required_str_def required_int_def)

lemmas ppob_rule_defs = ppob_order_errors_def ppob_customer_errors_def ppob_payment_errors_def

lemmas nonppob_rule_defs = nonppob_order_errors_def tenant_errors_def store_errors_def
  nonppob_customer_errors_def delivery_errors_def nonppob_payment_errors_def

lemma ppob_order_errors_tags: "\<forall>e \<in> set (ppob_order_errors order). fe_tag e = ''required''"
  by (auto simp: ppob_rule_defs)

lemma nonppob_order_errors_tags: "\<forall>e \<in> set (nonppob_order_errors order). fe_tag e = ''required''"
  by (auto simp: nonppob_rule_defs)

section \<open>Properties\<close>

text \<open>
  C10. \<open>ValidationErrorHandle\<close> keeps only the message of the last field error whose tag
  it knows, lower-cased; errors with other tags leave the message as it was, and with no
  known tag (or an error that is not a list of field errors) the diagnostic is empty.
\<close>

theorem validation_error_handle_last_known:
  "validation_error_handle (ValidationErrors es) =
     (case rev (List.map_filter tag_message es) of [] \<Rightarrow> [] | m # _ \<Rightarrow> to_lower m)"
  by (simp add: validation_error_handle_def handle_fold to_lower_def split: list.splits)

lemma required_handle:
  "\<forall>e \<in> set es. fe_tag e = ''required'' \<Longrightarrow> es \<noteq> [] \<Longrightarrow>
   validation_error_handle (ValidationErrors es) = to_lower (fe_field (last es)) @ '' required''"
  by (cases es rule: rev_exhaust)
     (simp_all add: validation_error_handle_def handle_fold map_filter_required to_lower_append)

text \<open>
  C23. A PPOB order passes validation exactly when its id, reference id, customer id, name
  and type, the four payment fields are non-empty and its amount is not zero.
\<close>

theorem ppob_validation_passes:
  "validate_struct (ppob_order_errors order) = None \<longleftrightarrow>
     po_id order \<noteq> [] \<and> po_reference_id order \<noteq> [] \<and>
     pc_id (po_customer order) \<noteq> [] \<and> pc_name (po_customer order) \<noteq> [] \<and>
     pc_type (po_customer order) \<noteq> [] \<and>
     ppay_reference_id (po_payment order) \<noteq> [] \<and> ppay_channel (po_payment order) \<noteq> [] \<and>
     ppay_payment_code (po_payment order) \<noteq> [] \<and> ppay_payment_gateway (po_payment order) \<noteq> [] \<and>
     po_amount order \<noteq> 0"
  by (simp add: validate_struct_def ppob_rule_defs)

text \<open>
  A Non-PPOB order passes validation exactly when its id, reference id, tenant id and
  name, store id and name, customer id and name, delivery method and the four payment
  fields are non-empty and its item quantity and amount are not zero.
\<close>

theorem nonppob_validation_passes:
  "validate_struct (nonppob_order_errors order) = None \<longleftrightarrow>
     no_id order \<noteq> [] \<and> no_reference_id order \<noteq> [] \<and>
     tenant_id (no_tenant order) \<noteq> [] \<and> tenant_name (no_tenant order) \<noteq> [] \<and>
     store_id (no_store order) \<noteq> [] \<and> store_name (no_store order) \<noteq> [] \<and>
     nc_id (no_customer order) \<noteq> [] \<and> nc_name (no_customer order) \<noteq> [] \<and>
     dl_method (no_delivery order) \<noteq> [] \<and>
     np_reference_id (no_payment order) \<noteq> [] \<and> np_channel (no_payment order) \<noteq> [] \<and>
     np_payment_code (no_payment order) \<noteq> [] \<and> np_payment_gateway (no_payment order) \<noteq> [] \<and>
     no_item_qty order \<noteq> 0 \<and> no_amount order \<noteq> 0"
  by (simp add: validate_struct_def nonppob_rule_defs)

text \<open>
  C24. When an order of either kind fails validation, the diagnostic is the lower-cased
  name of the last failing field in struct order followed by \<open>" required"\<close>: one message,
  whatever the number of failing fields.
\<close>

theorem validation_message_last_field:
  "(validate_struct (ppob_order_errors p) = Some err \<longrightarrow>
      validation_error_handle err = to_lower (fe_field (last (ppob_order_errors p))) @ '' required'') \<and>
   (validate_struct (nonppob_order_errors n) = Some err' \<longrightarrow>
      validation_error_handle err' = to_lower (fe_field (last (nonppob_order_errors n))) @ '' required'')"
  using required_handle [OF ppob_order_errors_tags] required_handle [OF nonppob_order_errors_tags]
  by (auto simp: validate_struct_def split: if_splits)

section \<open>Witnesses\<close>

theorem validation_message_last_field_witness:
  "validate_struct (ppob_order_errors (ppob_example\<lparr>po_id := [],
      po_customer := (po_customer ppob_example)\<lparr>pc_name := []\<rparr>\<rparr>)) =
     Some (ValidationErrors [FieldError ''required'' ''Id'' [], FieldError ''required'' ''Name'' []]) \<and>
   validation_error_handle
     (ValidationErrors [FieldError ''required'' ''Id'' [], FieldError ''required'' ''Name'' []]) = ''name required'' \<and>
   validate_struct (nonppob_order_errors (nonppob_spec_example\<lparr>no_amount := 0\<rparr>)) =
     Some (ValidationErrors [FieldError ''required'' ''Amount'' []]) \<and>
   validation_error_handle (ValidationErrors [FieldError ''required'' ''Amount'' []]) = ''amount required''"
proof -
  define p where "p = ppob_example\<lparr>po_id := [], po_customer := (po_customer ppob_example)\<lparr>pc_name := []\<rparr>\<rparr>"
  define n where "n = nonppob_spec_example\<lparr>no_amount := 0\<rparr>"
  have pe: "ppob_order_errors p = [FieldError ''required'' ''Id'' [], FieldError ''required'' ''Name'' []]"
    by (simp add: p_def ppob_rule_defs ppob_example_def ppob_injection_example_def
        required_str_def required_int_def)
  have ne: "nonppob_order_errors n = [FieldError ''required'' ''Amount'' []]"
    by (simp add: n_def nonppob_rule_defs nonppob_spec_example_def required_str_def required_int_def)
  have "validation_error_handle (ValidationErrors (ppob_order_errors p)) = to_lower ''Name'' @ '' required'' \<and>
    validation_error_handle (ValidationErrors (nonppob_order_errors n)) = to_lower ''Amount'' @ '' required''"
    using validation_message_last_field [where p = p and err = "ValidationErrors (ppob_order_errors p)"
        and n = n and err' = "ValidationErrors (nonppob_order_errors n)"]
    by (simp add: pe ne validate_struct_def)
  then show ?thesis
    by (simp add: pe ne validate_struct_def flip: p_def n_def) code_simp
qed

end
