(* ===== verification/Console.thy ===== *)
theory Console
  imports Prelude
begin

text \<open>
  The console of the service, \<open>PrintConsole\<close> and \<open>RecoverError\<close> of
  \<open>src/utility/utility.go\<close>: standard output is the list of lines printed so far, one per
  \<open>fmt.Println\<close>, and whether the terminal supports colour
  (\<open>supportscolor.Stdout()\<close>) is an input. The status argument is compared after
  \<open>strings.TrimSpace\<close> and \<open>strings.ToLower\<close>.
\<close>

definition ansi :: "string \<Rightarrow> string" where
  "ansi code = CHR 0x1B # CHR ''['' # code @ ''m''"

definition color_reset :: string where "color_reset = ansi ''0''"
definition color_red :: string where "color_red = ansi ''31''"
definition color_green :: string where "color_green = ansi ''32''"
definition color_yellow :: string where "color_yellow = ansi ''33''"
definition color_blue :: string where "color_blue = ansi ''34''"
definition color_purple :: string where "color_purple = ansi ''35''"
definition color_cyan :: string where "color_cyan = ansi ''36''"
definition color_gray :: string where "color_gray = ansi ''37''"
definition color_white :: string where "color_white = ansi ''97''"

text \<open>\<open>strings.TrimSpace\<close> on bytes: the ASCII white space.\<close>

definition go_space :: "char \<Rightarrow> bool" where
  "go_space c \<longleftrightarrow> c \<in> set [CHR 0x09, CHR 0x0A, CHR 0x0B, CHR 0x0C, CHR 0x0D, CHR '' '']"

definition trim_space :: "string \<Rightarrow> string" where
  "trim_space s = rev (dropWhile go_space (rev (dropWhile go_space s)))"

text \<open>The line \<open>PrintConsole\<close> prints.\<close>

definition console_line :: "bool \<Rightarrow> string \<Rightarrow> string \<Rightarrow> string" where
  "console_line supports_color str_print str_status =
     (let status = to_lower (trim_space str_status) in
      if supports_color then
        (if status = ''info'' then color_green @ ''[INFO]> '' @ str_print @ color_reset
         else if status = ''error'' then color_red @ ''[ERROR]> '' @ str_print @ color_reset
         else if status = ''warning'' then color_yellow @ ''[WARNING]> '' @ str_print @ color_reset
         else if status = ''logo'' then color_red @ str_print @ color_reset
         else color_reset @ str_print @ color_reset)
      else
        (if status = ''info'' then ''[INFO]> '' @ str_print
         else if status = ''error'' then ''[ERROR]> '' @ str_print
         else if status = ''warning'' then ''[WARNING]> '' @ str_print
         else if status = ''logo'' then str_print
         else str_print))"

definition print_console :: "bool \<Rightarrow> string \<Rightarrow> string \<Rightarrow> string list \<Rightarrow> string list" where
  "print_console supports_color str_print str_status stdout =
     stdout @ [console_line supports_color str_print str_status]"

text \<open>\<open>RecoverError\<close>, deferred by the helpers: the value of a recovered panic, if any.\<close>

definition recover_error :: "bool \<Rightarrow> string option \<Rightarrow> string list \<Rightarrow> string list" where
  "recover_error supports_color panic stdout =
     (case panic of
        None \<Rightarrow> stdout
      | Some r \<Rightarrow> print_console supports_color (''[ERROR][RECOVER]=> '' @ r) ''error'' stdout)"

section \<open>Lemmas\<close>

text \<open>A coloured line always ends with the reset code, so no colour leaks into the next line.\<close>

lemma console_line_color_reset: "\<exists>p. console_line True s st = p @ s @ color_reset"
  by (simp add: console_line_def Let_def)

lemma console_line_plain:
  "console_line False s st \<in> {''[INFO]> '' @ s, ''[ERROR]> '' @ s, ''[WARNING]> '' @ s, s}"
  by (simp add: console_line_def Let_def)

end
