(* ===== verification/Queue.thy ===== *)
theory Queue
  imports Prelude Console
begin

text \<open>
  The Command Publisher, \<open>SendMessageToQueue\<close> of \<open>src/utility/queue.go\<close>, over an
  explicit model of the STOMP broker. The broker state records the frames the client
  wrote (\<open>br_frames\<close>), the messages the broker accepted into its queues
  (\<open>br_delivered\<close>, destination and body, in arrival order) and the number of open
  connections (\<open>br_open\<close>). What the network answers is an input (\<open>net_outcome\<close>):
  whether \<open>stomp.Dial\<close> fails (refused, authentication) and whether \<open>conn.Send\<close>
  fails, each with Go's error text. A \<open>Send\<close> that returns \<open>nil\<close> is taken to have
  put the message in the queue; \<open>conn.Disconnect\<close> is deferred, so it runs on both
  paths after a successful dial, and its own error is discarded, as in the code.
  The lines the call prints with \<open>PrintConsole\<close> (theory \<open>Console\<close>) are
  \<open>send_message_to_queue_output\<close>, from the same network outcome.
\<close>

text \<open>\<open>Configuration\<close> and its parts, field by field (\<open>Accounts\<close> as name and password pairs).\<close>

record ts_http =
  th_http_port :: string
  th_max_allowed_simultaneous_connections :: int64

record ts_queue =
  tq_host :: string
  tq_port :: int64
  tq_queue_name :: string
  tq_username :: string
  tq_password :: string

record ts_log =
  tl_log_file_path :: string
  tl_error_file_name :: string
  tl_debug_file_name :: string

record ts_jwt =
  tj_timeout :: int64
  tj_max_refresh :: int64

record ts_timezone =
  tz_location :: string
  tz_format :: string

record configuration =
  cfg_http :: ts_http
  cfg_queue :: ts_queue
  cfg_log :: ts_log
  cfg_accounts :: "(string \<times> string) list"
  cfg_jwt :: ts_jwt
  cfg_app_path :: string
  cfg_timezone :: ts_timezone
  cfg_api_keys :: "string list"

datatype stomp_frame =
  ConnectFrame string string string
  | SendFrame string string string
  | DisconnectFrame

record broker =
  br_frames :: "stomp_frame list"
  br_delivered :: "(string \<times> string) list"
  br_open :: nat

record net_outcome =
  dial_error :: "string option"
  send_error :: "string option"

text \<open>\<open>stomp.Dial("tcp", server, Login(user, pass))\<close>: a connection, or the error.\<close>

definition stomp_dial ::
  "net_outcome \<Rightarrow> string \<Rightarrow> string \<Rightarrow> string \<Rightarrow> broker \<Rightarrow> string option \<times> broker" where
  "stomp_dial net server login passcode b =
     (case dial_error net of
        Some e \<Rightarrow> (Some e, b)
      | None \<Rightarrow> (None, b\<lparr>br_frames := br_frames b @ [ConnectFrame server login passcode],
                         br_open := Suc (br_open b)\<rparr>))"

text \<open>\<open>conn.Send(destination, contentType, body, nil)\<close>.\<close>

definition conn_send :: "net_outcome \<Rightarrow> string \<Rightarrow> string \<Rightarrow> string \<Rightarrow> broker \<Rightarrow> string option \<times> broker" where
  "conn_send net destination content_type body b =
     (case send_error net of
        Some e \<Rightarrow> (Some e, b)
      | None \<Rightarrow> (None, b\<lparr>br_frames := br_frames b @ [SendFrame destination content_type body],
                         br_delivered := br_delivered b @ [(destination, body)]\<rparr>))"

text \<open>\<open>conn.Disconnect()\<close>; its error is never read.\<close>

definition conn_disconnect :: "broker \<Rightarrow> broker" where
  "conn_disconnect b = b\<lparr>br_frames := br_frames b @ [DisconnectFrame], br_open := br_open b - 1\<rparr>"

text \<open>\<open>configuration.Queue.Host + ":" + strconv.Itoa(configuration.Queue.Port)\<close>.\<close>

definition queue_server :: "ts_queue \<Rightarrow> string" where
  "queue_server q = tq_host q @ '':'' @ int_dec (sint (tq_port q))"

definition send_message_to_queue ::
  "configuration \<Rightarrow> string \<Rightarrow> net_outcome \<Rightarrow> broker \<Rightarrow> string option \<times> broker" where
  "send_message_to_queue configuration str_message net b =
     (let q = cfg_queue configuration;
          str_server = queue_server q;
          (err, b) = stomp_dial net str_server (tq_username q) (tq_password q) b
      in case err of
           Some e \<Rightarrow> (Some e, b)
         | None \<Rightarrow>
             (let (err, b) = conn_send net (tq_queue_name q) ''text/plain'' str_message b
              in (err, conn_disconnect b)))"

text \<open>
  The console lines of \<open>SendMessageToQueue\<close>: the text of the \<open>Dial\<close> or \<open>Send\<close> error,
  or the success line printed before the deferred \<open>Disconnect\<close>.
\<close>

definition send_message_to_queue_output :: "bool \<Rightarrow> net_outcome \<Rightarrow> string list \<Rightarrow> string list" where
  "send_message_to_queue_output supports_color net stdout =
     (case dial_error net of
        Some e \<Rightarrow> print_console supports_color e ''error'' stdout
      | None \<Rightarrow>
          (case send_error net of
             Some e \<Rightarrow> print_console supports_color e ''error'' stdout
           | None \<Rightarrow> print_console supports_color ''Queue : Message successfully sent to queue'' ''info'' stdout))"

section \<open>Well-formed broker histories\<close>

text \<open>
  The frames of a closed session: \<open>CONNECT\<close>, any number of \<open>SEND\<close> frames and
  \<open>DISCONNECT\<close>. A broker history is well formed when it is a sequence of closed
  sessions and no connection is open.
\<close>

text \<open>The check is an automaton whose state says whether a session is open.\<close>

fun sessions_ok :: "bool \<Rightarrow> stomp_frame list \<Rightarrow> bool" where
  "sessions_ok in_session [] = (\<not> in_session)"
| "sessions_ok False (ConnectFrame _ _ _ # rest) = sessions_ok True rest"
| "sessions_ok True (SendFrame _ _ _ # rest) = sessions_ok True rest"
| "sessions_ok True (DisconnectFrame # rest) = sessions_ok False rest"
| "sessions_ok _ _ = False"

definition broker_wf :: "broker \<Rightarrow> bool" where
  "broker_wf b \<longleftrightarrow> br_open b = 0 \<and> sessions_ok False (br_frames b)"

text \<open>A configuration used by the examples.\<close>

definition example_configuration :: configuration where
  "example_configuration =
     \<lparr>cfg_http = \<lparr>th_http_port = ''8080'', th_max_allowed_simultaneous_connections = 100\<rparr>,
      cfg_queue = \<lparr>tq_host = ''mq'', tq_port = 61613, tq_queue_name = ''orders'',
                   tq_username = ''svc'', tq_password = ''pw''\<rparr>,
      cfg_log = \<lparr>tl_log_file_path = ''/var/log/orders/'', tl_error_file_name = ''error'',
                  tl_debug_file_name = ''debug''\<rparr>,
      cfg_accounts = [], cfg_jwt = \<lparr>tj_timeout = 0, tj_max_refresh = 0\<rparr>, cfg_app_path = ''/srv/orders/'',
      cfg_timezone = \<lparr>tz_location = ''Asia/Jakarta'', tz_format = ''2006-01-02 15:04:05''\<rparr>,
      cfg_api_keys = [''k1'']\<rparr>"

section \<open>Lemmas: the three paths of SendMessageToQueue\<close>

lemma send_message_to_queue_dial_error:
  "dial_error net = Some e \<Longrightarrow> send_message_to_queue c m net b = (Some e, b)"
  by (simp add: send_message_to_queue_def stomp_dial_def)

lemma send_message_to_queue_output_result:
  "send_message_to_queue_output col net out =
     out @ [case fst (send_message_to_queue c m net b) of
              Some e \<Rightarrow> console_line col e ''error''
            | None \<Rightarrow> console_line col ''Queue : Message successfully sent to queue'' ''info'']"
  by (simp add: send_message_to_queue_output_def send_message_to_queue_def stomp_dial_def conn_send_def
      print_console_def Let_def split: option.splits)

lemma send_message_to_queue_dialled:
  "dial_error net = None \<Longrightarrow>
   send_message_to_queue c m net b =
     (send_error net,
      b\<lparr>br_frames := br_frames b @ [ConnectFrame (queue_server (cfg_queue c)) (tq_username (cfg_queue c))
                                        (tq_password (cfg_queue c))] @
                     (if send_error net = None then [SendFrame (tq_queue_name (cfg_queue c)) ''text/plain'' m] else []) @
                     [DisconnectFrame],
        br_delivered := br_delivered b @
                     (if send_error net = None then [(tq_queue_name (cfg_queue c), m)] else [])\<rparr>)"
  by (simp add: send_message_to_queue_def stomp_dial_def conn_send_def conn_disconnect_def Let_def
      split: option.splits)

lemma sessions_ok_append:
  "sessions_ok s xs \<Longrightarrow> sessions_ok False ys \<Longrightarrow> sessions_ok s (xs @ ys)"
  by (induction s xs rule: sessions_ok.induct) auto

section \<open>Properties\<close>

text \<open>
  C4. The publish contract: one call puts at most one message in the broker's queues,
  and it puts exactly the command text, on the configured queue, precisely when it
  returns \<open>nil\<close>.
\<close>

theorem send_message_to_queue_publishes:
  "br_delivered (snd (send_message_to_queue c m net b)) =
     br_delivered b @
     (if fst (send_message_to_queue c m net b) = None then [(tq_queue_name (cfg_queue c), m)] else [])"
  by (cases "dial_error net")
     (simp_all add: send_message_to_queue_dial_error send_message_to_queue_dialled)

text \<open>
  The error returned is the dial error when \<open>stomp.Dial\<close> fails and otherwise the
  error of \<open>conn.Send\<close>; the error of \<open>Disconnect\<close> never reaches the caller.
\<close>

theorem send_message_to_queue_error:
  "fst (send_message_to_queue c m net b) =
     (case dial_error net of Some e \<Rightarrow> Some e | None \<Rightarrow> send_error net)"
  by (cases "dial_error net")
     (simp_all add: send_message_to_queue_dial_error send_message_to_queue_dialled)

text \<open>
  C21. No connection is leaked: from a well-formed broker history (every session closed),
  a call leaves a well-formed history on every path, the failed send included, because
  the disconnect is deferred.
\<close>

theorem send_message_to_queue_closes:
  "broker_wf b \<Longrightarrow> broker_wf (snd (send_message_to_queue c m net b))"
  by (cases "dial_error net")
     (auto simp: broker_wf_def send_message_to_queue_dial_error send_message_to_queue_dialled
        sessions_ok_append)

section \<open>Witnesses\<close>

theorem send_message_to_queue_closes_witness:
  "broker_wf \<lparr>br_frames = [], br_delivered = [], br_open = 0\<rparr> \<and>
   broker_wf (snd (send_message_to_queue example_configuration ''INSERT''
     \<lparr>dial_error = None, send_error = Some ''write: broken pipe''\<rparr>
     \<lparr>br_frames = [], br_delivered = [], br_open = 0\<rparr>))"
proof -
  have h: "broker_wf \<lparr>br_frames = [], br_delivered = [], br_open = 0\<rparr>" by (simp add: broker_wf_def)
  show ?thesis using h send_message_to_queue_closes [OF h] by simp
qed

end
