(* ===== verification/Usecase.thy ===== *)
theory Usecase
  imports Command Validation Queue
begin

text \<open>
  The two \<open>Create\<close> methods of \<open>src/internal/usecase/ppob.go\<close> and
  \<open>src/internal/usecase/nonppob.go\<close> as one pipeline each: \<open>validator.Struct\<close>, on
  failure the error \<open>errors.New(ValidationErrorHandle(err))\<close> and nothing else; on
  success the statement text of theory \<open>Command\<close> handed to \<open>SendMessageToQueue\<close>,
  whose error is returned unchanged. A Go \<open>error\<close> is its \<open>Error()\<close> text and \<open>nil\<close> is
  \<open>None\<close>. The \<open>json.Marshal\<close> calls on \<open>Details\<close> and \<open>History\<close> whose errors
  \<open>Create\<close> returns cannot fail on these types (strings, ints, bools, string
  pointers and values decoded by \<open>json.Unmarshal\<close>), so that branch has no
  counterpart in the model; the marshalled text is part of the statement built by
  \<open>ppob_create_sql\<close> and \<open>nonppob_create_sql\<close>.
\<close>

text \<open>
  \<open>PPOBUsecaseImpl\<close> and \<open>NonPPOBUsecaseImpl\<close> hold the configuration they were built
  with and a validator from \<open>validator.New()\<close>, which has no state the model needs (its
  rules are the order types' tags, theory \<open>Validation\<close>). \<open>Create\<close> reads the
  configuration from the receiver.
\<close>

record usecase_impl =
  uc_configuration :: configuration

definition new_ppob_usecase :: "configuration \<Rightarrow> usecase_impl" where
  "new_ppob_usecase configuration = \<lparr>uc_configuration = configuration\<rparr>"

definition new_nonppob_usecase :: "configuration \<Rightarrow> usecase_impl" where
  "new_nonppob_usecase configuration = \<lparr>uc_configuration = configuration\<rparr>"

definition ppob_usecase_create ::
  "configuration \<Rightarrow> net_outcome \<Rightarrow> ppob_order \<Rightarrow> broker \<Rightarrow> string option \<times> broker" where
  "ppob_usecase_create configuration net order b =
     (case validate_struct (ppob_order_errors order) of
        Some err \<Rightarrow> (Some (validation_error_handle err), b)
      | None \<Rightarrow>
          (let str_sql = ppob_create_sql order
           in send_message_to_queue configuration str_sql net b))"

definition nonppob_usecase_create ::
  "configuration \<Rightarrow> net_outcome \<Rightarrow> nonppob_order \<Rightarrow> broker \<Rightarrow> string option \<times> broker" where
  "nonppob_usecase_create configuration net order b =
     (case validate_struct (nonppob_order_errors order) of
        Some err \<Rightarrow> (Some (validation_error_handle err), b)
      | None \<Rightarrow>
          (let str_sql = nonppob_create_sql order
           in send_message_to_queue configuration str_sql net b))"

section \<open>Lemmas\<close>

lemma ppob_usecase_create_valid:
  "validate_struct (ppob_order_errors order) = None \<Longrightarrow>
   ppob_usecase_create c net order b = send_message_to_queue c (ppob_create_sql order) net b"
  by (simp add: ppob_usecase_create_def)

lemma nonppob_usecase_create_valid:
  "validate_struct (nonppob_order_errors order) = None \<Longrightarrow>
   nonppob_usecase_create c net order b = send_message_to_queue c (nonppob_create_sql order) net b"
  by (simp add: nonppob_usecase_create_def)

lemma usecase_invalid:
  "validate_struct (ppob_order_errors p) = Some err \<Longrightarrow>
   ppob_usecase_create c net p b = (Some (validation_error_handle err), b)"
  "validate_struct (nonppob_order_errors n) = Some err \<Longrightarrow>
   nonppob_usecase_create c net n b = (Some (validation_error_handle err), b)"
  by (simp_all add: ppob_usecase_create_def nonppob_usecase_create_def)

lemmas send_message_to_queue_paths = send_message_to_queue_dial_error send_message_to_queue_dialled

lemma usecase_delivered:
  "br_delivered (snd (ppob_usecase_create c net p b)) =
     br_delivered b @
     (if fst (ppob_usecase_create c net p b) = None then [(tq_queue_name (cfg_queue c), ppob_create_sql p)] else [])"
  "br_delivered (snd (nonppob_usecase_create c net n b)) =
     br_delivered b @
     (if fst (nonppob_usecase_create c net n b) = None then [(tq_queue_name (cfg_queue c), nonppob_create_sql n)] else [])"
  by (cases "validate_struct (ppob_order_errors p)"; cases "dial_error net";
      simp add: ppob_usecase_create_valid usecase_invalid send_message_to_queue_paths)
     (cases "validate_struct (nonppob_order_errors n)"; cases "dial_error net";
      simp add: nonppob_usecase_create_valid usecase_invalid send_message_to_queue_paths)

section \<open>Properties\<close>

text \<open>
  C9. An order of either kind that fails validation is answered with the validator's
  diagnostic as the error, and the broker is not touched: no connection, no frame, no
  message.
\<close>

theorem usecase_validation_failure_no_publish:
  "(validate_struct (ppob_order_errors p) = Some err \<longrightarrow>
      ppob_usecase_create c net p b = (Some (validation_error_handle err), b)) \<and>
   (validate_struct (nonppob_order_errors n) = Some err' \<longrightarrow>
      nonppob_usecase_create c net n b = (Some (validation_error_handle err'), b))"
  by (simp add: usecase_invalid)

text \<open>
  PPOB \<open>Create\<close> returns \<open>nil\<close> exactly when the order is valid, the dial and the
  send succeed; the broker then holds exactly one new message, the statement of the order
  on the configured queue, and on every other outcome no new message.
\<close>

theorem ppob_usecase_create_publishes:
  "(fst (ppob_usecase_create c net p b) = None \<longleftrightarrow>
      validate_struct (ppob_order_errors p) = None \<and> dial_error net = None \<and> send_error net = None) \<and>
   br_delivered (snd (ppob_usecase_create c net p b)) =
     br_delivered b @
     (if fst (ppob_usecase_create c net p b) = None
      then [(tq_queue_name (cfg_queue c), ppob_create_sql p)] else [])"
proof (cases "validate_struct (ppob_order_errors p)")
  case None
  then show ?thesis
    by (cases "dial_error net") (simp_all add: ppob_usecase_create_valid send_message_to_queue_paths)
next
  case (Some err)
  then show ?thesis by (simp add: usecase_invalid)
qed

text \<open>
  The same contract for Non-PPOB \<open>Create\<close>.
\<close>

theorem nonppob_usecase_create_publishes:
  "(fst (nonppob_usecase_create c net n b) = None \<longleftrightarrow>
      validate_struct (nonppob_order_errors n) = None \<and> dial_error net = None \<and> send_error net = None) \<and>
   br_delivered (snd (nonppob_usecase_create c net n b)) =
     br_delivered b @
     (if fst (nonppob_usecase_create c net n b) = None
      then [(tq_queue_name (cfg_queue c), nonppob_create_sql n)] else [])"
proof (cases "validate_struct (nonppob_order_errors n)")
  case None
  then show ?thesis
    by (cases "dial_error net") (simp_all add: nonppob_usecase_create_valid send_message_to_queue_paths)
next
  case (Some err)
  then show ?thesis by (simp add: usecase_invalid)
qed

section \<open>Witnesses\<close>

theorem usecase_validation_failure_no_publish_witness:
  "ppob_usecase_create example_configuration \<lparr>dial_error = None, send_error = None\<rparr>
     (ppob_example\<lparr>po_customer := (po_customer ppob_example)\<lparr>pc_name := []\<rparr>\<rparr>)
     \<lparr>br_frames = [], br_delivered = [], br_open = 0\<rparr> =
     (Some ''name required'', \<lparr>br_frames = [], br_delivered = [], br_open = 0\<rparr>) \<and>
   nonppob_usecase_create example_configuration \<lparr>dial_error = None, send_error = None\<rparr>
     (nonppob_spec_example\<lparr>no_amount := 0\<rparr>) \<lparr>br_frames = [], br_delivered = [], br_open = 0\<rparr> =
     (Some ''amount required'', \<lparr>br_frames = [], br_delivered = [], br_open = 0\<rparr>)"
proof -
  define p where "p = ppob_example\<lparr>po_customer := (po_customer ppob_example)\<lparr>pc_name := []\<rparr>\<rparr>"
  define n where "n = nonppob_spec_example\<lparr>no_amount := 0\<rparr>"
  have pe: "validate_struct (ppob_order_errors p) = Some (ValidationErrors [FieldError ''required'' ''Name'' []])"
    by (simp add: p_def ppob_rule_defs validate_struct_def ppob_example_def ppob_injection_example_def
        required_str_def required_int_def)
  have ne: "validate_struct (nonppob_order_errors n) = Some (ValidationErrors [FieldError ''required'' ''Amount'' []])"
    by (simp add: n_def nonppob_rule_defs validate_struct_def nonppob_spec_example_def
        required_str_def required_int_def)
  have "validation_error_handle (ValidationErrors [FieldError ''required'' ''Name'' []]) = ''name required''"
    "validation_error_handle (ValidationErrors [FieldError ''required'' ''Amount'' []]) = ''amount required''"
    by code_simp+
  then show ?thesis
    using usecase_validation_failure_no_publish [where p = p and n = n and c = example_configuration
        and net = "\<lparr>dial_error = None, send_error = None\<rparr>" and b = "\<lparr>br_frames = [], br_delivered = [], br_open = 0\<rparr>"
        and err = "ValidationErrors [FieldError ''required'' ''Name'' []]"
        and err' = "ValidationErrors [FieldError ''required'' ''Amount'' []]"] pe ne
    by (simp flip: p_def n_def)
qed

end
