(* ===== verification/HttpStatus.thy ===== *)
theory HttpStatus
  imports Prelude "HOL-Library.Multiset"
begin

text \<open>
  Error classification, \<open>ErrorHttpStatus\<close> of \<open>src/utility/httpstatus.go\<close>: the error
  text is lower-cased and the keyword table is searched with \<open>for key, status := range
  errorStatusMap\<close>, returning the status of the first key contained in the text, and
  400 \<open>Bad Request\<close> when none is. Go randomises the iteration order of a map on every
  \<open>range\<close>, so the model takes that order as an explicit argument \<open>iter\<close>: a list that
  is a permutation of the table (\<open>map_iteration_order\<close>). The theorems hold for every
  such order, or show that the result depends on it.
\<close>

text \<open>The anonymous struct \<open>{Code int; Status string}\<close> of the table.\<close>

record status_entry =
  se_code :: int
  se_status :: string

definition default_status_message :: string where
  "default_status_message = ''Bad Request''"

text \<open>The map literal, in the order of the source.\<close>

definition error_status_map :: "(string \<times> status_entry) list" where
  "error_status_map =
     [(''duplicate'', \<lparr>se_code = 400, se_status = default_status_message\<rparr>),
      (''parsing time'', \<lparr>se_code = 400, se_status = default_status_message\<rparr>),
      (''required'', \<lparr>se_code = 400, se_status = default_status_message\<rparr>),
      (''invalid'', \<lparr>se_code = 400, se_status = default_status_message\<rparr>),
      (''not found'', \<lparr>se_code = 404, se_status = ''Not Found''\<rparr>),
      (''unauthorized'', \<lparr>se_code = 401, se_status = ''Unauthorized''\<rparr>),
      (''forbidden'', \<lparr>se_code = 403, se_status = ''Forbidden''\<rparr>),
      (''connection refused'', \<lparr>se_code = 500, se_status = ''Internal Server Error''\<rparr>)]"

text \<open>An order in which \<open>range\<close> may visit the map: every entry exactly once.\<close>

definition map_iteration_order :: "(string \<times> status_entry) list \<Rightarrow> bool" where
  "map_iteration_order iter \<longleftrightarrow> mset iter = mset error_status_map"

text \<open>The \<open>range\<close> loop with its early \<open>return\<close>.\<close>

fun range_error_status :: "string \<Rightarrow> (string \<times> status_entry) list \<Rightarrow> (int \<times> string) option" where
  "range_error_status err [] = None"
| "range_error_status err ((key, status) # rest) =
     (if str_contains err key then Some (se_code status, se_status status) else range_error_status err rest)"

definition error_http_status :: "(string \<times> status_entry) list \<Rightarrow> string \<Rightarrow> int \<times> string" where
  "error_http_status iter err =
     (let err = to_lower err in
      case range_error_status err iter of
        Some r \<Rightarrow> r
      | None \<Rightarrow> (400, default_status_message))"

section \<open>Specification: the statuses of the matching keywords\<close>

definition matching_statuses :: "string \<Rightarrow> (int \<times> string) list" where
  "matching_statuses err =
     [(se_code s, se_status s). (k, s) \<leftarrow> error_status_map, str_contains (to_lower err) k]"

section \<open>Lemmas\<close>

lemma range_error_status_None:
  "range_error_status err iter = None \<longleftrightarrow> (\<forall>(k, s) \<in> set iter. \<not> str_contains err k)"
  by (induction err iter rule: range_error_status.induct) auto

lemma range_error_status_Some:
  "range_error_status err iter = Some r \<Longrightarrow>
   \<exists>(k, s) \<in> set iter. str_contains err k \<and> r = (se_code s, se_status s)"
  by (induction err iter rule: range_error_status.induct) (auto split: if_splits)

lemma map_iteration_order_set: "map_iteration_order iter \<Longrightarrow> set iter = set error_status_map"
  unfolding map_iteration_order_def by (metis set_mset_mset)

lemma set_matching_statuses:
  "set (matching_statuses err) =
     {(se_code s, se_status s) | k s. (k, s) \<in> set error_status_map \<and> str_contains (to_lower err) k}"
  by (auto simp: matching_statuses_def)

lemma error_http_status_cases:
  assumes "map_iteration_order iter"
  shows "(matching_statuses err = [] \<and> error_http_status iter err = (400, default_status_message)) \<or>
         error_http_status iter err \<in> set (matching_statuses err)"
proof (cases "range_error_status (to_lower err) iter")
  case None
  then have "matching_statuses err = []"
    using map_iteration_order_set [OF assms]
    by (auto simp: matching_statuses_def range_error_status_None filter_empty_conv)
  with None show ?thesis by (simp add: error_http_status_def)
next
  case (Some r)
  then show ?thesis
    using range_error_status_Some [OF Some] map_iteration_order_set [OF assms]
    by (auto simp: error_http_status_def set_matching_statuses)
qed

lemma error_http_status_uniform:
  assumes "map_iteration_order iter"
    and "\<forall>x \<in> set (matching_statuses err). \<forall>y \<in> set (matching_statuses err). x = y"
  shows "error_http_status iter err =
           (case matching_statuses err of [] \<Rightarrow> (400, default_status_message) | x # _ \<Rightarrow> x)"
proof (cases "matching_statuses err")
  case Nil
  then show ?thesis using error_http_status_cases [OF assms(1), of err] by simp
next
  case (Cons x xs)
  then have "error_http_status iter err \<in> set (x # xs)"
    using error_http_status_cases [OF assms(1), of err] by simp
  with assms(2) Cons show ?thesis by (metis list.set_intros(1) list.simps(5))
qed

lemma map_iteration_order_rev: "map_iteration_order (rev error_status_map)"
  by (simp add: map_iteration_order_def)

lemma map_iteration_order_front:
  "e \<in> set error_status_map \<Longrightarrow> map_iteration_order (e # remove1 e error_status_map)"
  by (simp add: map_iteration_order_def)

section \<open>Properties\<close>

text \<open>
  C11. Whatever order \<open>range\<close> visits the table in, \<open>ErrorHttpStatus\<close> returns 400
  \<open>Bad Request\<close> when the lower-cased error text contains no keyword, and otherwise the
  status of one of the keywords it contains.
\<close>

theorem error_http_status_refines:
  "map_iteration_order iter \<Longrightarrow>
   (if matching_statuses err = [] then error_http_status iter err = (400, default_status_message)
    else error_http_status iter err \<in> set (matching_statuses err))"
  using error_http_status_cases [of iter err] by fastforce

text \<open>
  When all the keywords an error text contains carry the same status (in particular
  when it contains at most one), the result does not depend on the iteration order.
\<close>

theorem error_http_status_deterministic:
  "map_iteration_order iter1 \<Longrightarrow> map_iteration_order iter2 \<Longrightarrow>
   \<forall>x \<in> set (matching_statuses err). \<forall>y \<in> set (matching_statuses err). x = y \<Longrightarrow>
   error_http_status iter1 err = error_http_status iter2 err"
  by (simp add: error_http_status_uniform)

text \<open>
  The text \<open>"record not found: invalid id"\<close> is 400 when \<open>range\<close> visits the map in
  source order and 404 when it visits it in reverse.
\<close>

theorem error_http_status_order_example:
  "map_iteration_order error_status_map \<and> map_iteration_order (rev error_status_map) \<and>
   error_http_status error_status_map ''record not found: invalid id'' = (400, ''Bad Request'') \<and>
   error_http_status (rev error_status_map) ''record not found: invalid id'' = (404, ''Not Found'')"
  by (simp add: map_iteration_order_def) code_simp

text \<open>
  C12. Every status of a keyword that the lower-cased error text contains is the answer
  of \<open>ErrorHttpStatus\<close> under some iteration order of the map. With the previous property the possible
  answers are exactly the statuses of the matching keywords, so a text containing
  keywords of two statuses gets either of them from one request to the next.
\<close>

theorem error_http_status_order_dependent:
  "x \<in> set (matching_statuses err) \<Longrightarrow> \<exists>iter. map_iteration_order iter \<and> error_http_status iter err = x"
proof -
  assume "x \<in> set (matching_statuses err)"
  then obtain k s where ks: "(k, s) \<in> set error_status_map" "str_contains (to_lower err) k"
      "x = (se_code s, se_status s)"
    by (auto simp: set_matching_statuses)
  let ?iter = "(k, s) # remove1 (k, s) error_status_map"
  have "map_iteration_order ?iter" using ks(1) by (rule map_iteration_order_front)
  moreover have "error_http_status ?iter err = x" using ks(2,3) by (simp add: error_http_status_def)
  ultimately show ?thesis by blast
qed

text \<open>
  The classification table of the specification, for every iteration order:
  validation and JSON errors are 400, \<open>not found\<close> 404, \<open>unauthorized\<close> 401,
  \<open>forbidden\<close> 403, a refused broker connection 500, and any other broker failure
  (a time-out) 400.
\<close>

theorem error_http_status_examples:
  "map_iteration_order iter \<Longrightarrow>
   error_http_status iter ''Name required'' = (400, ''Bad Request'') \<and>
   error_http_status iter ''invalid json format'' = (400, ''Bad Request'') \<and>
   error_http_status iter ''record not found'' = (404, ''Not Found'') \<and>
   error_http_status iter ''Unauthorized'' = (401, ''Unauthorized'') \<and>
   error_http_status iter ''Forbidden'' = (403, ''Forbidden'') \<and>
   error_http_status iter ''dial tcp 10.0.0.1:61613: connect: connection refused'' = (500, ''Internal Server Error'') \<and>
   error_http_status iter ''read tcp 10.0.0.1:61613: i/o timeout'' = (400, ''Bad Request'')"
proof -
  assume h: "map_iteration_order iter"
  have m: "matching_statuses ''Name required'' = [(400, ''Bad Request'')]"
    "matching_statuses ''invalid json format'' = [(400, ''Bad Request'')]"
    "matching_statuses ''record not found'' = [(404, ''Not Found'')]"
    "matching_statuses ''Unauthorized'' = [(401, ''Unauthorized'')]"
    "matching_statuses ''Forbidden'' = [(403, ''Forbidden'')]"
    "matching_statuses ''dial tcp 10.0.0.1:61613: connect: connection refused'' = [(500, ''Internal Server Error'')]"
    "matching_statuses ''read tcp 10.0.0.1:61613: i/o timeout'' = []"
    by code_simp+
  show ?thesis
    using error_http_status_uniform [OF h] m by (simp add: default_status_message_def)
qed

section \<open>Witnesses\<close>

theorem error_http_status_refines_witness:
  "map_iteration_order (rev error_status_map) \<and>
   error_http_status (rev error_status_map) ''i/o timeout'' = (400, default_status_message) \<and>
   error_http_status (rev error_status_map) ''duplicate key'' \<in> set (matching_statuses ''duplicate key'')"
proof -
  have m: "matching_statuses ''i/o timeout'' = []" "matching_statuses ''duplicate key'' \<noteq> []"
    by code_simp+
  show ?thesis
    using error_http_status_refines [OF map_iteration_order_rev, of "''i/o timeout''"]
      error_http_status_refines [OF map_iteration_order_rev, of "''duplicate key''"] m map_iteration_order_rev
    by simp
qed

theorem error_http_status_deterministic_witness:
  "map_iteration_order error_status_map \<and> map_iteration_order (rev error_status_map) \<and>
   error_http_status error_status_map ''Name required'' = error_http_status (rev error_status_map) ''Name required''"
proof -
  have h: "map_iteration_order error_status_map" by (simp add: map_iteration_order_def)
  have m: "matching_statuses ''Name required'' = [(400, ''Bad Request'')]" by code_simp
  show ?thesis
    using error_http_status_deterministic [OF h map_iteration_order_rev, of "''Name required''"] h
      map_iteration_order_rev m
    by simp
qed

theorem error_http_status_examples_witness:
  "map_iteration_order (rev error_status_map) \<and>
   error_http_status (rev error_status_map) ''Forbidden'' = (403, ''Forbidden'')"
  using error_http_status_examples [OF map_iteration_order_rev] map_iteration_order_rev by simp

theorem error_http_status_order_dependent_witness:
  "(400, ''Bad Request'') \<in> set (matching_statuses ''record not found: invalid id'') \<and>
   (404, ''Not Found'') \<in> set (matching_statuses ''record not found: invalid id'') \<and>
   (\<exists>iter. map_iteration_order iter \<and> error_http_status iter ''record not found: invalid id'' = (400, ''Bad Request'')) \<and>
   (\<exists>iter. map_iteration_order iter \<and> error_http_status iter ''record not found: invalid id'' = (404, ''Not Found''))"
proof -
  have m: "matching_statuses ''record not found: invalid id'' = [(400, ''Bad Request''), (404, ''Not Found'')]"
    by code_simp
  show ?thesis
    using error_http_status_order_dependent [of "(400, ''Bad Request'')" "''record not found: invalid id''"]
      error_http_status_order_dependent [of "(404, ''Not Found'')" "''record not found: invalid id''"] m
    by simp
qed

end
