(* ===== verification/Handler.thy ===== *)
theory Handler
  imports Usecase HttpStatus
begin

text \<open>
  The HTTP handlers \<open>Create\<close> of \<open>src/internal/handler/ppob.go\<close> and
  \<open>src/internal/handler/nonppob.go\<close>. The two are the same code over different order
  types, so the model is one definition \<open>handler_create\<close> parametrised by what differs:
  \<open>json.Unmarshal\<close> into the order struct (\<open>unmarshal\<close>, \<open>None\<close> for a decoding
  error), the assignment \<open>objData.MetadataRaw = jsonBody\<close> (\<open>set_raw\<close>) and the use
  case's \<open>Create\<close>. \<open>ReadJsonBodyRequest\<close> of \<open>src/utility/utility.go\<close> reads the
  body (a nil body, a read error, or the bytes) and checks it with \<open>json.Valid\<close>
  (\<open>valid\<close>, instantiated by the router with \<open>json_valid\<close> of theory \<open>JsonScan\<close>);
  its errors are \<open>Inl\<close> values. \<open>FormatResponse\<close> with format
  \<open>"json"\<close> is \<open>c.JSON(code, gin.H{...})\<close>: the response is the code and the
  \<open>gin.H\<close> map as a decoded JSON object, whose text is \<open>marshal_iface\<close> (keys sorted).
  The iteration order of \<open>ErrorHttpStatus\<close>'s map is an argument, as in theory
  \<open>HttpStatus\<close>. logrus output is discarded by \<open>main\<close>; the console line of a
  body-reading error is \<open>handler_create_output\<close>.
\<close>

datatype request_body = NilBody | BodyReadError string | Body string

record response =
  rs_code :: int
  rs_body :: json

definition read_json_body_request :: "(string \<Rightarrow> bool) \<Rightarrow> request_body \<Rightarrow> string + string" where
  "read_json_body_request valid body =
     (case body of
        NilBody \<Rightarrow> Inl ''cannot read or undefined request body''
      | BodyReadError err \<Rightarrow> Inl err
      | Body json_data \<Rightarrow> (if valid json_data then Inr json_data else Inl ''invalid json format''))"

text \<open>\<open>gin.H{"code": code, "status": status, "message": message}\<close>, in source order.\<close>

definition gin_h_error :: "int \<Rightarrow> string \<Rightarrow> string \<Rightarrow> json" where
  "gin_h_error code status message =
     JObj [(''code'', JNum (int_dec code)), (''status'', JStr status), (''message'', JStr message)]"

definition gin_h_success :: "int \<Rightarrow> json" where
  "gin_h_success code =
     JObj [(''code'', JNum (int_dec code)), (''message'', JStr ''Success''), (''status'', JStr ''success'')]"

text \<open>
  The shape every \<open>gin.H\<close> body of the service has: a \<open>"code"\<close> number equal to the
  HTTP status, then \<open>"status"\<close> and \<open>"message"\<close> strings in either order.
\<close>

fun gin_h_typed :: "int \<Rightarrow> json \<Rightarrow> bool" where
  "gin_h_typed code (JObj [(k1, JNum c), (k2, JStr s), (k3, JStr m)]) \<longleftrightarrow>
     k1 = ''code'' \<and> c = int_dec code \<and>
     ((k2, k3) = (''status'', ''message'') \<or> (k2, k3) = (''message'', ''status''))"
| "gin_h_typed code _ \<longleftrightarrow> False"

definition format_response :: "int \<Rightarrow> json \<Rightarrow> response" where
  "format_response code obj_data = \<lparr>rs_code = code, rs_body = obj_data\<rparr>"

text \<open>
  The renderer \<open>FormatResponse\<close> and \<open>FormatResponseJson\<close> pick by format name (gin's
  \<open>c.JSON\<close>, \<open>c.JSONP\<close>, \<open>c.XML\<close>, ...); an unknown name falls back to \<open>c.JSON\<close>. The
  handlers always pass \<open>"json"\<close>, whose response is \<open>format_response\<close>.
\<close>

datatype renderer =
  RenderJSON | RenderJSONP | RenderXML | RenderYAML | RenderSecureJSON | RenderAsciiJSON
  | RenderIndentedJSON | RenderPureJSON

definition response_renderer :: "string \<Rightarrow> renderer" where
  "response_renderer str_response_format =
     (if str_response_format = ''json'' then RenderJSON
      else if str_response_format = ''jsonp'' then RenderJSONP
      else if str_response_format = ''xml'' then RenderXML
      else if str_response_format = ''yaml'' then RenderYAML
      else if str_response_format = ''securejson'' then RenderSecureJSON
      else if str_response_format = ''asciijson'' then RenderAsciiJSON
      else if str_response_format = ''indentedjson'' then RenderIndentedJSON
      else if str_response_format = ''purejson'' then RenderPureJSON
      else RenderJSON)"

definition format_response_json :: "string \<Rightarrow> int \<Rightarrow> json \<Rightarrow> renderer \<times> response" where
  "format_response_json str_response_format int_http_response_code obj_data =
     (response_renderer str_response_format, format_response int_http_response_code obj_data)"

definition response_text :: "response \<Rightarrow> string" where
  "response_text r = marshal_iface (rs_body r)"

definition error_response :: "(string \<times> status_entry) list \<Rightarrow> string \<Rightarrow> response" where
  "error_response iter err =
     (let (int_http_status, status) = error_http_status iter err
      in format_response int_http_status (gin_h_error int_http_status status err))"

definition handler_create ::
  "(string \<Rightarrow> bool) \<Rightarrow> (string \<Rightarrow> 'a option) \<Rightarrow> (string \<Rightarrow> 'a \<Rightarrow> 'a) \<Rightarrow>
   ('a \<Rightarrow> broker \<Rightarrow> string option \<times> broker) \<Rightarrow> (string \<times> status_entry) list \<Rightarrow>
   request_body \<Rightarrow> broker \<Rightarrow> response \<times> broker" where
  "handler_create valid unmarshal set_raw create iter body b =
     (case read_json_body_request valid body of
        Inl err \<Rightarrow> (error_response iter err, b)
      | Inr json_body \<Rightarrow>
          (case unmarshal json_body of
             None \<Rightarrow> (format_response 400 (gin_h_error 400 ''error'' ''Invalid request body format''), b)
           | Some obj_data \<Rightarrow>
               (let obj_data = set_raw json_body obj_data in
                case create obj_data b of
                  (Some err, b') \<Rightarrow> (error_response iter err, b')
                | (None, b') \<Rightarrow> (format_response 200 (gin_h_success 200), b'))))"

text \<open>
  The console line a handler prints: the error of \<open>ReadJsonBodyRequest\<close>. Its other
  diagnostics go through logrus, whose output is discarded.
\<close>

definition handler_create_output :: "bool \<Rightarrow> (string \<Rightarrow> bool) \<Rightarrow> request_body \<Rightarrow> string list \<Rightarrow> string list" where
  "handler_create_output supports_color valid body stdout =
     (case read_json_body_request valid body of
        Inl err \<Rightarrow> print_console supports_color err ''error'' stdout
      | Inr _ \<Rightarrow> stdout)"

text \<open>\<open>PPOBHandlerImpl\<close> and \<open>NonPPOBHandlerImpl\<close>: the use case each handler calls.\<close>

record ppob_handler_impl =
  ph_ppob_uc :: usecase_impl

record nonppob_handler_impl =
  nh_non_ppob_uc :: usecase_impl

definition new_ppob_handler :: "usecase_impl \<Rightarrow> ppob_handler_impl" where
  "new_ppob_handler ppob_uc = \<lparr>ph_ppob_uc = ppob_uc\<rparr>"

definition new_nonppob_handler :: "usecase_impl \<Rightarrow> nonppob_handler_impl" where
  "new_nonppob_handler non_ppob_uc = \<lparr>nh_non_ppob_uc = non_ppob_uc\<rparr>"

text \<open>The two handlers.\<close>

definition ppob_handler_create ::
  "(string \<Rightarrow> bool) \<Rightarrow> (string \<Rightarrow> ppob_order option) \<Rightarrow> configuration \<Rightarrow> net_outcome \<Rightarrow>
   (string \<times> status_entry) list \<Rightarrow> request_body \<Rightarrow> broker \<Rightarrow> response \<times> broker" where
  "ppob_handler_create valid unmarshal configuration net =
     handler_create valid unmarshal (\<lambda>raw order. order\<lparr>po_metadata_raw := raw\<rparr>)
       (ppob_usecase_create configuration net)"

definition nonppob_handler_create ::
  "(string \<Rightarrow> bool) \<Rightarrow> (string \<Rightarrow> nonppob_order option) \<Rightarrow> configuration \<Rightarrow> net_outcome \<Rightarrow>
   (string \<times> status_entry) list \<Rightarrow> request_body \<Rightarrow> broker \<Rightarrow> response \<times> broker" where
  "nonppob_handler_create valid unmarshal configuration net =
     handler_create valid unmarshal (\<lambda>raw order. order\<lparr>no_metadata_raw := raw\<rparr>)
       (nonppob_usecase_create configuration net)"

section \<open>Lemmas\<close>

lemma error_http_status_not_200:
  "map_iteration_order iter \<Longrightarrow> fst (error_http_status iter err) \<noteq> 200"
  using error_http_status_cases [of iter err]
  by (auto simp: set_matching_statuses error_status_map_def)

lemma handler_create_read_error:
  "read_json_body_request valid body = Inl err \<Longrightarrow>
   handler_create valid unmarshal set_raw create iter body b = (error_response iter err, b)"
  by (simp add: handler_create_def)

lemma handler_create_decoded:
  "read_json_body_request valid body = Inr d \<Longrightarrow> unmarshal d = Some obj \<Longrightarrow>
   handler_create valid unmarshal set_raw create iter body b =
     (case create (set_raw d obj) b of
        (Some err, b') \<Rightarrow> (error_response iter err, b')
      | (None, b') \<Rightarrow> (format_response 200 (gin_h_success 200), b'))"
  by (simp add: handler_create_def)

lemma error_response_code: "rs_code (error_response iter err) = fst (error_http_status iter err)"
  by (simp add: error_response_def format_response_def split: prod.splits)

lemma gin_h_typed_bodies [simp]:
  "gin_h_typed code (gin_h_error code status message)"
  "gin_h_typed code (gin_h_success code)"
  by (simp_all add: gin_h_error_def gin_h_success_def)

lemma error_response_typed: "gin_h_typed (rs_code (error_response iter err)) (rs_body (error_response iter err))"
  by (simp add: error_response_def format_response_def split: prod.splits)

lemma handler_create_typed:
  "gin_h_typed (rs_code (fst (handler_create valid unmarshal set_raw create iter body b)))
     (rs_body (fst (handler_create valid unmarshal set_raw create iter body b)))"
  by (simp add: handler_create_def error_response_typed format_response_def
      split: sum.splits option.splits prod.splits)

lemma handler_create_publish:
  assumes iter: "map_iteration_order iter"
    and cr: "\<And>x. br_delivered (snd (create x b)) =
               br_delivered b @ (if fst (create x b) = None then [(q, msg x)] else [])"
  shows "(rs_code (fst (handler_create valid unmarshal set_raw create iter body b)) = 200 \<longrightarrow>
            (\<exists>m. br_delivered (snd (handler_create valid unmarshal set_raw create iter body b)) =
                 br_delivered b @ [(q, m)])) \<and>
         (rs_code (fst (handler_create valid unmarshal set_raw create iter body b)) \<noteq> 200 \<longrightarrow>
            br_delivered (snd (handler_create valid unmarshal set_raw create iter body b)) = br_delivered b)"
proof (cases "read_json_body_request valid body")
  case (Inl err)
  then show ?thesis
    using error_http_status_not_200 [OF iter] by (simp add: handler_create_read_error error_response_code)
next
  case (Inr d)
  show ?thesis
  proof (cases "unmarshal d")
    case None
    with Inr show ?thesis by (simp add: handler_create_def format_response_def)
  next
    case (Some obj)
    obtain e b' where c: "create (set_raw d obj) b = (e, b')" by fastforce
    with cr [of "set_raw d obj"] Inr Some show ?thesis
      using error_http_status_not_200 [OF iter]
      by (cases e) (auto simp: handler_create_decoded error_response_code format_response_def)
  qed
qed

lemma ppob_error_fields:
  "e \<in> set (ppob_order_errors p) \<Longrightarrow>
   fe_field e \<in> set [''Id'', ''ReferenceId'', ''Name'', ''Type'', ''Channel'', ''PaymentCode'',
                    ''PaymentGateway'', ''Amount'']"
  by (auto simp: ppob_rule_defs required_str_def required_int_def split: if_splits)

lemma nonppob_error_fields:
  "e \<in> set (nonppob_order_errors n) \<Longrightarrow>
   fe_field e \<in> set [''Id'', ''ReferenceId'', ''Name'', ''Method'', ''Channel'', ''PaymentCode'',
                    ''PaymentGateway'', ''ItemQty'', ''Amount'']"
  by (auto simp: nonppob_rule_defs required_str_def required_int_def split: if_splits)

lemma required_messages_bad_request:
  "\<forall>f \<in> set [''Id'', ''ReferenceId'', ''Name'', ''Type'', ''Method'', ''Channel'', ''PaymentCode'',
             ''PaymentGateway'', ''ItemQty'', ''Amount''].
     matching_statuses (to_lower f @ '' required'') = [(400, ''Bad Request'')]"
  by code_simp

lemma required_message_status:
  assumes "map_iteration_order iter"
    and "f \<in> set [''Id'', ''ReferenceId'', ''Name'', ''Type'', ''Method'', ''Channel'', ''PaymentCode'',
             ''PaymentGateway'', ''ItemQty'', ''Amount'']"
  shows "error_http_status iter (to_lower f @ '' required'') = (400, ''Bad Request'')"
  using error_http_status_uniform [OF assms(1)] required_messages_bad_request assms(2) by auto

lemma ppob_diagnostic_status:
  "map_iteration_order iter \<Longrightarrow> validate_struct (ppob_order_errors p) = Some err \<Longrightarrow>
   error_http_status iter (validation_error_handle err) = (400, ''Bad Request'')"
proof -
  assume h: "map_iteration_order iter" and v: "validate_struct (ppob_order_errors p) = Some err"
  then have ne: "ppob_order_errors p \<noteq> []" and e: "err = ValidationErrors (ppob_order_errors p)"
    by (auto simp: validate_struct_def split: if_splits)
  have "fe_field (last (ppob_order_errors p)) \<in> set [''Id'', ''ReferenceId'', ''Name'', ''Type'', ''Channel'',
      ''PaymentCode'', ''PaymentGateway'', ''Amount'']"
    using ppob_error_fields [OF last_in_set [OF ne]] .
  then show ?thesis
    using required_handle [OF ppob_order_errors_tags ne] required_message_status [OF h] e by auto
qed

lemma nonppob_diagnostic_status:
  "map_iteration_order iter \<Longrightarrow> validate_struct (nonppob_order_errors n) = Some err \<Longrightarrow>
   error_http_status iter (validation_error_handle err) = (400, ''Bad Request'')"
proof -
  assume h: "map_iteration_order iter" and v: "validate_struct (nonppob_order_errors n) = Some err"
  then have ne: "nonppob_order_errors n \<noteq> []" and e: "err = ValidationErrors (nonppob_order_errors n)"
    by (auto simp: validate_struct_def split: if_splits)
  have "fe_field (last (nonppob_order_errors n)) \<in> set [''Id'', ''ReferenceId'', ''Name'', ''Method'', ''Channel'',
      ''PaymentCode'', ''PaymentGateway'', ''ItemQty'', ''Amount'']"
    using nonppob_error_fields [OF last_in_set [OF ne]] .
  then show ?thesis
    using required_handle [OF nonppob_order_errors_tags ne] required_message_status [OF h] e by auto
qed

section \<open>Properties\<close>

text \<open>
  C22. A handler answers 200 exactly when the body is read, is valid JSON, decodes into the
  order struct and the use case returns \<open>nil\<close>; every other path answers with an
  error status, never 200.
\<close>

theorem handler_create_200_iff:
  "map_iteration_order iter \<Longrightarrow>
   rs_code (fst (handler_create valid unmarshal set_raw create iter body b)) = 200 \<longleftrightarrow>
   (\<exists>d obj. read_json_body_request valid body = Inr d \<and> unmarshal d = Some obj \<and>
            fst (create (set_raw d obj) b) = None)"
proof (cases "read_json_body_request valid body")
  case (Inl err)
  assume h: "map_iteration_order iter"
  then show ?thesis
    using Inl error_http_status_not_200 [OF h]
    by (simp add: handler_create_read_error error_response_code)
next
  case (Inr d)
  assume h: "map_iteration_order iter"
  show ?thesis
  proof (cases "unmarshal d")
    case None
    with Inr show ?thesis by (simp add: handler_create_def format_response_def)
  next
    case (Some obj)
    with Inr show ?thesis
      using error_http_status_not_200 [OF h]
      by (auto simp: handler_create_decoded error_response_code format_response_def split: prod.splits option.splits)
  qed
qed

text \<open>
  Malformed input is answered 400 under every iteration order, without touching the
  broker: a nil body (\<open>"cannot read or undefined request body"\<close>) and a body that is
  not valid JSON (\<open>"invalid json format"\<close>) with status \<open>Bad Request\<close>, a valid JSON
  body that does not decode into the struct with status \<open>"error"\<close> and the message
  \<open>"Invalid request body format"\<close>.
\<close>

theorem handler_create_bad_input:
  "map_iteration_order iter \<Longrightarrow>
   handler_create valid unmarshal set_raw create iter NilBody b =
     (format_response 400 (gin_h_error 400 ''Bad Request'' ''cannot read or undefined request body''), b) \<and>
   (\<not> valid d \<longrightarrow> handler_create valid unmarshal set_raw create iter (Body d) b =
     (format_response 400 (gin_h_error 400 ''Bad Request'' ''invalid json format''), b)) \<and>
   (valid d \<and> unmarshal d = None \<longrightarrow> handler_create valid unmarshal set_raw create iter (Body d) b =
     (format_response 400 (gin_h_error 400 ''error'' ''Invalid request body format''), b))"
proof -
  assume h: "map_iteration_order iter"
  have m: "matching_statuses ''cannot read or undefined request body'' = []"
    "matching_statuses ''invalid json format'' = [(400, ''Bad Request'')]"
    by code_simp+
  show ?thesis
    using error_http_status_uniform [OF h] m
    by (simp add: handler_create_def read_json_body_request_def error_response_def default_status_message_def)
qed

text \<open>
  An order of either kind that decodes but fails validation is answered 400
  \<open>Bad Request\<close> with the validator's diagnostic as the message, under every iteration
  order, and no message reaches the broker.
\<close>

theorem handler_validation_failure:
  "map_iteration_order iter \<Longrightarrow> read_json_body_request valid body = Inr d \<Longrightarrow>
   (unmarshal d = Some p \<and> validate_struct (ppob_order_errors (p\<lparr>po_metadata_raw := d\<rparr>)) = Some err \<longrightarrow>
      ppob_handler_create valid unmarshal c net iter body b =
        (format_response 400 (gin_h_error 400 ''Bad Request'' (validation_error_handle err)), b)) \<and>
   (unmarshal' d = Some n \<and> validate_struct (nonppob_order_errors (n\<lparr>no_metadata_raw := d\<rparr>)) = Some err' \<longrightarrow>
      nonppob_handler_create valid unmarshal' c net iter body b =
        (format_response 400 (gin_h_error 400 ''Bad Request'' (validation_error_handle err')), b))"
  using ppob_diagnostic_status nonppob_diagnostic_status
  by (auto simp: ppob_handler_create_def nonppob_handler_create_def handler_create_decoded usecase_invalid
      error_response_def)

section \<open>Witnesses\<close>

theorem handler_create_200_iff_witness:
  "map_iteration_order error_status_map \<and>
   rs_code (fst (handler_create (\<lambda>s. s \<noteq> []) (\<lambda>s. Some s) (\<lambda>d x. x) (\<lambda>x b. (None, b))
      error_status_map (Body ''{}'') \<lparr>br_frames = [], br_delivered = [], br_open = 0\<rparr>)) = 200"
proof -
  have h: "map_iteration_order error_status_map" by (simp add: map_iteration_order_def)
  show ?thesis
    using handler_create_200_iff [OF h, of "\<lambda>s. s \<noteq> []" "\<lambda>s. Some s" "\<lambda>d x. x" "\<lambda>x b. (None, b)"
        "Body ''{}''" "\<lparr>br_frames = [], br_delivered = [], br_open = 0\<rparr>"] h
    by (simp add: read_json_body_request_def)
qed

theorem handler_create_bad_input_witness:
  "map_iteration_order (rev error_status_map) \<and>
   handler_create (\<lambda>s. s = ''{}'') (\<lambda>s. None :: nat option) (\<lambda>d x. x) (\<lambda>x b. (None, b))
     (rev error_status_map) (Body ''{'') \<lparr>br_frames = [], br_delivered = [], br_open = 0\<rparr> =
     (format_response 400 (gin_h_error 400 ''Bad Request'' ''invalid json format''),
      \<lparr>br_frames = [], br_delivered = [], br_open = 0\<rparr>) \<and>
   handler_create (\<lambda>s. s = ''{}'') (\<lambda>s. None :: nat option) (\<lambda>d x. x) (\<lambda>x b. (None, b))
     (rev error_status_map) (Body ''{}'') \<lparr>br_frames = [], br_delivered = [], br_open = 0\<rparr> =
     (format_response 400 (gin_h_error 400 ''error'' ''Invalid request body format''),
      \<lparr>br_frames = [], br_delivered = [], br_open = 0\<rparr>)"
  using handler_create_bad_input [OF map_iteration_order_rev, of "\<lambda>s. s = ''{}''" "\<lambda>s. None :: nat option"
      "\<lambda>d x. x" "\<lambda>x b. (None, b)" "\<lparr>br_frames = [], br_delivered = [], br_open = 0\<rparr>" "''{''"]
    handler_create_bad_input [OF map_iteration_order_rev, of "\<lambda>s. s = ''{}''" "\<lambda>s. None :: nat option"
      "\<lambda>d x. x" "\<lambda>x b. (None, b)" "\<lparr>br_frames = [], br_delivered = [], br_open = 0\<rparr>" "''{}''"]
    map_iteration_order_rev
  by simp

theorem handler_validation_failure_witness:
  "map_iteration_order error_status_map \<and>
   ppob_handler_create (\<lambda>s. True) (\<lambda>s. Some (ppob_example\<lparr>po_customer := (po_customer ppob_example)\<lparr>pc_name := []\<rparr>\<rparr>))
     example_configuration \<lparr>dial_error = None, send_error = None\<rparr> error_status_map (Body ''{}'')
     \<lparr>br_frames = [], br_delivered = [], br_open = 0\<rparr> =
     (format_response 400 (gin_h_error 400 ''Bad Request''
        (validation_error_handle (ValidationErrors [FieldError ''required'' ''Name'' []]))),
      \<lparr>br_frames = [], br_delivered = [], br_open = 0\<rparr>)"
proof -
  have h: "map_iteration_order error_status_map" by (simp add: map_iteration_order_def)
  have r: "read_json_body_request (\<lambda>s. True) (Body ''{}'') = Inr ''{}''"
    by (simp add: read_json_body_request_def)
  have v: "validate_struct (ppob_order_errors
      ((ppob_example\<lparr>po_customer := (po_customer ppob_example)\<lparr>pc_name := []\<rparr>\<rparr>)\<lparr>po_metadata_raw := ''{}''\<rparr>)) =
    Some (ValidationErrors [FieldError ''required'' ''Name'' []])"
    by (simp add: ppob_rule_defs validate_struct_def ppob_example_def ppob_injection_example_def
        required_str_def required_int_def)
  show ?thesis
    using handler_validation_failure [OF h r, where unmarshal =
        "\<lambda>s. Some (ppob_example\<lparr>po_customer := (po_customer ppob_example)\<lparr>pc_name := []\<rparr>\<rparr>)"
        and p = "ppob_example\<lparr>po_customer := (po_customer ppob_example)\<lparr>pc_name := []\<rparr>\<rparr>"
        and err = "ValidationErrors [FieldError ''required'' ''Name'' []]"
        and c = example_configuration and net = "\<lparr>dial_error = None, send_error = None\<rparr>"
        and b = "\<lparr>br_frames = [], br_delivered = [], br_open = 0\<rparr>"] v h
    by simp
qed

end
