(* ===== verification/JsonScan.thy ===== *)
theory JsonScan
  imports Json
begin

text \<open>
  \<open>json.Valid\<close>, which \<open>ReadJsonBodyRequest\<close> calls on every request body: Go runs the
  byte-at-a-time scanner of \<open>encoding/json/scanner.go\<close> over the bytes and then its
  end-of-input check. The scanner's state is the current step function (one constructor
  per \<open>stateXxx\<close> function; the four literal states \<open>stateT\<close>, \<open>stateTr\<close>, ... are
  \<open>ScanLit\<close> with the bytes still expected), the stack of open objects and arrays
  (\<open>parseState\<close>, innermost first) and \<open>endTop\<close>. An error is the sticky state
  \<open>ScanError\<close>, as \<open>checkValid\<close> stops at the first one. A push beyond
  \<open>maxNestingDepth\<close> (10000) is an error. Strings are checked byte by byte only (control
  bytes and escapes); like Go, the scanner does not check UTF-8.
\<close>

datatype scan_state =
  ScanBeginValueOrEmpty | ScanBeginValue | ScanBeginStringOrEmpty | ScanBeginString
  | ScanEndValue | ScanEndTop | ScanInString | ScanInStringEsc | ScanInStringEscU nat
  | ScanNeg | Scan1 | Scan0 | ScanDot | ScanDot0 | ScanE | ScanESign | ScanE0
  | ScanLit string | ScanError

datatype parse_state = ParseObjectKey | ParseObjectValue | ParseArrayValue

record scanner =
  sc_step :: scan_state
  sc_parse_state :: "parse_state list"
  sc_end_top :: bool

definition max_nesting_depth :: nat where
  "max_nesting_depth = 10000"

definition scan_reset :: scanner where
  "scan_reset = \<lparr>sc_step = ScanBeginValue, sc_parse_state = [], sc_end_top = False\<rparr>"

definition scan_is_space :: "char \<Rightarrow> bool" where
  "scan_is_space c \<longleftrightarrow> c = CHR '' '' \<or> c = CHR 0x09 \<or> c = CHR 0x0D \<or> c = CHR 0x0A"

definition scan_is_digit :: "char \<Rightarrow> bool" where
  "scan_is_digit c \<longleftrightarrow> CHR ''0'' \<le> c \<and> c \<le> CHR ''9''"

definition scan_is_hex :: "char \<Rightarrow> bool" where
  "scan_is_hex c \<longleftrightarrow> scan_is_digit c \<or> (CHR ''a'' \<le> c \<and> c \<le> CHR ''f'') \<or> (CHR ''A'' \<le> c \<and> c \<le> CHR ''F'')"

definition scan_error :: "scanner \<Rightarrow> scanner" where
  "scan_error s = s\<lparr>sc_step := ScanError\<rparr>"

text \<open>\<open>pushParseState\<close> and \<open>popParseState\<close>.\<close>

definition push_parse_state :: "scan_state \<Rightarrow> parse_state \<Rightarrow> scanner \<Rightarrow> scanner" where
  "push_parse_state success new s =
     (let st = new # sc_parse_state s in
      if length st \<le> max_nesting_depth then s\<lparr>sc_step := success, sc_parse_state := st\<rparr>
      else scan_error (s\<lparr>sc_parse_state := st\<rparr>))"

definition pop_parse_state :: "scanner \<Rightarrow> scanner" where
  "pop_parse_state s =
     (let st = tl (sc_parse_state s) in
      if st = [] then s\<lparr>sc_step := ScanEndTop, sc_parse_state := st, sc_end_top := True\<rparr>
      else s\<lparr>sc_step := ScanEndValue, sc_parse_state := st\<rparr>)"

definition state_end_top :: "scanner \<Rightarrow> char \<Rightarrow> scanner" where
  "state_end_top s c = (if scan_is_space c then s else scan_error s)"

definition state_end_value :: "scanner \<Rightarrow> char \<Rightarrow> scanner" where
  "state_end_value s c =
     (case sc_parse_state s of
        [] \<Rightarrow> state_end_top (s\<lparr>sc_step := ScanEndTop, sc_end_top := True\<rparr>) c
      | ps # rest \<Rightarrow>
          (if scan_is_space c then s\<lparr>sc_step := ScanEndValue\<rparr>
           else
             (case ps of
                ParseObjectKey \<Rightarrow>
                  (if c = CHR '':'' then s\<lparr>sc_step := ScanBeginValue, sc_parse_state := ParseObjectValue # rest\<rparr>
                   else scan_error s)
              | ParseObjectValue \<Rightarrow>
                  (if c = CHR '','' then s\<lparr>sc_step := ScanBeginString, sc_parse_state := ParseObjectKey # rest\<rparr>
                   else if c = CHR ''}'' then pop_parse_state s
                   else scan_error s)
              | ParseArrayValue \<Rightarrow>
                  (if c = CHR '','' then s\<lparr>sc_step := ScanBeginValue\<rparr>
                   else if c = CHR '']'' then pop_parse_state s
                   else scan_error s))))"

definition state_begin_value :: "scanner \<Rightarrow> char \<Rightarrow> scanner" where
  "state_begin_value s c =
     (if scan_is_space c then s
      else if c = CHR ''{'' then push_parse_state ScanBeginStringOrEmpty ParseObjectKey s
      else if c = CHR ''['' then push_parse_state ScanBeginValueOrEmpty ParseArrayValue s
      else if c = dquote then s\<lparr>sc_step := ScanInString\<rparr>
      else if c = CHR ''-'' then s\<lparr>sc_step := ScanNeg\<rparr>
      else if c = CHR ''0'' then s\<lparr>sc_step := Scan0\<rparr>
      else if c = CHR ''t'' then s\<lparr>sc_step := ScanLit ''rue''\<rparr>
      else if c = CHR ''f'' then s\<lparr>sc_step := ScanLit ''alse''\<rparr>
      else if c = CHR ''n'' then s\<lparr>sc_step := ScanLit ''ull''\<rparr>
      else if CHR ''1'' \<le> c \<and> c \<le> CHR ''9'' then s\<lparr>sc_step := Scan1\<rparr>
      else scan_error s)"

definition state_begin_string :: "scanner \<Rightarrow> char \<Rightarrow> scanner" where
  "state_begin_string s c =
     (if scan_is_space c then s else if c = dquote then s\<lparr>sc_step := ScanInString\<rparr> else scan_error s)"

text \<open>\<open>state0\<close>, \<open>stateDot0\<close> and \<open>stateE0\<close> end a number on any other byte and hand it on.\<close>

definition state0 :: "scanner \<Rightarrow> char \<Rightarrow> scanner" where
  "state0 s c =
     (if c = CHR ''.'' then s\<lparr>sc_step := ScanDot\<rparr>
      else if c = CHR ''e'' \<or> c = CHR ''E'' then s\<lparr>sc_step := ScanE\<rparr>
      else state_end_value s c)"

definition state_esign :: "scanner \<Rightarrow> char \<Rightarrow> scanner" where
  "state_esign s c = (if scan_is_digit c then s\<lparr>sc_step := ScanE0\<rparr> else scan_error s)"

definition scan_step :: "scanner \<Rightarrow> char \<Rightarrow> scanner" where
  "scan_step s c =
     (case sc_step s of
        ScanBeginValueOrEmpty \<Rightarrow>
          (if scan_is_space c then s else if c = CHR '']'' then state_end_value s c else state_begin_value s c)
      | ScanBeginValue \<Rightarrow> state_begin_value s c
      | ScanBeginStringOrEmpty \<Rightarrow>
          (if scan_is_space c then s
           else if c = CHR ''}'' then
             state_end_value (s\<lparr>sc_parse_state := ParseObjectValue # tl (sc_parse_state s)\<rparr>) c
           else state_begin_string s c)
      | ScanBeginString \<Rightarrow> state_begin_string s c
      | ScanEndValue \<Rightarrow> state_end_value s c
      | ScanEndTop \<Rightarrow> state_end_top s c
      | ScanInString \<Rightarrow>
          (if c = dquote then s\<lparr>sc_step := ScanEndValue\<rparr>
           else if c = bslash then s\<lparr>sc_step := ScanInStringEsc\<rparr>
           else if c < CHR 0x20 then scan_error s
           else s)
      | ScanInStringEsc \<Rightarrow>
          (if c \<in> set ''bfnrt'' \<or> c = bslash \<or> c = CHR ''/'' \<or> c = dquote then s\<lparr>sc_step := ScanInString\<rparr>
           else if c = CHR ''u'' then s\<lparr>sc_step := ScanInStringEscU 0\<rparr>
           else scan_error s)
      | ScanInStringEscU n \<Rightarrow>
          (if scan_is_hex c then s\<lparr>sc_step := (if n < 3 then ScanInStringEscU (Suc n) else ScanInString)\<rparr>
           else scan_error s)
      | ScanNeg \<Rightarrow>
          (if c = CHR ''0'' then s\<lparr>sc_step := Scan0\<rparr>
           else if CHR ''1'' \<le> c \<and> c \<le> CHR ''9'' then s\<lparr>sc_step := Scan1\<rparr>
           else scan_error s)
      | Scan1 \<Rightarrow> (if scan_is_digit c then s else state0 s c)
      | Scan0 \<Rightarrow> state0 s c
      | ScanDot \<Rightarrow> (if scan_is_digit c then s\<lparr>sc_step := ScanDot0\<rparr> else scan_error s)
      | ScanDot0 \<Rightarrow>
          (if scan_is_digit c then s
           else if c = CHR ''e'' \<or> c = CHR ''E'' then s\<lparr>sc_step := ScanE\<rparr>
           else state_end_value s c)
      | ScanE \<Rightarrow> (if c = CHR ''+'' \<or> c = CHR ''-'' then s\<lparr>sc_step := ScanESign\<rparr> else state_esign s c)
      | ScanESign \<Rightarrow> state_esign s c
      | ScanE0 \<Rightarrow> (if scan_is_digit c then s else state_end_value s c)
      | ScanLit expected \<Rightarrow>
          (case expected of
             [] \<Rightarrow> scan_error s
           | e # rest \<Rightarrow>
               (if c = e then s\<lparr>sc_step := (if rest = [] then ScanEndValue else ScanLit rest)\<rparr>
                else scan_error s))
      | ScanError \<Rightarrow> s)"

text \<open>\<open>checkValid\<close>: the bytes, then \<open>eof\<close>, which feeds one space when the top value is not yet closed.\<close>

definition scan_eof_ok :: "scanner \<Rightarrow> bool" where
  "scan_eof_ok s \<longleftrightarrow>
     sc_step s \<noteq> ScanError \<and> (sc_end_top s \<or> sc_end_top (scan_step s (CHR '' '')))"

definition json_valid :: "string \<Rightarrow> bool" where
  "json_valid data \<longleftrightarrow> scan_eof_ok (foldl scan_step scan_reset data)"

section \<open>The texts json.Marshal produces\<close>

text \<open>The integer texts of \<open>strconv\<close>/\<open>%v\<close>: an optional minus, then \<open>0\<close> or digits without a leading zero.\<close>

definition go_int_text :: "string \<Rightarrow> bool" where
  "go_int_text t \<longleftrightarrow>
     (let d = (if t \<noteq> [] \<and> hd t = CHR ''-'' then tl t else t)
      in d \<noteq> [] \<and> list_all scan_is_digit d \<and> (d = ''0'' \<or> hd d \<noteq> CHR ''0''))"

fun json_ints :: "json \<Rightarrow> bool" where
  "json_ints (JNum t) = go_int_text t"
| "json_ints (JArr vs) = list_all json_ints vs"
| "json_ints (JObj kvs) = list_all (\<lambda>(k, v). json_ints v) kvs"
| "json_ints v = True"

text \<open>Nesting depth: the number of objects and arrays around the innermost value.\<close>

fun json_depth :: "json \<Rightarrow> nat" where
  "json_depth (JArr vs) = Suc (Max (set (0 # map json_depth vs)))"
| "json_depth (JObj kvs) = Suc (Max (set (0 # map (\<lambda>(k, v). json_depth v) kvs)))"
| "json_depth v = 0"

text \<open>The scanner right after a complete value inside the open containers \<open>st\<close>.\<close>

definition after_value :: "parse_state list \<Rightarrow> scanner \<Rightarrow> bool" where
  "after_value st t \<longleftrightarrow>
     sc_parse_state t = st \<and>
     (if sc_end_top t then st = [] \<and> sc_step t = ScanEndTop
      else sc_step t = ScanEndValue \<or> sc_step t = Scan0 \<or> sc_step t = Scan1)"

definition value_start :: "scanner \<Rightarrow> bool" where
  "value_start s \<longleftrightarrow> (sc_step s = ScanBeginValue \<or> sc_step s = ScanBeginValueOrEmpty) \<and> \<not> sc_end_top s"

text \<open>The text \<open>[[...[]...]]\<close> of \<open>Suc k\<close> nested arrays.\<close>

fun json_nest :: "nat \<Rightarrow> json" where
  "json_nest 0 = JArr []"
| "json_nest (Suc k) = JArr [json_nest k]"

section \<open>Lemmas\<close>

lemma scan_update_same [simp]: "sc_step s = x \<Longrightarrow> s\<lparr>sc_step := x\<rparr> = s"
  by (cases s) simp

lemma scan_error_sticky: "sc_step s = ScanError \<Longrightarrow> foldl scan_step s cs = s"
  by (induction cs) (simp_all add: scan_step_def)

lemma below_space_iff: "(c < CHR 0x20) = (of_char c < (32::nat))"
  by (simp add: less_char_def)

lemma hex_digit_is_hex: "scan_is_hex (hex_digit n)"
proof -
  have "hex_digit n \<in> set ''0123456789abcdef''" unfolding hex_digit_def by (rule nth_mem) simp
  then show ?thesis
    unfolding scan_is_hex_def scan_is_digit_def
    by (simp only: set_simps insert_iff empty_iff) (elim disjE; simp)
qed

lemma scan_step_in_string:
  "sc_step s = ScanInString \<Longrightarrow>
   scan_step s c =
     (if c = dquote then s\<lparr>sc_step := ScanEndValue\<rparr> else if c = bslash then s\<lparr>sc_step := ScanInStringEsc\<rparr>
      else if c < CHR 0x20 then scan_error s else s)"
  "sc_step s = ScanInStringEsc \<Longrightarrow>
   scan_step s c =
     (if c \<in> set ''bfnrt'' \<or> c = bslash \<or> c = CHR ''/'' \<or> c = dquote then s\<lparr>sc_step := ScanInString\<rparr>
      else if c = CHR ''u'' then s\<lparr>sc_step := ScanInStringEscU 0\<rparr> else scan_error s)"
  "sc_step s = ScanInStringEscU n \<Longrightarrow>
   scan_step s c =
     (if scan_is_hex c then s\<lparr>sc_step := (if n < 3 then ScanInStringEscU (Suc n) else ScanInString)\<rparr>
      else scan_error s)"
  by (simp_all add: scan_step_def)

lemma scan_step_at:
  "sc_step s = ScanBeginValueOrEmpty \<Longrightarrow>
   scan_step s c = (if scan_is_space c then s else if c = CHR '']'' then state_end_value s c else state_begin_value s c)"
  "sc_step s = ScanBeginValue \<Longrightarrow> scan_step s c = state_begin_value s c"
  "sc_step s = ScanBeginString \<Longrightarrow> scan_step s c = state_begin_string s c"
  "sc_step s = ScanBeginStringOrEmpty \<Longrightarrow>
   scan_step s c =
     (if scan_is_space c then s
      else if c = CHR ''}'' then state_end_value (s\<lparr>sc_parse_state := ParseObjectValue # tl (sc_parse_state s)\<rparr>) c
      else state_begin_string s c)"
  "sc_step s = ScanEndValue \<Longrightarrow> scan_step s c = state_end_value s c"
  "sc_step s = ScanNeg \<Longrightarrow>
   scan_step s c =
     (if c = CHR ''0'' then s\<lparr>sc_step := Scan0\<rparr> else if CHR ''1'' \<le> c \<and> c \<le> CHR ''9'' then s\<lparr>sc_step := Scan1\<rparr>
      else scan_error s)"
  "sc_step s = Scan1 \<Longrightarrow> scan_step s c = (if scan_is_digit c then s else state0 s c)"
  "sc_step s = Scan0 \<Longrightarrow> scan_step s c = state0 s c"
  "sc_step s = ScanLit (e # rest) \<Longrightarrow>
   scan_step s c = (if c = e then s\<lparr>sc_step := (if rest = [] then ScanEndValue else ScanLit rest)\<rparr> else scan_error s)"
  by (simp_all add: scan_step_def)

lemma scan_hex_run:
  "sc_step s = ScanInString \<Longrightarrow> scan_is_hex a \<Longrightarrow> scan_is_hex b \<Longrightarrow> scan_is_hex c \<Longrightarrow> scan_is_hex d \<Longrightarrow>
   foldl scan_step s [bslash, CHR ''u'', a, b, c, d] = s"
  by (simp add: scan_step_in_string)

lemma scan_escape_pair:
  "sc_step s = ScanInString \<Longrightarrow> c \<in> set ''bfnrt'' \<or> c = bslash \<or> c = dquote \<Longrightarrow> foldl scan_step s [bslash, c] = s"
  by (auto simp: scan_step_in_string)

lemma scan_zero_hex: "scan_is_hex (CHR ''0'')"
  by (simp add: scan_is_hex_def scan_is_digit_def)

lemma json_escape_byte_forms:
  "(json_escape_byte c = [c] \<and> c \<noteq> dquote \<and> c \<noteq> bslash \<and> \<not> c < CHR 0x20) \<or>
   (\<exists>e. json_escape_byte c = [bslash, e] \<and> (e \<in> set ''bfnrt'' \<or> e = bslash \<or> e = dquote)) \<or>
   (\<exists>a b. json_escape_byte c = [bslash, CHR ''u'', CHR ''0'', CHR ''0'', a, b] \<and> scan_is_hex a \<and> scan_is_hex b)"
  unfolding json_escape_byte_def below_space_iff by (simp add: hex_digit_is_hex)

lemma scan_escape_byte: "sc_step s = ScanInString \<Longrightarrow> foldl scan_step s (json_escape_byte c) = s"
  using json_escape_byte_forms [of c]
  by (elim disjE exE conjE) (simp_all add: scan_escape_pair scan_hex_run scan_zero_hex scan_step_in_string)

lemma scan_escape: "sc_step s = ScanInString \<Longrightarrow> foldl scan_step s (json_escape str) = s"
proof (induction str rule: json_escape.induct)
  case (2 c cs)
  have u: "foldl scan_step s (bslash # ''u2028'') = s" "foldl scan_step s (bslash # ''u2029'') = s"
    using scan_hex_run [OF "2.prems"] by (simp_all add: scan_is_hex_def scan_is_digit_def)
  show ?case using 2 u by (simp add: scan_escape_byte)
qed simp

lemma scan_quote:
  "sc_step s \<in> {ScanBeginValue, ScanBeginValueOrEmpty, ScanBeginString, ScanBeginStringOrEmpty} \<Longrightarrow>
   foldl scan_step s (json_quote str) = s\<lparr>sc_step := ScanEndValue\<rparr>"
proof -
  assume h: "sc_step s \<in> {ScanBeginValue, ScanBeginValueOrEmpty, ScanBeginString, ScanBeginStringOrEmpty}"
  then have "scan_step s dquote = s\<lparr>sc_step := ScanInString\<rparr>"
    by (auto simp: scan_step_at state_begin_value_def state_begin_string_def scan_is_space_def)
  moreover have "foldl scan_step (s\<lparr>sc_step := ScanInString\<rparr>) (json_escape str) = s\<lparr>sc_step := ScanInString\<rparr>"
    by (rule scan_escape) simp
  ultimately show ?thesis by (simp add: json_quote_def scan_step_in_string)
qed

lemma scan_step_value_start:
  "value_start s \<Longrightarrow> \<not> scan_is_space c \<Longrightarrow> c \<noteq> CHR '']'' \<Longrightarrow> scan_step s c = state_begin_value s c"
  by (auto simp: value_start_def scan_step_at)

lemma scan_digits: "sc_step s = Scan1 \<Longrightarrow> list_all scan_is_digit ds \<Longrightarrow> foldl scan_step s ds = s"
  by (induction ds) (simp_all add: scan_step_at)

lemma scan_digit_pos:
  assumes "scan_is_digit c" "c \<noteq> CHR ''0''" shows "CHR ''1'' \<le> c"
proof -
  have "of_char c \<noteq> (of_char (CHR ''0'') :: nat)" using assms(2) by (simp only: of_char_eq_iff) simp
  then show ?thesis using assms(1) by (simp add: scan_is_digit_def less_eq_char_def)
qed

lemma scan_unsigned:
  assumes s: "sc_step s = ScanNeg \<or> value_start s"
    and d: "d \<noteq> []" "list_all scan_is_digit d" "d = ''0'' \<or> hd d \<noteq> CHR ''0''"
  shows "\<exists>x. foldl scan_step s d = s\<lparr>sc_step := x\<rparr> \<and> (x = Scan0 \<or> x = Scan1)"
proof -
  obtain c ds where cd: "d = c # ds" using d(1) by (cases d) auto
  have dig: "scan_is_digit c" "list_all scan_is_digit ds" using d(2) cd by simp_all
  then have c: "CHR ''0'' \<le> c" "c \<le> CHR ''9''" by (simp_all add: scan_is_digit_def)
  have ns: "\<not> scan_is_space c" "c \<noteq> CHR '']''" "c \<noteq> CHR ''{''" "c \<noteq> CHR ''[''" "c \<noteq> dquote"
    "c \<noteq> CHR ''-''" "c \<noteq> CHR ''t''" "c \<noteq> CHR ''f''" "c \<noteq> CHR ''n''"
    using c by (auto simp: scan_is_space_def less_eq_char_def)
  have one: "c \<noteq> CHR ''0'' \<Longrightarrow> CHR ''1'' \<le> c" using scan_digit_pos dig(1) by blast
  have bv: "state_begin_value s c = s\<lparr>sc_step := (if c = CHR ''0'' then Scan0 else Scan1)\<rparr>"
    using ns c one by (cases "c = CHR ''0''") (simp_all add: state_begin_value_def)
  have first: "scan_step s c = s\<lparr>sc_step := (if c = CHR ''0'' then Scan0 else Scan1)\<rparr>"
    using s
  proof
    assume "sc_step s = ScanNeg"
    then show ?thesis using c one by (cases "c = CHR ''0''") (simp_all add: scan_step_at)
  next
    assume "value_start s"
    then show ?thesis using ns bv by (simp add: scan_step_value_start)
  qed
  show ?thesis
  proof (cases "c = CHR ''0''")
    case True
    then have "ds = []" using d(3) cd by auto
    then show ?thesis using first True cd by auto
  next
    case False
    have "foldl scan_step (s\<lparr>sc_step := Scan1\<rparr>) ds = s\<lparr>sc_step := Scan1\<rparr>"
      by (rule scan_digits) (simp_all add: dig)
    then show ?thesis using first False cd by auto
  qed
qed

lemma scan_int:
  "value_start s \<Longrightarrow> go_int_text t \<Longrightarrow> \<exists>x. foldl scan_step s t = s\<lparr>sc_step := x\<rparr> \<and> (x = Scan0 \<or> x = Scan1)"
proof (cases "t \<noteq> [] \<and> hd t = CHR ''-''")
  case True
  assume v: "value_start s" and g: "go_int_text t"
  obtain d where t: "t = CHR ''-'' # d" using True by (cases t) auto
  have "scan_step s (CHR ''-'') = s\<lparr>sc_step := ScanNeg\<rparr>"
    using v by (simp add: scan_step_value_start scan_is_space_def state_begin_value_def)
  moreover obtain x where "foldl scan_step (s\<lparr>sc_step := ScanNeg\<rparr>) d = s\<lparr>sc_step := ScanNeg\<rparr>\<lparr>sc_step := x\<rparr>"
      "x = Scan0 \<or> x = Scan1"
    using scan_unsigned [of "s\<lparr>sc_step := ScanNeg\<rparr>" d] g t by (auto simp: go_int_text_def)
  ultimately show ?thesis using t by auto
next
  case False
  assume v: "value_start s" and g: "go_int_text t"
  then show ?thesis using scan_unsigned [of s t] False by (simp add: go_int_text_def Let_def)
qed

lemma scan_literals:
  "value_start s \<Longrightarrow> foldl scan_step s ''null'' = s\<lparr>sc_step := ScanEndValue\<rparr>"
  "value_start s \<Longrightarrow> foldl scan_step s ''true'' = s\<lparr>sc_step := ScanEndValue\<rparr>"
  "value_start s \<Longrightarrow> foldl scan_step s ''false'' = s\<lparr>sc_step := ScanEndValue\<rparr>"
  by (simp_all add: scan_step_value_start scan_is_space_def state_begin_value_def scan_step_at)

lemma state_end_value_step: "state_end_value (s\<lparr>sc_step := x\<rparr>) c = state_end_value s c"
  by (simp add: state_end_value_def state_end_top_def scan_error_def pop_parse_state_def split: list.splits parse_state.splits)

lemma after_value_next:
  "after_value st t \<Longrightarrow> st \<noteq> [] \<Longrightarrow> c = CHR '','' \<or> c = CHR '']'' \<or> c = CHR ''}'' \<or> c = CHR '':'' \<Longrightarrow>
   scan_step t c = state_end_value t c"
proof -
  assume a: "after_value st t" "st \<noteq> []" and c: "c = CHR '','' \<or> c = CHR '']'' \<or> c = CHR ''}'' \<or> c = CHR '':''"
  then have "sc_step t = ScanEndValue \<or> sc_step t = Scan0 \<or> sc_step t = Scan1"
    by (auto simp: after_value_def split: if_splits)
  then show ?thesis using c by (elim disjE) (auto simp: scan_step_at state0_def scan_is_digit_def)
qed

lemma end_value_rules:
  "sc_parse_state t = ParseArrayValue # st \<Longrightarrow> state_end_value t (CHR '','') = t\<lparr>sc_step := ScanBeginValue\<rparr>"
  "sc_parse_state t = ParseArrayValue # st \<Longrightarrow> state_end_value t (CHR '']'') = pop_parse_state t"
  "sc_parse_state t = ParseObjectKey # st \<Longrightarrow>
   state_end_value t (CHR '':'') = t\<lparr>sc_step := ScanBeginValue, sc_parse_state := ParseObjectValue # st\<rparr>"
  "sc_parse_state t = ParseObjectValue # st \<Longrightarrow>
   state_end_value t (CHR '','') = t\<lparr>sc_step := ScanBeginString, sc_parse_state := ParseObjectKey # st\<rparr>"
  "sc_parse_state t = ParseObjectValue # st \<Longrightarrow> state_end_value t (CHR ''}'') = pop_parse_state t"
  by (simp_all add: state_end_value_def scan_is_space_def)

lemma after_value_pop:
  "sc_parse_state t = p # st \<Longrightarrow> \<not> sc_end_top t \<Longrightarrow> after_value st (pop_parse_state t)"
  by (simp add: pop_parse_state_def after_value_def)

lemma after_value_eof: "after_value [] t \<Longrightarrow> scan_eof_ok t"
proof -
  assume a: "after_value [] t"
  have sp: "scan_is_space (CHR '' '')" by (simp add: scan_is_space_def)
  have ev: "sc_end_top (state_end_value t (CHR '' ''))" if "sc_parse_state t = []"
    using that sp by (simp add: state_end_value_def state_end_top_def)
  show ?thesis
  proof (cases "sc_end_top t")
    case True
    then show ?thesis using a by (simp add: after_value_def scan_eof_ok_def)
  next
    case False
    then have "sc_step t = ScanEndValue \<or> sc_step t = Scan0 \<or> sc_step t = Scan1" "sc_parse_state t = []"
      using a by (simp_all add: after_value_def)
    then show ?thesis using ev
      by (auto simp: scan_eof_ok_def scan_step_at state0_def scan_is_digit_def)
  qed
qed

lemma scan_join:
  "(\<And>x s. x \<in> set xs \<Longrightarrow> P s \<Longrightarrow> Q (foldl scan_step s x)) \<Longrightarrow> (\<And>t. Q t \<Longrightarrow> P (scan_step t (CHR '',''))) \<Longrightarrow>
   xs \<noteq> [] \<Longrightarrow> P s \<Longrightarrow> Q (foldl scan_step s (join_with '','' xs))"
proof (induction xs arbitrary: s rule: induct_list012)
  case (3 x y zs)
  have "Q (foldl scan_step s x)" using "3.prems"(1,4) by simp
  then have "P (scan_step (foldl scan_step s x) (CHR '',''))" by (rule "3.prems"(2))
  then have "Q (foldl scan_step (scan_step (foldl scan_step s x) (CHR '','')) (join_with '','' (y # zs)))"
    using "3.IH"(2) "3.prems"(1,2) by simp
  then show ?case by simp
qed auto

lemma json_depth_elems:
  "x \<in> set vs \<Longrightarrow> json_depth x < json_depth (JArr vs)"
  "(k, x) \<in> set kvs \<Longrightarrow> json_depth x < json_depth (JObj kvs)"
proof -
  show "x \<in> set vs \<Longrightarrow> json_depth x < json_depth (JArr vs)"
    by (simp add: le_imp_less_Suc)
  assume "(k, x) \<in> set kvs"
  then have "json_depth x \<in> set (map (\<lambda>(k, v). json_depth v) kvs)" by force
  then show "json_depth x < json_depth (JObj kvs)" by (simp add: le_imp_less_Suc)
qed

lemma after_value_inner:
  "after_value (p # st) t \<Longrightarrow> \<not> sc_end_top t \<and> sc_parse_state t = p # st"
  by (simp add: after_value_def split: if_splits)

lemma scan_close:
  assumes "after_value (p # st) t" "c = CHR '']'' \<and> p = ParseArrayValue \<or> c = CHR ''}'' \<and> p = ParseObjectValue"
  shows "after_value st (scan_step t c)"
proof -
  have t: "\<not> sc_end_top t" "sc_parse_state t = p # st" using after_value_inner [OF assms(1)] by simp_all
  have "scan_step t c = pop_parse_state t"
    using assms(2)
  proof
    assume "c = CHR '']'' \<and> p = ParseArrayValue"
    then show ?thesis using after_value_next [OF assms(1)] end_value_rules(2) [of t st] t(2) by simp
  next
    assume "c = CHR ''}'' \<and> p = ParseObjectValue"
    then show ?thesis using after_value_next [OF assms(1)] end_value_rules(5) [of t st] t(2) by simp
  qed
  then show ?thesis using after_value_pop [OF t(2,1)] by simp
qed

lemma scan_open:
  assumes "value_start s" "Suc (length (sc_parse_state s)) \<le> max_nesting_depth"
  shows "scan_step s (CHR ''['') =
           s\<lparr>sc_step := ScanBeginValueOrEmpty, sc_parse_state := ParseArrayValue # sc_parse_state s\<rparr>"
    "scan_step s (CHR ''{'') =
           s\<lparr>sc_step := ScanBeginStringOrEmpty, sc_parse_state := ParseObjectKey # sc_parse_state s\<rparr>"
  using assms by (simp_all add: scan_step_value_start scan_is_space_def state_begin_value_def push_parse_state_def)

lemma scan_encode:
  "json_ints v \<Longrightarrow> length st + json_depth v \<le> max_nesting_depth \<Longrightarrow> value_start s \<Longrightarrow> sc_parse_state s = st \<Longrightarrow>
   after_value st (foldl scan_step s (json_encode v))"
proof (induction v arbitrary: s st rule: json_encode.induct)
  case 1
  then show ?case using scan_literals(1) [OF "1.prems"(3)] by (simp add: after_value_def value_start_def)
next
  case (2 b)
  then show ?case using scan_literals(2,3) [OF "2.prems"(3)] by (simp add: after_value_def value_start_def)
next
  case (3 t)
  then obtain x where "foldl scan_step s t = s\<lparr>sc_step := x\<rparr>" "x = Scan0 \<or> x = Scan1"
    using scan_int by fastforce
  then show ?case using "3.prems" by (auto simp: after_value_def value_start_def)
next
  case (4 str)
  then have "sc_step s \<in> {ScanBeginValue, ScanBeginValueOrEmpty, ScanBeginString, ScanBeginStringOrEmpty}"
    by (auto simp: value_start_def)
  then show ?case using "4.prems" by (simp add: scan_quote after_value_def value_start_def)
next
  case (5 vs)
  define s1 where "s1 = s\<lparr>sc_step := ScanBeginValueOrEmpty, sc_parse_state := ParseArrayValue # st\<rparr>"
  have open1: "scan_step s (CHR ''['') = s1"
    using scan_open(1) [OF "5.prems"(3)] "5.prems"(2,4) by (simp add: s1_def)
  have body: "after_value (ParseArrayValue # st) (foldl scan_step s1 (join_with '','' (map json_encode vs)))"
    if "vs \<noteq> []"
  proof (rule scan_join [where P = "\<lambda>s. value_start s \<and> sc_parse_state s = ParseArrayValue # st"])
    fix x s'
    assume "x \<in> set (map json_encode vs)" "value_start s' \<and> sc_parse_state s' = ParseArrayValue # st"
    moreover obtain v where "v \<in> set vs" "x = json_encode v" using calculation(1) by auto
    moreover have "length (ParseArrayValue # st) + json_depth v \<le> max_nesting_depth"
      using json_depth_elems(1) [OF calculation(3)] "5.prems"(2) by simp
    ultimately show "after_value (ParseArrayValue # st) (foldl scan_step s' x)"
      using "5.IH" "5.prems"(1) by (simp add: list_all_iff)
  next
    fix t
    assume "after_value (ParseArrayValue # st) t"
    then show "value_start (scan_step t (CHR '','')) \<and> sc_parse_state (scan_step t (CHR '','')) = ParseArrayValue # st"
      using after_value_next after_value_inner end_value_rules(1) by (simp add: value_start_def)
  qed (use that "5.prems"(3) in \<open>simp_all add: s1_def value_start_def\<close>)
  have "after_value st (foldl scan_step s1 (join_with '','' (map json_encode vs) @ '']''))"
  proof (cases "vs = []")
    case True
    have "scan_step s1 (CHR '']'') = pop_parse_state s1"
      using end_value_rules(2) [of s1 st] by (simp add: scan_step_at s1_def scan_is_space_def)
    then show ?thesis using True after_value_pop [of s1] "5.prems"(3) by (simp add: s1_def value_start_def)
  next
    case False
    then show ?thesis using body scan_close by simp
  qed
  then show ?case using open1 by simp
next
  case (6 kvs)
  define s1 where "s1 = s\<lparr>sc_step := ScanBeginStringOrEmpty, sc_parse_state := ParseObjectKey # st\<rparr>"
  have open1: "scan_step s (CHR ''{'') = s1"
    using scan_open(2) [OF "6.prems"(3)] "6.prems"(2,4) by (simp add: s1_def)
  let ?P = "\<lambda>s :: scanner. (sc_step s = ScanBeginString \<or> sc_step s = ScanBeginStringOrEmpty) \<and> \<not> sc_end_top s \<and>
                 sc_parse_state s = ParseObjectKey # st"
  have body: "after_value (ParseObjectValue # st)
      (foldl scan_step s1 (join_with '','' (map (\<lambda>(k, v). json_quote k @ '':'' @ json_encode v) kvs)))"
    if "kvs \<noteq> []"
  proof (rule scan_join [where P = ?P])
    fix x s'
    assume x: "x \<in> set (map (\<lambda>(k, v). json_quote k @ '':'' @ json_encode v) kvs)" and p: "?P s'"
    then obtain k v where kv: "(k, v) \<in> set kvs" "x = json_quote k @ '':'' @ json_encode v" by auto
    define s3 where "s3 = s'\<lparr>sc_step := ScanBeginValue, sc_parse_state := ParseObjectValue # st\<rparr>"
    have "foldl scan_step s' (json_quote k) = s'\<lparr>sc_step := ScanEndValue\<rparr>"
      using p by (auto intro: scan_quote)
    moreover have "scan_step (s'\<lparr>sc_step := ScanEndValue\<rparr>) (CHR '':'') = s3"
      using p end_value_rules(3) [of "s'\<lparr>sc_step := ScanEndValue\<rparr>" st] by (simp add: scan_step_at s3_def)
    moreover have "length (ParseObjectValue # st) + json_depth v \<le> max_nesting_depth"
      using json_depth_elems(2) [OF kv(1)] "6.prems"(2) by simp
    moreover have "json_ints v" using "6.prems"(1) kv(1) by (auto simp: list_all_iff)
    moreover have "value_start s3" using p by (simp add: s3_def value_start_def)
    ultimately show "after_value (ParseObjectValue # st) (foldl scan_step s' x)"
      using "6.IH" [OF kv(1) refl, of "ParseObjectValue # st" s3] kv(2) by (simp add: s3_def)
  next
    fix t
    assume "after_value (ParseObjectValue # st) t"
    then show "?P (scan_step t (CHR '',''))"
      using after_value_next after_value_inner end_value_rules(4) by simp
  qed (use that "6.prems"(3) in \<open>simp_all add: s1_def value_start_def\<close>)
  have "after_value st (foldl scan_step s1
          (join_with '','' (map (\<lambda>(k, v). json_quote k @ '':'' @ json_encode v) kvs) @ ''}''))"
  proof (cases "kvs = []")
    case True
    define s2 where "s2 = s1\<lparr>sc_parse_state := ParseObjectValue # st\<rparr>"
    have "scan_step s1 (CHR ''}'') = pop_parse_state s2"
      using end_value_rules(5) [of s2 st] by (simp add: scan_step_at s1_def s2_def scan_is_space_def)
    then show ?thesis using True after_value_pop [of s2] "6.prems"(3) by (simp add: s1_def s2_def value_start_def)
  next
    case False
    then show ?thesis using body scan_close by simp
  qed
  then show ?case using open1 by simp
qed

lemma scan_reset_start: "value_start scan_reset" "sc_parse_state scan_reset = []"
  by (simp_all add: value_start_def scan_reset_def)

lemma scan_encode_top:
  "json_ints v \<Longrightarrow> json_depth v \<le> max_nesting_depth \<Longrightarrow> scan_eof_ok (foldl scan_step scan_reset (json_encode v))"
  using scan_encode [of v "[]" scan_reset] by (simp add: scan_reset_start after_value_eof)

lemma json_nest_encode: "json_encode (json_nest k) = replicate (Suc k) (CHR ''['') @ replicate (Suc k) (CHR '']'')"
  by (induction k) (simp_all add: replicate_append_same)

lemma json_nest_props: "json_ints (json_nest k)" "json_depth (json_nest k) = Suc k"
  by (induction k) simp_all

lemma scan_open_run:
  "k \<le> max_nesting_depth \<Longrightarrow>
   foldl scan_step scan_reset (replicate k (CHR ''['')) =
     (if k = 0 then scan_reset
      else \<lparr>sc_step = ScanBeginValueOrEmpty, sc_parse_state = replicate k ParseArrayValue, sc_end_top = False\<rparr>)"
proof (induction k)
  case (Suc k)
  let ?s = "foldl scan_step scan_reset (replicate k (CHR ''[''))"
  have v: "value_start ?s" "length (sc_parse_state ?s) = k"
    using Suc by (simp_all add: scan_reset_def value_start_def)
  have "scan_step ?s (CHR ''['') =
          \<lparr>sc_step = ScanBeginValueOrEmpty, sc_parse_state = replicate (Suc k) ParseArrayValue, sc_end_top = False\<rparr>"
    using scan_open(1) [OF v(1)] v(2) Suc by (simp add: scan_reset_def)
  then show ?case by (simp flip: replicate_append_same)
qed simp

lemma scan_too_deep:
  "max_nesting_depth < n \<Longrightarrow> sc_step (foldl scan_step scan_reset (replicate n (CHR ''['') @ t)) = ScanError"
proof -
  assume n: "max_nesting_depth < n"
  let ?s = "foldl scan_step scan_reset (replicate max_nesting_depth (CHR ''[''))"
  have v: "value_start ?s" "length (sc_parse_state ?s) = max_nesting_depth"
    by (simp_all add: scan_open_run value_start_def max_nesting_depth_def)
  have e: "sc_step (scan_step ?s (CHR ''['')) = ScanError"
    using v by (simp add: scan_step_value_start scan_is_space_def state_begin_value_def push_parse_state_def
        scan_error_def)
  have "n = max_nesting_depth + Suc (n - Suc max_nesting_depth)" using n by simp
  then have r: "replicate n (CHR ''['') @ t =
      replicate max_nesting_depth (CHR ''['') @ CHR ''['' # (replicate (n - Suc max_nesting_depth) (CHR ''['') @ t)"
    by (metis replicate_add replicate_Suc append_Cons append_assoc)
  show ?thesis unfolding r foldl_append foldl.simps(2) scan_error_sticky [OF e] by (rule e)
qed

lemma scan_is_digit_eq: "scan_is_digit = is_digit"
  by (simp add: fun_eq_iff scan_is_digit_def is_digit_def)

lemma nat_dec_hd_nonzero: "n \<noteq> 0 \<Longrightarrow> hd (nat_dec n) \<noteq> CHR ''0''"
proof (induction n rule: nat_dec.induct)
  case (1 n)
  show ?case
  proof (cases "n < 10")
    case True
    have "of_char (digit_char n) \<noteq> (of_char (CHR ''0'') :: nat)"
      using True "1.prems" by (simp add: digit_char_def)
    then show ?thesis using True by (subst nat_dec.simps) auto
  next
    case False
    then have "hd (nat_dec (n div 10)) \<noteq> CHR ''0''" using "1.IH" by simp
    then show ?thesis using False by (subst nat_dec.simps) simp
  qed
qed

lemma nat_dec_zero: "nat_dec 0 = ''0''"
  using char_of_char [of "CHR ''0''"] by (subst nat_dec.simps) (simp add: digit_char_def)

lemma go_int_text_nat_dec: "nat_dec n \<noteq> [] \<and> list_all scan_is_digit (nat_dec n) \<and>
    (nat_dec n = ''0'' \<or> hd (nat_dec n) \<noteq> CHR ''0'')"
  using nat_dec_digits [of n] nat_dec_hd_nonzero [of n]
  by (cases "n = 0") (simp_all add: nat_dec_zero scan_is_digit_eq list_all_iff)

lemma go_int_text_int_dec: "go_int_text (int_dec i)"
proof (cases "i < 0")
  case True
  then show ?thesis using go_int_text_nat_dec [of "nat (- i)"] by (simp add: go_int_text_def int_dec_neg)
next
  case False
  obtain c cs where "nat_dec (nat i) = c # cs" "is_digit c"
    using nat_dec_nonempty [of "nat i"] nat_dec_digits [of "nat i"] by (cases "nat_dec (nat i)") auto
  moreover have "c \<noteq> CHR ''-''" using calculation(2) minus_not_digit by blast
  ultimately show ?thesis using False go_int_text_nat_dec [of "nat i"] by (simp add: go_int_text_def int_dec_nonneg)
qed

lemma iface_norm_ints_depth: "json_ints (iface_norm v) = json_ints v \<and> json_depth (iface_norm v) = json_depth v"
proof (induction v rule: iface_norm.induct)
  case (1 vs)
  then show ?case by (simp add: list_all_iff image_image cong: image_cong)
next
  case (2 kvs)
  have "set (sort_key fst (map (\<lambda>(k, v). (k, iface_norm v)) kvs)) = (\<lambda>(k, v). (k, iface_norm v)) ` set kvs"
    by simp
  moreover have "(\<lambda>p. json_depth (iface_norm (snd p))) ` set kvs = (\<lambda>p. json_depth (snd p)) ` set kvs"
    "(\<forall>p\<in>set kvs. json_ints (iface_norm (snd p))) = (\<forall>p\<in>set kvs. json_ints (snd p))"
    using "2" [of p "fst p" "snd p" for p] by (auto cong: image_cong)
  ultimately show ?case by (simp add: list_all_iff image_image split_def)
qed simp_all

lemma json_valid_empty_object: "json_valid ''{}''"
  using scan_encode_top [of "JObj []"] by (simp add: json_valid_def max_nesting_depth_def)

lemma marshal_iface_valid:
  "json_ints v \<Longrightarrow> json_depth v \<le> max_nesting_depth \<Longrightarrow> json_valid (marshal_iface v)"
  using scan_encode_top [of "iface_norm v"] iface_norm_ints_depth [of v]
  by (simp add: json_valid_def marshal_iface_def)

text \<open>
  \<open>json.Valid\<close> accepts every text \<open>json.Marshal\<close> produces for a value whose
  numbers are Go integers and which nests at most \<open>maxNestingDepth\<close> (10000) deep.
\<close>

theorem json_valid_marshal:
  "json_ints v \<Longrightarrow> json_depth v \<le> max_nesting_depth \<Longrightarrow> json_valid (json_encode v)"
  unfolding json_valid_def by (rule scan_encode_top)

theorem json_valid_marshal_witness:
  "json_ints (JObj [(''code'', JNum ''-42''), (''tags'', JArr [JStr ''{a:b}'', JNull, JBool False])]) \<and>
   json_depth (JObj [(''code'', JNum ''-42''), (''tags'', JArr [JStr ''{a:b}'', JNull, JBool False])]) \<le> max_nesting_depth \<and>
   json_valid (json_encode (JObj [(''code'', JNum ''-42''), (''tags'', JArr [JStr ''{a:b}'', JNull, JBool False])]))"
proof -
  have "json_ints (JObj [(''code'', JNum ''-42''), (''tags'', JArr [JStr ''{a:b}'', JNull, JBool False])])"
    by (simp add: go_int_text_def scan_is_digit_def)
  moreover have "json_depth (JObj [(''code'', JNum ''-42''), (''tags'', JArr [JStr ''{a:b}'', JNull, JBool False])]) \<le> max_nesting_depth"
    by (simp add: max_nesting_depth_def)
  ultimately show ?thesis using json_valid_marshal by blast
qed

text \<open>
  \<open>json.Valid\<close> accepts \<open>n\<close> nested empty arrays exactly when \<open>n\<close> is between 1 and
  \<open>maxNestingDepth\<close> (10000): the empty body is rejected, and so is any body nested deeper.
\<close>

theorem json_valid_nesting:
  "json_valid (replicate n (CHR ''['') @ replicate n (CHR '']'')) \<longleftrightarrow> 0 < n \<and> n \<le> max_nesting_depth"
proof (cases "0 < n \<and> n \<le> max_nesting_depth")
  case True
  then obtain k where "n = Suc k" by (cases n) auto
  then show ?thesis using True scan_encode_top [of "json_nest k"]
    by (simp add: json_valid_def json_nest_encode json_nest_props)
next
  case False
  then consider "n = 0" | "max_nesting_depth < n" by linarith
  then have "\<not> json_valid (replicate n (CHR ''['') @ replicate n (CHR '']''))"
  proof cases
    case 1
    then show ?thesis
      by (simp add: json_valid_def scan_eof_ok_def scan_reset_def scan_step_at scan_is_space_def state_begin_value_def)
  next
    case 2
    then show ?thesis using scan_too_deep by (simp add: json_valid_def scan_eof_ok_def)
  qed
  then show ?thesis using False by simp
qed

end
