(* ===== verification/Router.thy ===== *)
theory Router
  imports Handler JsonScan
begin

text \<open>
  The request path through the gin engine built by \<open>InitRouter\<close>
  (\<open>src/routers/router.go\<close>): the logging middleware, \<open>CORSMiddleware\<close>
  (\<open>src/utility/utility.go\<close>), \<open>gin.Recovery\<close>, then either the route group
  \<open>/api/v1/orders\<close> with \<open>APIKeyMiddleware\<close>
  (\<open>src/internal/handler/middleware/auth.go\<close>) and one of the two handlers, or the
  \<open>NoRoute\<close> handler. A request carries its method, path, the header map as
  \<open>net/http\<close> stores it (canonical keys, list of values) and its body. gin's defaults
  decide the rest: only the two \<open>POST\<close> routes exist, a request that matches no route
  (including another method on a route path) runs the global middleware and \<open>NoRoute\<close>,
  and a \<open>POST\<close> whose path is a route path with one trailing slash is redirected
  (307) by the engine before any middleware runs. The logging middleware reads the body
  with \<open>c.GetRawData\<close>, discards a read error and puts the bytes back, so the handler
  always receives the bytes read (\<open>rq_body\<close>) and the nil-body and read-error branches
  of \<open>ReadJsonBodyRequest\<close> are not reached through the router; the handlers check
  the bytes with \<open>json_valid\<close>, the model of \<open>json.Valid\<close>. The logging
  middleware's record of the request is theory \<open>Logging\<close>.
\<close>

section \<open>Headers\<close>

definition ascii_upper :: "char \<Rightarrow> char" where
  "ascii_upper c = (if CHR ''a'' \<le> c \<and> c \<le> CHR ''z'' then char_of (of_char c - (32::nat)) else c)"

definition header_token_char :: "char \<Rightarrow> bool" where
  "header_token_char c \<longleftrightarrow>
     (CHR ''a'' \<le> c \<and> c \<le> CHR ''z'') \<or> (CHR ''A'' \<le> c \<and> c \<le> CHR ''Z'') \<or>
     (CHR ''0'' \<le> c \<and> c \<le> CHR ''9'') \<or> c \<in> set ''!#$%&*+-.^_|~`'' \<or> c = squote"

fun canonical_from :: "bool \<Rightarrow> string \<Rightarrow> string" where
  "canonical_from upper [] = []"
| "canonical_from upper (c # cs) =
     (if upper then ascii_upper c else ascii_lower c) # canonical_from (c = CHR ''-'') cs"

text \<open>\<open>textproto.CanonicalMIMEHeaderKey\<close>: unchanged when a byte is not a token byte.\<close>

definition canonical_mime_header_key :: "string \<Rightarrow> string" where
  "canonical_mime_header_key s = (if list_all header_token_char s then canonical_from True s else s)"

type_synonym http_header = "(string \<times> string list) list"

text \<open>\<open>http.Header.Get\<close>, which \<open>c.GetHeader\<close> calls: the first value, or the empty string.\<close>

definition header_get :: "http_header \<Rightarrow> string \<Rightarrow> string" where
  "header_get h key =
     (case map_of h (canonical_mime_header_key key) of Some (v # _) \<Rightarrow> v | _ \<Rightarrow> [])"

record http_request =
  rq_method :: string
  rq_path :: string
  rq_headers :: http_header
  rq_body :: string

record http_response =
  hr_code :: int
  hr_headers :: "(string \<times> string) list"
  hr_body :: "json option"

section \<open>Middleware\<close>

definition api_key_header :: string where
  "api_key_header = ''X-API-KEY''"

text \<open>The loop of \<open>APIKeyMiddleware\<close> that sets \<open>isValid\<close> and breaks.\<close>

fun api_key_loop :: "string \<Rightarrow> string list \<Rightarrow> bool" where
  "api_key_loop api_key [] = False"
| "api_key_loop api_key (key # keys) = (if api_key = key then True else api_key_loop api_key keys)"

definition auth_error :: "string \<Rightarrow> response" where
  "auth_error message = format_response 401 (gin_h_error 401 ''error'' message)"

text \<open>\<open>None\<close> is \<open>c.Next()\<close>; \<open>Some r\<close> is \<open>c.JSON(r)\<close> followed by \<open>c.Abort()\<close>.\<close>

definition api_key_middleware :: "string list \<Rightarrow> http_request \<Rightarrow> response option" where
  "api_key_middleware valid_api_keys r =
     (let api_key = header_get (rq_headers r) api_key_header in
      if api_key = [] then Some (auth_error ''API key is required'')
      else
        (let is_valid = api_key_loop api_key valid_api_keys in
         if \<not> is_valid then Some (auth_error ''Invalid API key'') else None))"

definition cors_headers :: "(string \<times> string) list" where
  "cors_headers =
     [(''Access-Control-Allow-Origin'', ''*''),
      (''Access-Control-Allow-Credentials'', ''true''),
      (''Access-Control-Allow-Headers'',
       ''X-Requested-With, X-Auth-Token, Content-Type, Content-Length, Authorization, '' @
       ''Access-Control-Allow-Headers, Accept, Access-Control-Allow-Methods, '' @
       ''Access-Control-Allow-Origin, Access-Control-Allow-Credentials''),
      (''Access-Control-Allow-Methods'', ''POST, OPTIONS, GET, HEAD, PUT'')]"

text \<open>
  \<open>CORSMiddleware\<close>: its headers are set on every response it sees; a preflight aborts.
  \<open>c.JSON\<close> adds the JSON content type (\<open>with_cors\<close>).
\<close>

definition cors_middleware :: "http_request \<Rightarrow> http_response option" where
  "cors_middleware r =
     (if rq_method r = ''OPTIONS''
      then Some \<lparr>hr_code = 204, hr_headers = cors_headers, hr_body = None\<rparr> else None)"

definition with_cors :: "response \<Rightarrow> http_response" where
  "with_cors resp =
     \<lparr>hr_code = rs_code resp, hr_headers = cors_headers @ [(''Content-Type'', ''application/json; charset=utf-8'')],
      hr_body = Some (rs_body resp)\<rparr>"

section \<open>Routes\<close>

datatype route = NonPPOBRoute | PPOBRoute

definition route_paths :: "(string \<times> route) list" where
  "route_paths = [(''/api/v1/orders/non-ppob'', NonPPOBRoute), (''/api/v1/orders/ppob'', PPOBRoute)]"

definition find_route :: "string \<Rightarrow> string \<Rightarrow> route option" where
  "find_route method path = (if method = ''POST'' then map_of route_paths path else None)"

definition trailing_slash_redirect :: "string \<Rightarrow> string \<Rightarrow> bool" where
  "trailing_slash_redirect method path \<longleftrightarrow>
     method = ''POST'' \<and> list_ex (\<lambda>(p, _). path = p @ ''/'') route_paths"

definition no_route_response :: response where
  "no_route_response = format_response 404 (gin_h_error 404 ''error'' ''Endpoint not found!'')"

text \<open>The decoders of the two order types (\<open>json.Unmarshal\<close> into the order structs).\<close>

record decoders =
  dec_ppob :: "string \<Rightarrow> ppob_order option"
  dec_nonppob :: "string \<Rightarrow> nonppob_order option"

text \<open>
  The handlers \<open>InitRouter\<close> builds from the configuration: a use case and a handler per
  order kind.
\<close>

record router_handlers =
  rh_non_ppob_handler :: nonppob_handler_impl
  rh_ppob_handler :: ppob_handler_impl

definition init_handlers :: "configuration \<Rightarrow> router_handlers" where
  "init_handlers configuration =
     (let non_ppob_uc = new_nonppob_usecase configuration;
          non_ppob_handler = new_nonppob_handler non_ppob_uc;
          ppob_uc = new_ppob_usecase configuration;
          ppob_handler = new_ppob_handler ppob_uc
      in \<lparr>rh_non_ppob_handler = non_ppob_handler, rh_ppob_handler = ppob_handler\<rparr>)"

text \<open>The handler of a route, \<open>Create()\<close> of the handler \<open>InitRouter\<close> registered for it.\<close>

definition run_route ::
  "configuration \<Rightarrow> decoders \<Rightarrow> net_outcome \<Rightarrow> (string \<times> status_entry) list \<Rightarrow> route \<Rightarrow>
   request_body \<Rightarrow> broker \<Rightarrow> response \<times> broker" where
  "run_route configuration dec net iter rt body b =
     (let hs = init_handlers configuration in
      case rt of
        NonPPOBRoute \<Rightarrow>
          nonppob_handler_create json_valid (dec_nonppob dec)
            (uc_configuration (nh_non_ppob_uc (rh_non_ppob_handler hs))) net iter body b
      | PPOBRoute \<Rightarrow>
          ppob_handler_create json_valid (dec_ppob dec)
            (uc_configuration (ph_ppob_uc (rh_ppob_handler hs))) net iter body b)"

definition serve ::
  "configuration \<Rightarrow> decoders \<Rightarrow> net_outcome \<Rightarrow> (string \<times> status_entry) list \<Rightarrow>
   http_request \<Rightarrow> broker \<Rightarrow> http_response \<times> broker" where
  "serve configuration dec net iter r b =
     (if trailing_slash_redirect (rq_method r) (rq_path r)
      then (\<lparr>hr_code = 307, hr_headers = [(''Location'', butlast (rq_path r))], hr_body = None\<rparr>, b)
      else
        (case cors_middleware r of
           Some resp \<Rightarrow> (resp, b)
         | None \<Rightarrow>
             (case find_route (rq_method r) (rq_path r) of
                None \<Rightarrow> (with_cors no_route_response, b)
              | Some rt \<Rightarrow>
                  (case api_key_middleware (cfg_api_keys configuration) r of
                     Some resp \<Rightarrow> (with_cors resp, b)
                   | None \<Rightarrow>
                       (let (resp, b') = run_route configuration dec net iter rt (Body (rq_body r)) b
                        in (with_cors resp, b'))))))"

text \<open>
  The response type of the service: a body is a \<open>gin.H\<close> object whose \<open>"code"\<close> is the
  HTTP status (\<open>gin_h_typed\<close>); only the preflight (204) and the redirect (307) have none.
\<close>

definition http_response_typed :: "http_response \<Rightarrow> bool" where
  "http_response_typed resp \<longleftrightarrow>
     (case hr_body resp of
        None \<Rightarrow> hr_code resp = 204 \<or> hr_code resp = 307
      | Some j \<Rightarrow> gin_h_typed (hr_code resp) j)"

section \<open>Example requests\<close>

definition example_decoders :: decoders where
  "example_decoders =
     \<lparr>dec_ppob = (\<lambda>s. Some ppob_example),
      dec_nonppob = (\<lambda>s. Some nonppob_spec_example)\<rparr>"

definition order_request :: "string \<Rightarrow> string \<Rightarrow> string \<Rightarrow> http_request" where
  "order_request method path key =
     \<lparr>rq_method = method, rq_path = path,
      rq_headers = [(''Content-Type'', [''application/json'']), (''X-Api-Key'', [key])], rq_body = ''{}''\<rparr>"

definition empty_broker :: broker where
  "empty_broker = \<lparr>br_frames = [], br_delivered = [], br_open = 0\<rparr>"

definition network_up :: net_outcome where
  "network_up = \<lparr>dial_error = None, send_error = None\<rparr>"

section \<open>Lemmas\<close>

lemma init_handlers_configuration [simp]:
  "uc_configuration (nh_non_ppob_uc (rh_non_ppob_handler (init_handlers c))) = c"
  "uc_configuration (ph_ppob_uc (rh_ppob_handler (init_handlers c))) = c"
  by (simp_all add: init_handlers_def new_nonppob_usecase_def new_nonppob_handler_def new_ppob_usecase_def
      new_ppob_handler_def)

lemma canonical_api_key_header: "canonical_mime_header_key api_key_header = ''X-Api-Key''"
  unfolding api_key_header_def by code_simp

lemma order_request_key [simp]: "header_get (rq_headers (order_request m p k)) api_key_header = k"
  by (simp add: order_request_def header_get_def canonical_api_key_header)

lemma order_request_fields [simp]:
  "rq_method (order_request m p k) = m" "rq_path (order_request m p k) = p" "rq_body (order_request m p k) = ''{}''"
  by (simp_all add: order_request_def)

lemma api_key_loop_iff [simp]: "api_key_loop k keys \<longleftrightarrow> k \<in> set keys"
  by (induction keys) auto

lemma find_route_Some:
  "find_route m p = Some rt \<Longrightarrow> m = ''POST'' \<and> \<not> trailing_slash_redirect ''POST'' p"
  by (auto simp: find_route_def route_paths_def trailing_slash_redirect_def split: if_splits)

lemma api_key_middleware_None:
  "api_key_middleware keys r = None \<longleftrightarrow>
   header_get (rq_headers r) api_key_header \<noteq> [] \<and> header_get (rq_headers r) api_key_header \<in> set keys"
  by (simp add: api_key_middleware_def Let_def)

lemma serve_preflight:
  "rq_method r = ''OPTIONS'' \<Longrightarrow>
   serve c dec net iter r b = (\<lparr>hr_code = 204, hr_headers = cors_headers, hr_body = None\<rparr>, b)"
  by (simp add: serve_def trailing_slash_redirect_def cors_middleware_def)

lemma serve_routed:
  "find_route (rq_method r) (rq_path r) = Some rt \<Longrightarrow>
   serve c dec net iter r b =
     (case api_key_middleware (cfg_api_keys c) r of
        Some resp \<Rightarrow> (with_cors resp, b)
      | None \<Rightarrow> (let (resp, b') = run_route c dec net iter rt (Body (rq_body r)) b in (with_cors resp, b')))"
proof -
  assume f: "find_route (rq_method r) (rq_path r) = Some rt"
  from find_route_Some [OF f] have m: "rq_method r = ''POST''"
    and t: "\<not> trailing_slash_redirect ''POST'' (rq_path r)" by blast+
  with f show ?thesis by (simp add: serve_def cors_middleware_def)
qed

lemma serve_unrouted:
  "\<not> trailing_slash_redirect (rq_method r) (rq_path r) \<Longrightarrow> rq_method r \<noteq> ''OPTIONS'' \<Longrightarrow>
   find_route (rq_method r) (rq_path r) = None \<Longrightarrow> serve c dec net iter r b = (with_cors no_route_response, b)"
  by (simp add: serve_def cors_middleware_def)

lemma serve_not_routed:
  "find_route (rq_method r) (rq_path r) = None \<Longrightarrow>
   snd (serve c dec net iter r b) = b \<and> hr_code (fst (serve c dec net iter r b)) \<noteq> 200"
  by (simp add: serve_def cors_middleware_def with_cors_def no_route_response_def format_response_def)

lemma with_cors_typed:
  "gin_h_typed (rs_code resp) (rs_body resp) \<Longrightarrow> http_response_typed (with_cors resp)"
  by (simp add: http_response_typed_def with_cors_def)

lemma api_key_middleware_typed:
  "api_key_middleware keys r = Some resp \<Longrightarrow> gin_h_typed (rs_code resp) (rs_body resp)"
  by (auto simp: api_key_middleware_def auth_error_def format_response_def Let_def split: if_splits)

lemma run_route_typed:
  "gin_h_typed (rs_code (fst (run_route c dec net iter rt body b))) (rs_body (fst (run_route c dec net iter rt body b)))"
  by (cases rt) (simp_all add: run_route_def Let_def ppob_handler_create_def nonppob_handler_create_def handler_create_typed)

section \<open>Properties\<close>

text \<open>
  C3. A request answered 200 has put exactly one message on the configured queue, and a
  request answered with any other status has put none, whatever the path, method,
  headers, body and network outcome, under every iteration order of the status map.
\<close>

theorem serve_200_iff_published:
  "map_iteration_order iter \<Longrightarrow>
   (hr_code (fst (serve c dec net iter r b)) = 200 \<longrightarrow>
      (\<exists>m. br_delivered (snd (serve c dec net iter r b)) = br_delivered b @ [(tq_queue_name (cfg_queue c), m)])) \<and>
   (hr_code (fst (serve c dec net iter r b)) \<noteq> 200 \<longrightarrow>
      br_delivered (snd (serve c dec net iter r b)) = br_delivered b)"
proof -
  assume iter: "map_iteration_order iter"
  show ?thesis
  proof (cases "find_route (rq_method r) (rq_path r)")
    case None
    then show ?thesis using serve_not_routed [OF None] by auto
  next
    case (Some rt)
    show ?thesis
    proof (cases "api_key_middleware (cfg_api_keys c) r")
      case (Some resp)
      then show ?thesis
        using \<open>find_route (rq_method r) (rq_path r) = Some rt\<close>
        by (auto simp: serve_routed with_cors_def api_key_middleware_def Let_def auth_error_def
            format_response_def split: if_splits)
    next
      case None
      have h: "(rs_code (fst (run_route c dec net iter rt (Body (rq_body r)) b)) = 200 \<longrightarrow>
            (\<exists>m. br_delivered (snd (run_route c dec net iter rt (Body (rq_body r)) b)) =
                 br_delivered b @ [(tq_queue_name (cfg_queue c), m)])) \<and>
         (rs_code (fst (run_route c dec net iter rt (Body (rq_body r)) b)) \<noteq> 200 \<longrightarrow>
            br_delivered (snd (run_route c dec net iter rt (Body (rq_body r)) b)) = br_delivered b)"
        by (cases rt) (simp_all add: run_route_def Let_def ppob_handler_create_def nonppob_handler_create_def
            handler_create_publish [OF iter] usecase_delivered)
      then show ?thesis
        using \<open>find_route (rq_method r) (rq_path r) = Some rt\<close> None
        by (cases "run_route c dec net iter rt (Body (rq_body r)) b") (simp add: serve_routed with_cors_def)
    qed
  qed
qed

text \<open>
  C8. Only an authenticated request reaches the broker: if serving a request changes the
  broker state at all, it was a \<open>POST\<close> to one of the two order routes carrying a
  non-empty \<open>X-API-KEY\<close> header whose value is one of the configured keys.
\<close>

theorem serve_broker_change_authenticated:
  "snd (serve c dec net iter r b) \<noteq> b \<Longrightarrow>
   rq_method r = ''POST'' \<and> find_route (rq_method r) (rq_path r) \<noteq> None \<and>
   header_get (rq_headers r) api_key_header \<noteq> [] \<and>
   header_get (rq_headers r) api_key_header \<in> set (cfg_api_keys c)"
proof -
  assume ch: "snd (serve c dec net iter r b) \<noteq> b"
  show ?thesis
  proof (cases "find_route (rq_method r) (rq_path r)")
    case None
    then show ?thesis using ch
      by (cases "trailing_slash_redirect (rq_method r) (rq_path r)")
         (auto simp: serve_def cors_middleware_def split: if_splits)
  next
    case (Some rt)
    then show ?thesis using ch find_route_Some [OF Some]
      by (cases "api_key_middleware (cfg_api_keys c) r")
         (auto simp: serve_routed api_key_middleware_None)
  qed
qed

text \<open>
  On an order route, a request without the key header is answered 401 \<open>"API key is
  required"\<close> and one whose key is not configured 401 \<open>"Invalid API key"\<close>; neither
  touches the broker.
\<close>

theorem serve_api_key_rejected:
  "find_route (rq_method r) (rq_path r) = Some rt \<Longrightarrow>
   (header_get (rq_headers r) api_key_header = [] \<longrightarrow>
      serve c dec net iter r b = (with_cors (auth_error ''API key is required''), b)) \<and>
   (header_get (rq_headers r) api_key_header \<noteq> [] \<and>
    header_get (rq_headers r) api_key_header \<notin> set (cfg_api_keys c) \<longrightarrow>
      serve c dec net iter r b = (with_cors (auth_error ''Invalid API key''), b))"
  by (simp add: serve_routed api_key_middleware_def Let_def)

text \<open>
  An authenticated \<open>POST\<close> to an order route is answered by that route's handler on
  the bytes of the body, with the CORS and content-type headers added.
\<close>

theorem serve_dispatch:
  "find_route (rq_method r) (rq_path r) = Some rt \<Longrightarrow>
   header_get (rq_headers r) api_key_header \<noteq> [] \<Longrightarrow>
   header_get (rq_headers r) api_key_header \<in> set (cfg_api_keys c) \<Longrightarrow>
   serve c dec net iter r b =
     (let (resp, b') = run_route c dec net iter rt (Body (rq_body r)) b in (with_cors resp, b'))"
  by (simp add: serve_routed api_key_middleware_def Let_def)

text \<open>
  A preflight (\<open>OPTIONS\<close>, any path) is answered 204 with the CORS headers before
  any authentication, and any other request matching no route (and not redirected) is
  answered 404 \<open>"Endpoint not found!"\<close>; neither touches the broker.
\<close>

theorem serve_preflight_and_no_route:
  "(rq_method r = ''OPTIONS'' \<longrightarrow>
      serve c dec net iter r b = (\<lparr>hr_code = 204, hr_headers = cors_headers, hr_body = None\<rparr>, b)) \<and>
   (rq_method r \<noteq> ''OPTIONS'' \<and> find_route (rq_method r) (rq_path r) = None \<and>
    \<not> trailing_slash_redirect (rq_method r) (rq_path r) \<longrightarrow>
      serve c dec net iter r b = (with_cors no_route_response, b))"
  by (simp add: serve_preflight serve_unrouted)

text \<open>
  The CORS preflight answer does not list the \<open>X-API-KEY\<close> header among the allowed
  request headers (in any letter case), so a browser refuses to send an authenticated
  request from another origin.
\<close>

theorem cors_allow_headers_omit_api_key:
  "map_of cors_headers ''Access-Control-Allow-Headers'' = Some allowed \<Longrightarrow>
   \<not> str_contains (to_lower allowed) (to_lower api_key_header)"
proof -
  assume "map_of cors_headers ''Access-Control-Allow-Headers'' = Some allowed"
  then have a: "allowed = ''X-Requested-With, X-Auth-Token, Content-Type, Content-Length, Authorization, '' @
       ''Access-Control-Allow-Headers, Accept, Access-Control-Allow-Methods, '' @
       ''Access-Control-Allow-Origin, Access-Control-Allow-Credentials''"
    by (simp add: cors_headers_def)
  show ?thesis unfolding a api_key_header_def by code_simp
qed

text \<open>
  C14. Every response the engine sends is of the service's response type: either the
  body-less 204 of a preflight or 307 of a redirect, or a JSON object with the fields
  \<open>code\<close>, \<open>status\<close> and \<open>message\<close> whose \<open>code\<close> is the HTTP status of the response.
\<close>

theorem serve_response_typed: "http_response_typed (fst (serve c dec net iter r b))"
proof -
  have nr: "http_response_typed (with_cors no_route_response)"
    by (rule with_cors_typed) (simp add: no_route_response_def format_response_def)
  have rt: "http_response_typed (with_cors (fst (run_route c dec net iter rt body b)))" for rt body b
    by (rule with_cors_typed, rule run_route_typed)
  have ak: "http_response_typed (with_cors resp)" if "api_key_middleware keys r = Some resp" for keys resp
    using that by (intro with_cors_typed api_key_middleware_typed)
  have "http_response_typed \<lparr>hr_code = 307, hr_headers = hs, hr_body = None\<rparr>"
    "http_response_typed \<lparr>hr_code = 204, hr_headers = hs, hr_body = None\<rparr>" for hs
    by (simp_all add: http_response_typed_def)
  then show ?thesis
    using nr rt ak
    by (simp add: serve_def cors_middleware_def split_def Let_def split: option.splits)
qed

section \<open>Witnesses\<close>

lemma example_ppob_request:
  "hr_code (fst (serve example_configuration example_decoders network_up iter
      (order_request ''POST'' ''/api/v1/orders/ppob'' ''k1'') empty_broker)) = 200 \<and>
   br_delivered (snd (serve example_configuration example_decoders network_up iter
      (order_request ''POST'' ''/api/v1/orders/ppob'' ''k1'') empty_broker)) =
     [(''orders'', ppob_create_sql (ppob_example\<lparr>po_metadata_raw := ''{}''\<rparr>))]"
proof -
  have f: "find_route ''POST'' ''/api/v1/orders/ppob'' = Some PPOBRoute"
    by (simp add: find_route_def route_paths_def)
  have v: "validate_struct (ppob_order_errors (ppob_example\<lparr>po_metadata_raw := ''{}''\<rparr>)) = None"
    by (simp add: validate_struct_def ppob_rule_defs ppob_example_def ppob_injection_example_def
        required_str_def required_int_def)
  show ?thesis
    using f v
    by (simp add: serve_routed api_key_middleware_def example_configuration_def run_route_def Let_def
        ppob_handler_create_def handler_create_decoded read_json_body_request_def example_decoders_def json_valid_empty_object
        ppob_usecase_create_valid send_message_to_queue_dialled network_up_def empty_broker_def
        with_cors_def format_response_def)
qed

theorem serve_200_iff_published_witness:
  "map_iteration_order error_status_map \<and>
   hr_code (fst (serve example_configuration example_decoders network_up error_status_map
      (order_request ''POST'' ''/api/v1/orders/ppob'' ''k1'') empty_broker)) = 200 \<and>
   (\<exists>m. br_delivered (snd (serve example_configuration example_decoders network_up error_status_map
      (order_request ''POST'' ''/api/v1/orders/ppob'' ''k1'') empty_broker)) = [(''orders'', m)])"
proof -
  have h: "map_iteration_order error_status_map" by (simp add: map_iteration_order_def)
  show ?thesis
    using serve_200_iff_published [OF h, of example_configuration example_decoders network_up
        "order_request ''POST'' ''/api/v1/orders/ppob'' ''k1''" empty_broker]
      example_ppob_request [of error_status_map] h
    by (simp add: example_configuration_def empty_broker_def)
qed

theorem serve_broker_change_authenticated_witness:
  "snd (serve example_configuration example_decoders network_up error_status_map
      (order_request ''POST'' ''/api/v1/orders/ppob'' ''k1'') empty_broker) \<noteq> empty_broker \<and>
   header_get (rq_headers (order_request ''POST'' ''/api/v1/orders/ppob'' ''k1'')) api_key_header
     \<in> set (cfg_api_keys example_configuration)"
proof -
  have ch: "snd (serve example_configuration example_decoders network_up error_status_map
      (order_request ''POST'' ''/api/v1/orders/ppob'' ''k1'') empty_broker) \<noteq> empty_broker"
    using example_ppob_request [of error_status_map] by (auto simp: empty_broker_def)
  show ?thesis using ch serve_broker_change_authenticated [OF ch] by simp
qed

theorem serve_api_key_rejected_witness:
  "serve example_configuration example_decoders network_up error_status_map
      (order_request ''POST'' ''/api/v1/orders/non-ppob'' []) empty_broker =
     (with_cors (auth_error ''API key is required''), empty_broker) \<and>
   serve example_configuration example_decoders network_up error_status_map
      (order_request ''POST'' ''/api/v1/orders/non-ppob'' ''k2'') empty_broker =
     (with_cors (auth_error ''Invalid API key''), empty_broker)"
proof -
  have f: "find_route (rq_method (order_request ''POST'' ''/api/v1/orders/non-ppob'' k))
      (rq_path (order_request ''POST'' ''/api/v1/orders/non-ppob'' k)) = Some NonPPOBRoute" for k
    by (simp add: find_route_def route_paths_def)
  show ?thesis
    using serve_api_key_rejected [OF f [of "[]"], of example_configuration example_decoders network_up
        error_status_map empty_broker]
      serve_api_key_rejected [OF f [of "''k2''"], of example_configuration example_decoders network_up
        error_status_map empty_broker]
    by (simp add: example_configuration_def)
qed

theorem serve_dispatch_witness:
  "serve example_configuration example_decoders network_up error_status_map
      (order_request ''POST'' ''/api/v1/orders/ppob'' ''k1'') empty_broker =
   (let (resp, b') = run_route example_configuration example_decoders network_up error_status_map PPOBRoute
                       (Body ''{}'') empty_broker
    in (with_cors resp, b'))"
proof -
  have f: "find_route (rq_method (order_request ''POST'' ''/api/v1/orders/ppob'' ''k1''))
      (rq_path (order_request ''POST'' ''/api/v1/orders/ppob'' ''k1'')) = Some PPOBRoute"
    by (simp add: find_route_def route_paths_def)
  have k: "header_get (rq_headers (order_request ''POST'' ''/api/v1/orders/ppob'' ''k1'')) api_key_header \<noteq> []"
    "header_get (rq_headers (order_request ''POST'' ''/api/v1/orders/ppob'' ''k1'')) api_key_header
       \<in> set (cfg_api_keys example_configuration)"
    by (simp_all add: example_configuration_def)
  show ?thesis using serve_dispatch [OF f k] by simp
qed

theorem serve_preflight_and_no_route_witness:
  "serve example_configuration example_decoders network_up error_status_map
      (order_request ''OPTIONS'' ''/api/v1/orders/ppob'' []) empty_broker =
     (\<lparr>hr_code = 204, hr_headers = cors_headers, hr_body = None\<rparr>, empty_broker) \<and>
   serve example_configuration example_decoders network_up error_status_map
      (order_request ''GET'' ''/api/v1/orders/ppob'' ''k1'') empty_broker =
     (with_cors no_route_response, empty_broker)"
  using serve_preflight_and_no_route [of "order_request ''OPTIONS'' ''/api/v1/orders/ppob'' []"
      example_configuration example_decoders network_up error_status_map empty_broker]
    serve_preflight_and_no_route [of "order_request ''GET'' ''/api/v1/orders/ppob'' ''k1''"
      example_configuration example_decoders network_up error_status_map empty_broker]
  by (simp add: find_route_def trailing_slash_redirect_def)

theorem cors_allow_headers_omit_api_key_witness:
  "map_of cors_headers ''Access-Control-Allow-Headers'' =
     Some (''X-Requested-With, X-Auth-Token, Content-Type, Content-Length, Authorization, '' @
       ''Access-Control-Allow-Headers, Accept, Access-Control-Allow-Methods, '' @
       ''Access-Control-Allow-Origin, Access-Control-Allow-Credentials'') \<and>
   \<not> str_contains (to_lower (''X-Requested-With, X-Auth-Token, Content-Type, Content-Length, Authorization, '' @
       ''Access-Control-Allow-Headers, Accept, Access-Control-Allow-Methods, '' @
       ''Access-Control-Allow-Origin, Access-Control-Allow-Credentials'')) (to_lower api_key_header)"
proof -
  have m: "map_of cors_headers ''Access-Control-Allow-Headers'' =
     Some (''X-Requested-With, X-Auth-Token, Content-Type, Content-Length, Authorization, '' @
       ''Access-Control-Allow-Headers, Accept, Access-Control-Allow-Methods, '' @
       ''Access-Control-Allow-Origin, Access-Control-Allow-Credentials'')"
    by (simp add: cors_headers_def)
  show ?thesis using m cors_allow_headers_omit_api_key [OF m] by (rule conjI)
qed
end
