(* ===== verification/LogFile.thy ===== *)
theory LogFile
  imports Prelude
begin

text \<open>
  The request log files, \<open>src/utility/logfile.go\<close>. \<open>WriteToLogFile\<close> builds the file
  name from the directory, the date and the file name, creates the file when
  \<open>os.Stat\<close> says it does not exist (\<open>os.Create\<close>, which truncates), opens it with
  \<open>O_WRONLY|O_APPEND\<close> and appends the message. The file system is an explicit state, a
  map from paths to contents, in the style of the Unix file-system model of the
  distribution; the failures of \<open>os.Create\<close>, \<open>os.OpenFile\<close> and \<open>WriteString\<close> are
  inputs (\<open>fs_faults\<close>), a failed write writes nothing. Requests are served
  concurrently, so the four file-system actions of two writers interleave
  (\<open>log_conc_step\<close>); each action is atomic, and an append goes to the end of the file
  as it is at that moment (\<open>O_APPEND\<close>). Files are never removed, so an open
  descriptor always names the file at its path. The theory also holds \<open>formatLogEntry\<close>,
  \<open>BuildLogMessage\<close> and the capturing response writer of the same file; its values
  printed with \<open>%v\<close> and \<open>%.6f\<close> are inputs as text.
\<close>

type_synonym file_system = "string \<Rightarrow> string option"

record fs_faults =
  ff_create :: "string option"
  ff_open :: "string option"
  ff_write :: "string option"

text \<open>\<open>fmt.Sprintf("%s%s_%s.log", logFilePath, currentTime, fileName)\<close>.\<close>

definition log_file_path :: "string \<Rightarrow> string \<Rightarrow> string \<Rightarrow> string" where
  "log_file_path log_path current_time file_name = log_path @ current_time @ ''_'' @ file_name @ ''.log''"

text \<open>\<open>os.Create\<close>: a new empty file, or the empty file in place of an existing one.\<close>

definition os_create :: "fs_faults \<Rightarrow> string \<Rightarrow> file_system \<Rightarrow> string option \<times> file_system" where
  "os_create f p fs = (case ff_create f of Some e \<Rightarrow> (Some e, fs) | None \<Rightarrow> (None, fs(p \<mapsto> [])))"

text \<open>\<open>os.OpenFile(p, O_WRONLY|O_APPEND, 0666)\<close> and \<open>f.WriteString(msg)\<close>.\<close>

definition file_append :: "fs_faults \<Rightarrow> string \<Rightarrow> string \<Rightarrow> file_system \<Rightarrow> string option \<times> file_system" where
  "file_append f p msg fs =
     (case fs p of
        None \<Rightarrow> (Some (''open '' @ p @ '': no such file or directory''), fs)
      | Some c \<Rightarrow>
          (case ff_open f of
             Some e \<Rightarrow> (Some e, fs)
           | None \<Rightarrow> (case ff_write f of Some e \<Rightarrow> (Some e, fs) | None \<Rightarrow> (None, fs(p \<mapsto> c @ msg)))))"

definition write_to_log_file ::
  "fs_faults \<Rightarrow> string \<Rightarrow> string \<Rightarrow> string \<Rightarrow> string \<Rightarrow> file_system \<Rightarrow> string option \<times> file_system" where
  "write_to_log_file f current_time log_path file_name log_message fs =
     (let p = log_file_path log_path current_time file_name;
          (err, fs) = (if fs p = None then os_create f p fs else (None, fs))
      in case err of
           Some e \<Rightarrow> (Some e, fs)
         | None \<Rightarrow> file_append f p log_message fs)"

section \<open>Concurrent writers\<close>

datatype log_pc = LStat | LCreate | LOpen | LWrite | LDone "string option"

record log_writer =
  lw_path :: string
  lw_message :: string
  lw_pc :: log_pc

text \<open>One file-system action of \<open>WriteToLogFile\<close>, without faults; \<open>None\<close> once it has returned.\<close>

definition log_step :: "log_writer \<Rightarrow> file_system \<Rightarrow> (log_writer \<times> file_system) option" where
  "log_step w fs =
     (let p = lw_path w in
      case lw_pc w of
        LStat \<Rightarrow> Some (w\<lparr>lw_pc := (if fs p = None then LCreate else LOpen)\<rparr>, fs)
      | LCreate \<Rightarrow> Some (w\<lparr>lw_pc := LOpen\<rparr>, fs(p \<mapsto> []))
      | LOpen \<Rightarrow>
          (case fs p of
             None \<Rightarrow> Some (w\<lparr>lw_pc := LDone (Some (''open '' @ p @ '': no such file or directory''))\<rparr>, fs)
           | Some _ \<Rightarrow> Some (w\<lparr>lw_pc := LWrite\<rparr>, fs))
      | LWrite \<Rightarrow>
          (case fs p of
             None \<Rightarrow> Some (w\<lparr>lw_pc := LDone None\<rparr>, fs)
           | Some c \<Rightarrow> Some (w\<lparr>lw_pc := LDone None\<rparr>, fs(p \<mapsto> c @ lw_message w)))
      | LDone _ \<Rightarrow> None)"

inductive log_conc_step :: "log_writer list \<times> file_system \<Rightarrow> log_writer list \<times> file_system \<Rightarrow> bool" where
  step: "i < length ws \<Longrightarrow> log_step (ws ! i) fs = Some (w', fs') \<Longrightarrow>
         log_conc_step (ws, fs) (ws[i := w'], fs')"

section \<open>Log entries and the capturing writer\<close>

text \<open>
  \<open>formatLogEntry\<close>: \<open>"%s costerv3_api_pct | %.6fms | %-7s %s | [%d] %s: %v\n"\<close>; the
  start time, the latency (\<open>%.6f\<close>) and the data (\<open>%v\<close>) come as their printed text.
\<close>

definition format_log_entry ::
  "string \<Rightarrow> string \<Rightarrow> string \<Rightarrow> string \<Rightarrow> int \<Rightarrow> string \<Rightarrow> string \<Rightarrow> string" where
  "format_log_entry start_time request_time_in_ms method path status section_name data =
     start_time @ '' costerv3_api_pct | '' @ request_time_in_ms @ ''ms | '' @ pad_right 7 method @ '' '' @
     path @ '' | ['' @ int_dec status @ ''] '' @ section_name @ '': '' @ data @ [CHR 0x0A]"

definition build_log_message ::
  "string \<Rightarrow> string \<Rightarrow> string \<Rightarrow> string \<Rightarrow> int \<Rightarrow> string \<Rightarrow> string \<Rightarrow> string \<Rightarrow> string \<Rightarrow> string" where
  "build_log_message start_time request_time_in_ms method path status request_headers request_body
     response_headers response_body =
     (let entry = format_log_entry start_time request_time_in_ms method path status
      in entry ''Request Headers'' request_headers @ entry ''Request Body'' (strip_body request_body) @
         entry ''Response Headers'' response_headers @ entry ''Response Body'' response_body)"

text \<open>
  \<open>ResponseWriterWithCapture\<close>: \<open>Write\<close> passes the bytes on and copies them into the
  buffer only if the underlying write succeeded; \<open>WriteHeader\<close> records the status.
  The result of the underlying write is an input; the buffer and the status are the state.
\<close>

record capture_writer =
  cw_body :: string
  cw_status :: int

definition capture_write :: "string option \<Rightarrow> string \<Rightarrow> capture_writer \<Rightarrow> string option \<times> capture_writer" where
  "capture_write underlying b w =
     (case underlying of
        Some err \<Rightarrow> (Some err, w)
      | None \<Rightarrow> (None, w\<lparr>cw_body := cw_body w @ b\<rparr>))"

definition capture_write_header :: "int \<Rightarrow> capture_writer \<Rightarrow> capture_writer" where
  "capture_write_header code w = w\<lparr>cw_status := code\<rparr>"

section \<open>Schedules\<close>

text \<open>No injected failure; and a schedule, the list of the writers that move, run step by step.\<close>

definition no_faults :: fs_faults where
  "no_faults = \<lparr>ff_create = None, ff_open = None, ff_write = None\<rparr>"

fun run_schedule ::
  "nat list \<Rightarrow> log_writer list \<times> file_system \<Rightarrow> (log_writer list \<times> file_system) option" where
  "run_schedule [] st = Some st"
| "run_schedule (i # sched) (ws, fs) =
     (if i < length ws then
        (case log_step (ws ! i) fs of
           None \<Rightarrow> None
         | Some (w', fs') \<Rightarrow> run_schedule sched (ws[i := w'], fs'))
      else None)"

section \<open>Lemmas\<close>

lemma run_schedule_steps: "run_schedule sched st = Some st' \<Longrightarrow> log_conc_step\<^sup>*\<^sup>* st st'"
proof (induction sched st rule: run_schedule.induct)
  case (2 i sched ws fs)
  then show ?case
    by (auto split: if_splits option.splits intro: converse_rtranclp_into_rtranclp log_conc_step.step)
qed simp

lemma write_to_log_file_existing:
  "fs (log_file_path lp t n) = Some c \<Longrightarrow>
   write_to_log_file f t lp n m fs = file_append f (log_file_path lp t n) m fs"
  by (simp add: write_to_log_file_def)

lemma write_to_log_file_fresh:
  "fs (log_file_path lp t n) = None \<Longrightarrow>
   write_to_log_file f t lp n m fs =
     (case ff_create f of
        Some e \<Rightarrow> (Some e, fs)
      | None \<Rightarrow> file_append f (log_file_path lp t n) m (fs(log_file_path lp t n \<mapsto> [])))"
  by (simp add: write_to_log_file_def os_create_def Let_def split: option.splits)

lemma file_append_Some:
  "fs p = Some c \<Longrightarrow>
   file_append f p m fs =
     (if ff_open f = None \<and> ff_write f = None then (None, fs(p \<mapsto> c @ m))
      else (if ff_open f = None then ff_write f else ff_open f, fs))"
  by (simp add: file_append_def split: option.splits)

lemmas log_file_rules = write_to_log_file_existing write_to_log_file_fresh file_append_Some

lemma write_to_log_file_frame:
  "q \<noteq> log_file_path lp t n \<Longrightarrow> snd (write_to_log_file f t lp n m fs) q = fs q"
  by (cases "fs (log_file_path lp t n)"; cases "ff_create f"; cases "ff_open f"; cases "ff_write f")
     (simp_all add: log_file_rules)

lemma write_to_log_file_no_faults:
  "write_to_log_file no_faults t lp n m fs =
     (None, fs(log_file_path lp t n \<mapsto> (case fs (log_file_path lp t n) of None \<Rightarrow> [] | Some c \<Rightarrow> c) @ m))"
  by (cases "fs (log_file_path lp t n)") (simp_all add: log_file_rules no_faults_def)

section \<open>Properties\<close>

text \<open>
  C15. \<open>WriteToLogFile\<close> only ever appends: it touches no file but the one its arguments
  name; an existing file keeps its content, followed by the message when the call returns
  \<open>nil\<close>; a missing file is created, holding the message on success and nothing when the
  open or the write failed; and the call returns \<open>nil\<close> exactly when none of the
  file-system calls it makes fails.
\<close>

theorem write_to_log_file_appends:
  "write_to_log_file f t lp n m fs = (err, fs') \<Longrightarrow>
   (\<forall>q. q \<noteq> log_file_path lp t n \<longrightarrow> fs' q = fs q) \<and>
   (err = None \<longleftrightarrow>
      (fs (log_file_path lp t n) = None \<longrightarrow> ff_create f = None) \<and> ff_open f = None \<and> ff_write f = None) \<and>
   fs' (log_file_path lp t n) =
     (case fs (log_file_path lp t n) of
        Some c \<Rightarrow> Some (if err = None then c @ m else c)
      | None \<Rightarrow> (if ff_create f = None then Some (if err = None then m else []) else None))"
proof -
  assume w: "write_to_log_file f t lp n m fs = (err, fs')"
  then have e: "err = fst (write_to_log_file f t lp n m fs)" and s: "fs' = snd (write_to_log_file f t lp n m fs)"
    by simp_all
  show ?thesis
    unfolding e s
    by (cases "fs (log_file_path lp t n)"; cases "ff_create f"; cases "ff_open f"; cases "ff_write f")
       (simp_all add: log_file_rules)
qed

text \<open>
  A single writer refines \<open>WriteToLogFile\<close>: run alone, its \<open>Stat\<close>, \<open>Create\<close>,
  \<open>OpenFile\<close> and \<open>WriteString\<close> steps return what the call returns and leave the file
  system as the call does.
\<close>

theorem log_writer_refines:
  "log_conc_step\<^sup>*\<^sup>*
     ([\<lparr>lw_path = log_file_path lp t n, lw_message = m, lw_pc = LStat\<rparr>], fs)
     ([\<lparr>lw_path = log_file_path lp t n, lw_message = m,
        lw_pc = LDone (fst (write_to_log_file no_faults t lp n m fs))\<rparr>],
      snd (write_to_log_file no_faults t lp n m fs))"
proof (cases "fs (log_file_path lp t n)")
  case None
  then have "run_schedule [0, 0, 0, 0] ([\<lparr>lw_path = log_file_path lp t n, lw_message = m, lw_pc = LStat\<rparr>], fs) =
    Some ([\<lparr>lw_path = log_file_path lp t n, lw_message = m,
        lw_pc = LDone (fst (write_to_log_file no_faults t lp n m fs))\<rparr>],
      snd (write_to_log_file no_faults t lp n m fs))"
    by (simp add: log_step_def log_file_rules no_faults_def Let_def)
  then show ?thesis by (rule run_schedule_steps)
next
  case (Some c)
  then have "run_schedule [0, 0, 0] ([\<lparr>lw_path = log_file_path lp t n, lw_message = m, lw_pc = LStat\<rparr>], fs) =
    Some ([\<lparr>lw_path = log_file_path lp t n, lw_message = m,
        lw_pc = LDone (fst (write_to_log_file no_faults t lp n m fs))\<rparr>],
      snd (write_to_log_file no_faults t lp n m fs))"
    by (simp add: log_step_def log_file_rules no_faults_def Let_def)
  then show ?thesis by (rule run_schedule_steps)
qed

text \<open>
  C16. Two requests logging to a log file that does not exist yet can lose a line: both
  see the file missing, the first creates it and appends its record, the second's
  \<open>os.Create\<close> truncates it and appends its own; both calls return \<open>nil\<close> and the file
  holds only the second record. Run one after the other, the same two calls leave both.
\<close>

theorem log_concurrent_create_loses_line:
  "log_conc_step\<^sup>*\<^sup>*
     ([\<lparr>lw_path = p, lw_message = m1, lw_pc = LStat\<rparr>, \<lparr>lw_path = p, lw_message = m2, lw_pc = LStat\<rparr>], fs(p := None))
     ([\<lparr>lw_path = p, lw_message = m1, lw_pc = LDone None\<rparr>, \<lparr>lw_path = p, lw_message = m2, lw_pc = LDone None\<rparr>],
      fs(p \<mapsto> m2)) \<and>
   log_conc_step\<^sup>*\<^sup>*
     ([\<lparr>lw_path = p, lw_message = m1, lw_pc = LStat\<rparr>, \<lparr>lw_path = p, lw_message = m2, lw_pc = LStat\<rparr>], fs(p := None))
     ([\<lparr>lw_path = p, lw_message = m1, lw_pc = LDone None\<rparr>, \<lparr>lw_path = p, lw_message = m2, lw_pc = LDone None\<rparr>],
      fs(p \<mapsto> m1 @ m2))"
proof -
  let ?init = "([\<lparr>lw_path = p, lw_message = m1, lw_pc = LStat\<rparr>, \<lparr>lw_path = p, lw_message = m2, lw_pc = LStat\<rparr>],
                fs(p := None))"
  have "run_schedule [0, 1, 0, 0, 0, 1, 1, 1] ?init =
    Some ([\<lparr>lw_path = p, lw_message = m1, lw_pc = LDone None\<rparr>, \<lparr>lw_path = p, lw_message = m2, lw_pc = LDone None\<rparr>],
      fs(p \<mapsto> m2))"
    by (simp add: log_step_def Let_def)
  moreover have "run_schedule [0, 0, 0, 0, 1, 1, 1] ?init =
    Some ([\<lparr>lw_path = p, lw_message = m1, lw_pc = LDone None\<rparr>, \<lparr>lw_path = p, lw_message = m2, lw_pc = LDone None\<rparr>],
      fs(p \<mapsto> m1 @ m2))"
    by (simp add: log_step_def Let_def)
  ultimately show ?thesis by (blast intro: run_schedule_steps)
qed

section \<open>Witnesses\<close>

theorem write_to_log_file_appends_witness:
  "write_to_log_file no_faults ''2026-01-02'' ''/var/log/'' ''debug'' ''line'' (\<lambda>_. None) =
     (None, (\<lambda>_. None)(''/var/log/2026-01-02_debug.log'' \<mapsto> ''line'')) \<and>
   ((\<lambda>_. None)(''/var/log/2026-01-02_debug.log'' \<mapsto> ''line'')) ''/var/log/2026-01-02_debug.log'' = Some ''line''"
proof -
  have w: "write_to_log_file no_faults ''2026-01-02'' ''/var/log/'' ''debug'' ''line'' (\<lambda>_. None) =
     (None, (\<lambda>_. None)(''/var/log/2026-01-02_debug.log'' \<mapsto> ''line''))"
    by (simp add: write_to_log_file_def os_create_def file_append_def no_faults_def log_file_path_def)
  have "log_file_path ''/var/log/'' ''2026-01-02'' ''debug'' = ''/var/log/2026-01-02_debug.log''"
    by (simp add: log_file_path_def)
  then show ?thesis
    using write_to_log_file_appends [OF w] w by (simp add: no_faults_def)
qed

end
