(* ===== verification/Logging.thy ===== *)
theory Logging
  imports Router LogFile
begin

text \<open>
  The logging middleware that \<open>InitRouter\<close> (\<open>src/routers/router.go\<close>) installs first:
  it wraps the response writer in \<open>bentoResponseWriterWithCapture\<close> (the same code as
  \<open>ResponseWriterWithCapture\<close> of theory \<open>LogFile\<close>), runs the rest of the chain
  (\<open>serve\<close> of theory \<open>Router\<close>), prints one record of the request and appends it with
  \<open>WriteToLogFile\<close> to the debug file for a 200 and to the error file otherwise,
  ignoring the error. The client connection's answer to the body write, the date, the
  start time and the latency text are inputs; the file system is the state of theory
  \<open>LogFile\<close>. A trailing-slash redirect is answered by the engine before the middleware
  runs and leaves no record.
\<close>

section \<open>The record\<close>

text \<open>\<open>%v\<close> of an \<open>http.Header\<close> (a \<open>map[string][]string\<close>): keys in sorted order.\<close>

definition header_text :: "http_header \<Rightarrow> string" where
  "header_text h =
     ''map['' @ join_with '' '' (map (\<lambda>(k, vs). k @ '':['' @ join_with '' '' vs @ '']'') (sort_key fst h)) @ '']''"

definition response_header_map :: "(string \<times> string) list \<Rightarrow> http_header" where
  "response_header_map hs = map (\<lambda>(k, v). (k, [v])) hs"

definition response_body_text :: "http_response \<Rightarrow> string" where
  "response_body_text resp = (case hr_body resp of None \<Rightarrow> [] | Some j \<Rightarrow> marshal_iface j)"

text \<open>
  The capturing writer after the chain has rendered \<open>resp\<close>: \<open>c.JSON\<close> and
  \<open>c.AbortWithStatus\<close> call \<open>WriteHeader\<close> with the status, and \<open>c.JSON\<close> writes the
  marshalled body once; \<open>client\<close> is the error of that write on the connection.
\<close>

definition bento_capture :: "string option \<Rightarrow> http_response \<Rightarrow> capture_writer" where
  "bento_capture client resp =
     (let writer = capture_write_header (hr_code resp) \<lparr>cw_body = [], cw_status = 0\<rparr>
      in case hr_body resp of
           None \<Rightarrow> writer
         | Some j \<Rightarrow> snd (capture_write client (marshal_iface j) writer))"

text \<open>
  The \<open>logMessage\<close> of the logging middleware; \<open>c.Errors\<close> is empty since no handler
  calls \<open>c.Error\<close>.
\<close>

definition log_message :: "string \<Rightarrow> string \<Rightarrow> http_request \<Rightarrow> http_response \<Rightarrow> capture_writer \<Rightarrow> string" where
  "log_message start_time request_time_in_ms r resp writer =
     start_time @ '' '' @ request_time_in_ms @ ''ms '' @ pad_right 7 (rq_method r) @ '' '' @ rq_path r @
     '' ['' @ pad_left 3 (int_dec (cw_status writer)) @ '' Request Headers: '' @ header_text (rq_headers r) @
     '' Request Body: '' @ strip_body (rq_body r) @
     '' Response Headers: '' @ header_text (response_header_map (hr_headers resp)) @
     '' Response Body: '' @ cw_body writer @ [CHR 0x0A, CHR '' '']"

text \<open>The file name: the debug file for 200, the error file otherwise.\<close>

definition log_file_name :: "configuration \<Rightarrow> int \<Rightarrow> string" where
  "log_file_name configuration status =
     (if status = 200 then tl_debug_file_name (cfg_log configuration)
      else tl_error_file_name (cfg_log configuration))"

text \<open>
  A request through the whole engine with its logging middleware: the response, the
  broker and the file system after it.
\<close>

definition serve_logged ::
  "configuration \<Rightarrow> decoders \<Rightarrow> net_outcome \<Rightarrow> (string \<times> status_entry) list \<Rightarrow> string option \<Rightarrow>
   fs_faults \<Rightarrow> string \<Rightarrow> string \<Rightarrow> string \<Rightarrow> http_request \<Rightarrow> broker \<times> file_system \<Rightarrow>
   http_response \<times> broker \<times> file_system" where
  "serve_logged configuration dec net iter client faults current_time start_time request_time_in_ms r st =
     (let (b, fs) = st;
          (resp, b') = serve configuration dec net iter r b
      in if trailing_slash_redirect (rq_method r) (rq_path r) then (resp, b', fs)
         else
           (let writer = bento_capture client resp;
                log_msg = log_message start_time request_time_in_ms r resp writer;
                file_name = log_file_name configuration (hr_code resp);
                (err, fs') = write_to_log_file faults current_time (tl_log_file_path (cfg_log configuration))
                               file_name log_msg fs
            in (resp, b', fs')))"

section \<open>Lemmas\<close>

lemma header_text_contains: "str_contains (header_text h) (header_get h key)"
proof (cases "map_of h (canonical_mime_header_key key)")
  case (Some vs)
  show ?thesis
  proof (cases vs)
    case (Cons v rest)
    let ?item = "canonical_mime_header_key key @ '':['' @ join_with '' '' (v # rest) @ '']''"
    have "(canonical_mime_header_key key, v # rest) \<in> set (sort_key fst h)"
      using Some Cons by (simp add: map_of_SomeD)
    then have mem: "?item \<in> set (map (\<lambda>(k, vs). k @ '':['' @ join_with '' '' vs @ '']'') (sort_key fst h))"
      by force
    have "str_contains (header_text h) ?item"
      unfolding header_text_def
      by (rule str_contains_append_left, rule str_contains_append_right, rule str_contains_join, rule mem)
    moreover have "str_contains ?item v"
      by (rule str_contains_append_left, rule str_contains_append_left, rule str_contains_append_right,
          rule join_with_Cons_head)
    ultimately show ?thesis
      using Some Cons by (simp add: header_get_def) (rule str_contains_trans)
  qed (simp add: header_get_def Some)
qed (simp add: header_get_def)

lemma bento_capture_status [simp]: "cw_status (bento_capture client resp) = hr_code resp"
  by (simp add: bento_capture_def capture_write_header_def capture_write_def Let_def split: option.splits)

lemma bento_capture_delivered: "cw_body (bento_capture None resp) = response_body_text resp"
  by (simp add: bento_capture_def capture_write_header_def capture_write_def response_body_text_def Let_def
      split: option.splits)

lemma serve_logged_unfold:
  "serve_logged c dec net iter client f t st ms r (b, fs) =
     (fst (serve c dec net iter r b), snd (serve c dec net iter r b),
      if trailing_slash_redirect (rq_method r) (rq_path r) then fs
      else snd (write_to_log_file f t (tl_log_file_path (cfg_log c)) (log_file_name c (hr_code (fst (serve c dec net iter r b))))
             (log_message st ms r (fst (serve c dec net iter r b)) (bento_capture client (fst (serve c dec net iter r b)))) fs))"
  by (simp add: serve_logged_def Let_def split: prod.splits)

lemma log_message_nonempty: "log_message start_time latency r resp writer \<noteq> []"
  by (simp add: log_message_def)

lemma append_record_changes: "m \<noteq> [] \<Longrightarrow> Some ((case x of None \<Rightarrow> [] | Some old \<Rightarrow> old) @ m) \<noteq> x"
  by (cases x) auto

lemma log_file_path_inj: "log_file_path lp t n1 = log_file_path lp t n2 \<longleftrightarrow> n1 = n2"
  by (simp add: log_file_path_def)

section \<open>Properties\<close>

text \<open>
  C27. Every request log record contains the value of the request's \<open>X-API-KEY\<close> header and
  the request body with its spaces and line breaks removed.
\<close>

theorem log_message_contains_secrets:
  "str_contains (log_message start_time latency r resp writer) (header_get (rq_headers r) api_key_header) \<and>
   str_contains (log_message start_time latency r resp writer) (strip_body (rq_body r))"
  unfolding log_message_def
  by (fast intro: str_contains_append_left str_contains_append_right header_text_contains str_contains_refl)


text \<open>
  C17. The logging middleware changes nothing but its log file: the client gets the
  response of the engine and the broker ends as without the middleware, whatever the
  file system does (the error of \<open>WriteToLogFile\<close> is dropped); no file but the day's
  debug file (for a 200) or error file changes; and when no file-system call fails that
  file holds its previous content followed by the record of the request.
\<close>

theorem serve_logged_transparent:
  "serve_logged c dec net iter client f t st ms r (b, fs) = (resp, b', fs') \<Longrightarrow>
   (resp, b') = serve c dec net iter r b \<and>
   (\<forall>q. q \<noteq> log_file_path (tl_log_file_path (cfg_log c)) t (log_file_name c (hr_code resp)) \<longrightarrow> fs' q = fs q) \<and>
   (\<not> trailing_slash_redirect (rq_method r) (rq_path r) \<and> f = no_faults \<longrightarrow>
      fs' (log_file_path (tl_log_file_path (cfg_log c)) t (log_file_name c (hr_code resp))) =
        Some ((case fs (log_file_path (tl_log_file_path (cfg_log c)) t (log_file_name c (hr_code resp))) of
                 None \<Rightarrow> [] | Some old \<Rightarrow> old) @
              log_message st ms r resp (bento_capture client resp)))"
proof -
  assume h: "serve_logged c dec net iter client f t st ms r (b, fs) = (resp, b', fs')"
  then have resp: "resp = fst (serve c dec net iter r b)" and b': "b' = snd (serve c dec net iter r b)"
    by (simp_all add: serve_logged_unfold)
  show ?thesis
  proof (cases "trailing_slash_redirect (rq_method r) (rq_path r)")
    case True
    then show ?thesis using h by (auto simp: serve_logged_unfold)
  next
    case False
    then have fs': "fs' = snd (write_to_log_file f t (tl_log_file_path (cfg_log c)) (log_file_name c (hr_code resp))
                       (log_message st ms r resp (bento_capture client resp)) fs)"
      using h resp by (simp add: serve_logged_unfold)
    show ?thesis
      unfolding fs' using False resp b' by (simp add: write_to_log_file_frame write_to_log_file_no_faults)
  qed
qed

text \<open>
  C18. When no file-system call fails, the logging middleware appends the record of a
  request answered 200 to the day's debug file and leaves the error file as it was, and
  appends the record of any other answer to the error file and leaves the debug file as
  it was (given distinct configured names).
\<close>

theorem serve_logged_file_choice:
  assumes "serve_logged c dec net iter client no_faults t st ms r (b, fs) = (resp, b', fs')"
    and "\<not> trailing_slash_redirect (rq_method r) (rq_path r)"
    and "tl_debug_file_name (cfg_log c) \<noteq> tl_error_file_name (cfg_log c)"
  shows "(fs' (log_file_path (tl_log_file_path (cfg_log c)) t (tl_debug_file_name (cfg_log c))) \<noteq>
            fs (log_file_path (tl_log_file_path (cfg_log c)) t (tl_debug_file_name (cfg_log c))) \<longleftrightarrow>
          hr_code resp = 200) \<and>
         (fs' (log_file_path (tl_log_file_path (cfg_log c)) t (tl_error_file_name (cfg_log c))) \<noteq>
            fs (log_file_path (tl_log_file_path (cfg_log c)) t (tl_error_file_name (cfg_log c))) \<longleftrightarrow>
          hr_code resp \<noteq> 200)"
proof -
  let ?lp = "tl_log_file_path (cfg_log c)"
  let ?n = "log_file_name c (hr_code resp)"
  let ?m = "log_message st ms r resp (bento_capture client resp)"
  have resp: "resp = fst (serve c dec net iter r b)" using assms(1) by (simp add: serve_logged_unfold)
  then have fs': "fs' = fs(log_file_path ?lp t ?n \<mapsto> (case fs (log_file_path ?lp t ?n) of None \<Rightarrow> [] | Some x \<Rightarrow> x) @ ?m)"
    using assms(1,2) by (simp add: serve_logged_unfold write_to_log_file_no_faults)
  have ch: "fs' (log_file_path ?lp t ?n) \<noteq> fs (log_file_path ?lp t ?n)"
    unfolding fs' by (simp add: append_record_changes log_message_nonempty)
  show ?thesis
  proof (cases "hr_code resp = 200")
    case True
    then show ?thesis using ch assms(3) by (simp add: fs' log_file_name_def log_file_path_inj)
  next
    case False
    then show ?thesis using ch assms(3) by (simp add: fs' log_file_name_def log_file_path_inj)
  qed
qed

section \<open>Witnesses\<close>

definition unknown_request :: http_request where
  "unknown_request = order_request ''GET'' ''/api/v1/orders'' ''k1''"

theorem serve_logged_transparent_witness:
  "hr_code (fst (serve_logged example_configuration example_decoders network_up error_status_map None no_faults
      ''2026-01-02'' ''2026/01/02 10:00:00'' ''0.250000'' unknown_request (empty_broker, \<lambda>_. None))) = 404 \<and>
   snd (snd (serve_logged example_configuration example_decoders network_up error_status_map None no_faults
      ''2026-01-02'' ''2026/01/02 10:00:00'' ''0.250000'' unknown_request (empty_broker, \<lambda>_. None)))
      ''/var/log/orders/2026-01-02_debug.log'' = None \<and>
   snd (snd (serve_logged example_configuration example_decoders network_up error_status_map None no_faults
      ''2026-01-02'' ''2026/01/02 10:00:00'' ''0.250000'' unknown_request (empty_broker, \<lambda>_. None)))
      ''/var/log/orders/2026-01-02_error.log'' \<noteq> None"
proof -
  let ?sl = "serve_logged example_configuration example_decoders network_up error_status_map None no_faults
      ''2026-01-02'' ''2026/01/02 10:00:00'' ''0.250000'' unknown_request (empty_broker, \<lambda>_. None)"
  have u: "\<not> trailing_slash_redirect ''GET'' ''/api/v1/orders''" "find_route ''GET'' ''/api/v1/orders'' = None"
    by (simp_all add: trailing_slash_redirect_def find_route_def)
  then have s: "serve example_configuration example_decoders network_up error_status_map unknown_request empty_broker =
      (with_cors no_route_response, empty_broker)"
    by (simp add: serve_unrouted unknown_request_def)
  have code: "hr_code (with_cors no_route_response) = 404"
    by (simp add: with_cors_def no_route_response_def format_response_def)
  have p: "log_file_path (tl_log_file_path (cfg_log example_configuration)) ''2026-01-02''
             (log_file_name example_configuration 404) = ''/var/log/orders/2026-01-02_error.log''"
    by (simp add: log_file_path_def log_file_name_def example_configuration_def)
  have T: "(fst ?sl, fst (snd ?sl)) = serve example_configuration example_decoders network_up error_status_map
        unknown_request empty_broker \<and>
      (\<forall>q. q \<noteq> log_file_path (tl_log_file_path (cfg_log example_configuration)) ''2026-01-02''
          (log_file_name example_configuration (hr_code (fst ?sl))) \<longrightarrow> snd (snd ?sl) q = None) \<and>
      (\<not> trailing_slash_redirect (rq_method unknown_request) (rq_path unknown_request) \<and> no_faults = no_faults \<longrightarrow>
        snd (snd ?sl) (log_file_path (tl_log_file_path (cfg_log example_configuration)) ''2026-01-02''
          (log_file_name example_configuration (hr_code (fst ?sl)))) =
        Some ((case None of None \<Rightarrow> [] | Some old \<Rightarrow> old) @
              log_message ''2026/01/02 10:00:00'' ''0.250000'' unknown_request (fst ?sl) (bento_capture None (fst ?sl))))"
    by (rule serve_logged_transparent) simp
  then have r: "fst ?sl = with_cors no_route_response" using s by simp
  have nr: "\<not> trailing_slash_redirect (rq_method unknown_request) (rq_path unknown_request)"
    using u by (simp add: unknown_request_def)
  have d: "''/var/log/orders/2026-01-02_debug.log'' \<noteq> ''/var/log/orders/2026-01-02_error.log''" by simp
  show ?thesis using T r code p nr d by (simp del: fun_upd_apply)
qed


theorem serve_logged_file_choice_witness:
  "\<not> trailing_slash_redirect (rq_method unknown_request) (rq_path unknown_request) \<and>
   tl_debug_file_name (cfg_log example_configuration) \<noteq> tl_error_file_name (cfg_log example_configuration) \<and>
   snd (snd (serve_logged example_configuration example_decoders network_up error_status_map None no_faults
      ''2026-01-02'' ''2026/01/02 10:00:00'' ''0.250000'' unknown_request (empty_broker, \<lambda>_. None)))
      ''/var/log/orders/2026-01-02_debug.log'' = None \<and>
   snd (snd (serve_logged example_configuration example_decoders network_up error_status_map None no_faults
      ''2026-01-02'' ''2026/01/02 10:00:00'' ''0.250000'' unknown_request (empty_broker, \<lambda>_. None)))
      ''/var/log/orders/2026-01-02_error.log'' \<noteq> None"
proof -
  let ?sl = "serve_logged example_configuration example_decoders network_up error_status_map None no_faults
      ''2026-01-02'' ''2026/01/02 10:00:00'' ''0.250000'' unknown_request (empty_broker, \<lambda>_. None)"
  have nr: "\<not> trailing_slash_redirect (rq_method unknown_request) (rq_path unknown_request)"
    by (simp add: unknown_request_def order_request_def trailing_slash_redirect_def)
  have "find_route ''GET'' ''/api/v1/orders'' = None" by (simp add: find_route_def)
  then have "fst (serve example_configuration example_decoders network_up error_status_map unknown_request empty_broker) =
      with_cors no_route_response"
    using nr by (simp add: serve_unrouted unknown_request_def order_request_def)
  then have code: "hr_code (fst ?sl) = 404"
    by (simp add: serve_logged_unfold with_cors_def no_route_response_def format_response_def)
  have names: "tl_debug_file_name (cfg_log example_configuration) \<noteq> tl_error_file_name (cfg_log example_configuration)"
    by (simp add: example_configuration_def)
  have paths: "log_file_path (tl_log_file_path (cfg_log example_configuration)) ''2026-01-02''
        (tl_debug_file_name (cfg_log example_configuration)) = ''/var/log/orders/2026-01-02_debug.log''"
    "log_file_path (tl_log_file_path (cfg_log example_configuration)) ''2026-01-02''
        (tl_error_file_name (cfg_log example_configuration)) = ''/var/log/orders/2026-01-02_error.log''"
    by (simp_all add: log_file_path_def example_configuration_def)
  have "?sl = (fst ?sl, fst (snd ?sl), snd (snd ?sl))" by simp
  from serve_logged_file_choice [OF this nr names] show ?thesis
    using code paths nr names by simp
qed

end
