(* ===== verification/Startup.thy ===== *)
theory Startup
  imports Logging Console
begin

text \<open>
  Process start and the helpers around it in \<open>src/utility/utility.go\<close> and
  \<open>src/main.go\<close>: \<open>GetApplicationPath\<close>, \<open>LoadApplicationConfiguration\<close> (the working
  directory, the file system of theory \<open>LogFile\<close> and \<open>json.Unmarshal\<close> are inputs;
  \<open>json.Unmarshal\<close> is a function that updates the configuration and returns its error,
  which the code drops), \<open>TimeParse\<close> of \<open>src/utility/validation.go\<close> (the time-zone
  database and the parser are inputs), and \<open>main\<close>: the two start lines printed with
  \<open>PrintConsole\<close> (theory \<open>Console\<close>), the configuration, the summary lines and the engine
  of theory \<open>Router\<close> serving with that configuration until \<open>Run\<close> returns. \<open>logrus\<close>
  and \<open>log\<close> write to \<open>io.Discard\<close>, so \<open>logrus.Fatal\<close> prints nothing and ends the
  process with status 1.
\<close>

section \<open>Paths\<close>

text \<open>
  \<open>GetApplicationPath\<close>: \<open>abs_dir\<close> is the result of \<open>filepath.Abs(filepath.Dir(os.Args[0]))\<close>.
  An empty directory makes \<open>dir[len(dir)-1:]\<close> panic; \<open>RecoverError\<close> prints it and the
  function returns its zero values.
\<close>

definition get_application_path ::
  "bool \<Rightarrow> char \<Rightarrow> string + string \<Rightarrow> string list \<Rightarrow> (string \<times> string option) \<times> string list" where
  "get_application_path supports_color path_separator abs_dir stdout =
     (case abs_dir of
        Inl err \<Rightarrow> (([], Some err), stdout)
      | Inr dir \<Rightarrow>
          (if dir = [] then
             (([], None), recover_error supports_color (Some ''runtime error: slice bounds out of range [-1:]'') stdout)
           else if trim_space [last dir] = [path_separator] then ((dir, None), stdout)
           else ((dir @ [path_separator], None), stdout)))"

text \<open>\<open>strings.TrimSuffix\<close> and \<open>filepath.Join\<close> (joined with \<open>/\<close>, then \<open>filepath.Clean\<close>).\<close>

definition trim_suffix :: "string \<Rightarrow> string \<Rightarrow> string" where
  "trim_suffix s suffix =
     (if length suffix \<le> length s \<and> drop (length s - length suffix) s = suffix
      then take (length s - length suffix) s else s)"

text \<open>\<open>strings.Split(p, "/")\<close>, with the current element reversed in \<open>cur\<close>.\<close>

fun split_slash :: "string \<Rightarrow> string \<Rightarrow> string list" where
  "split_slash cur [] = [rev cur]"
| "split_slash cur (c # cs) = (if c = CHR ''/'' then rev cur # split_slash [] cs else split_slash (c # cur) cs)"

fun clean_elems :: "bool \<Rightarrow> string list \<Rightarrow> string list \<Rightarrow> string list" where
  "clean_elems rooted acc [] = rev acc"
| "clean_elems rooted acc (e # es) =
     (if e = [] \<or> e = ''.'' then clean_elems rooted acc es
      else if e = ''..'' then
        (case acc of
           x # acc' \<Rightarrow> (if x = ''..'' then clean_elems rooted (e # acc) es else clean_elems rooted acc' es)
         | [] \<Rightarrow> (if rooted then clean_elems rooted [] es else clean_elems rooted [e] es))
      else clean_elems rooted (e # acc) es)"

definition path_clean :: "string \<Rightarrow> string" where
  "path_clean p =
     (let rooted = (p \<noteq> [] \<and> hd p = CHR ''/'');
          body = join_with ''/'' (clean_elems rooted [] (split_slash [] p))
      in if rooted then CHR ''/'' # body else if body = [] then ''.'' else body)"

definition filepath_join :: "string \<Rightarrow> string \<Rightarrow> string" where
  "filepath_join a b =
     (if a = [] \<and> b = [] then [] else path_clean (if a = [] then b else if b = [] then a else a @ ''/'' @ b))"

section \<open>Configuration\<close>

definition zero_configuration :: configuration where
  "zero_configuration =
     \<lparr>cfg_http = \<lparr>th_http_port = [], th_max_allowed_simultaneous_connections = 0\<rparr>,
      cfg_queue = \<lparr>tq_host = [], tq_port = 0, tq_queue_name = [], tq_username = [], tq_password = []\<rparr>,
      cfg_log = \<lparr>tl_log_file_path = [], tl_error_file_name = [], tl_debug_file_name = []\<rparr>,
      cfg_accounts = [], cfg_jwt = \<lparr>tj_timeout = 0, tj_max_refresh = 0\<rparr>, cfg_app_path = [],
      cfg_timezone = \<lparr>tz_location = [], tz_format = []\<rparr>, cfg_api_keys = []\<rparr>"

type_synonym json_unmarshal = "string \<Rightarrow> configuration \<Rightarrow> configuration \<times> string option"

text \<open>
  \<open>LoadApplicationConfiguration\<close>: \<open>getwd\<close> is the result of \<open>os.Getwd\<close>, \<open>files\<close> the file
  system \<open>os.Open\<close> and \<open>ioutil.ReadAll\<close> read. The named results start as zero values;
  the error of \<open>json.Unmarshal\<close> is dropped.
\<close>

definition load_application_configuration ::
  "string + string \<Rightarrow> file_system \<Rightarrow> json_unmarshal \<Rightarrow> string \<Rightarrow> configuration \<times> string option" where
  "load_application_configuration getwd files unmarshal remove_suffix_path =
     (case getwd of
        Inl err \<Rightarrow> (zero_configuration, Some err)
      | Inr wd \<Rightarrow>
          (let app_path = (if remove_suffix_path \<noteq> [] then trim_suffix wd remove_suffix_path else wd);
               config = zero_configuration\<lparr>cfg_app_path := app_path\<rparr>;
               config_path = filepath_join app_path ''config.json''
           in case files config_path of
                None \<Rightarrow> (config, Some (''open '' @ config_path @ '': no such file or directory''))
              | Some byte_value \<Rightarrow> (fst (unmarshal byte_value config), None)))"

text \<open>
  \<open>TimeParse\<close>: \<open>load_location\<close> is \<open>time.LoadLocation\<close> and \<open>parse_in_location\<close> is
  \<open>time.ParseInLocation\<close>, \<open>None\<close> for their errors; \<open>log.Println\<close> goes to \<open>io.Discard\<close>.
\<close>

definition time_parse ::
  "(string \<Rightarrow> 'loc option) \<Rightarrow> (string \<Rightarrow> string \<Rightarrow> 'loc \<Rightarrow> 't option) \<Rightarrow> string \<Rightarrow> configuration \<Rightarrow> string + 't" where
  "time_parse load_location parse_in_location str_created_at config =
     (case load_location (tz_location (cfg_timezone config)) of
        None \<Rightarrow> Inl ''load timezone error''
      | Some loc \<Rightarrow>
          (case parse_in_location (tz_format (cfg_timezone config)) str_created_at loc of
             None \<Rightarrow> Inl ''parsing time : invalid time format''
           | Some parsed_time \<Rightarrow> Inr parsed_time))"

section \<open>Process start\<close>

text \<open>
  What \<open>main\<close> depends on: the terminal, the working directory, the file system,
  \<open>json.Unmarshal\<close> and the error \<open>Run\<close> returns for a configuration and an address
  once the server stops (it serves \<open>serve\<close> of theory \<open>Router\<close> until then).
\<close>

record startup_env =
  se_color :: bool
  se_getwd :: "string + string"
  se_files :: file_system
  se_unmarshal :: json_unmarshal
  se_run :: "configuration \<Rightarrow> string \<Rightarrow> string option"

datatype main_outcome = FatalExit | Served configuration "string option"

definition main :: "startup_env \<Rightarrow> main_outcome \<times> string list" where
  "main env =
     (let c = se_color env;
          out = print_console c ''API Sync Data PCT - Bento service started'' ''info'' [];
          out = print_console c ''Loading application configuration'' ''info'' out;
          (configuration, err_config) =
            load_application_configuration (se_getwd env) (se_files env) (se_unmarshal env) []
      in case err_config of
           Some _ \<Rightarrow> (FatalExit, out)
         | None \<Rightarrow>
             (let out = print_console c ''Application configuration loaded successfully'' ''info'' out;
                  out = print_console c (''Server running on port: '' @ th_http_port (cfg_http configuration)) ''info'' out;
                  out = print_console c (''Queue Host: '' @ tq_host (cfg_queue configuration)) ''info'' out;
                  out = print_console c (''Queue Name: '' @ tq_queue_name (cfg_queue configuration)) ''info'' out;
                  out = print_console c (''API Keys configured: '' @ nat_dec (length (cfg_api_keys configuration)))
                          ''info'' out;
                  out = print_console c ''API Sync Data PCT - Bento service initialized successfully'' ''info'' out;
                  err_server = se_run env configuration ('':'' @ th_http_port (cfg_http configuration))
              in case err_server of
                   None \<Rightarrow> (Served configuration None, out)
                 | Some e \<Rightarrow> (Served configuration (Some e), print_console c e ''error'' out)))"

section \<open>Examples\<close>

definition example_files :: file_system where
  "example_files = [''/srv/orders/config.json'' \<mapsto> ''{http'']"

definition reject_unmarshal :: json_unmarshal where
  "reject_unmarshal byte_value c = (c, Some ''unexpected end of JSON input'')"

definition example_env :: startup_env where
  "example_env =
     \<lparr>se_color = False, se_getwd = Inr ''/srv/orders'', se_files = example_files, se_unmarshal = reject_unmarshal,
      se_run = (\<lambda>c addr. Some (''listen tcp '' @ addr @ '': bind: address already in use''))\<rparr>"

section \<open>Lemmas\<close>

lemma load_application_configuration_branches:
  "getwd = Inl e \<Longrightarrow> load_application_configuration getwd files u [] = (zero_configuration, Some e)"
  "getwd = Inr wd \<Longrightarrow> files (filepath_join wd ''config.json'') = None \<Longrightarrow>
   load_application_configuration getwd files u [] =
     (zero_configuration\<lparr>cfg_app_path := wd\<rparr>,
      Some (''open '' @ filepath_join wd ''config.json'' @ '': no such file or directory''))"
  "getwd = Inr wd \<Longrightarrow> files (filepath_join wd ''config.json'') = Some bytes \<Longrightarrow>
   load_application_configuration getwd files u [] =
     (fst (u bytes (zero_configuration\<lparr>cfg_app_path := wd\<rparr>)), None)"
  by (simp_all add: load_application_configuration_def)

lemma main_load_failed:
  "snd (load_application_configuration (se_getwd env) (se_files env) (se_unmarshal env) []) \<noteq> None \<Longrightarrow>
   main env =
     (FatalExit,
      [console_line (se_color env) ''API Sync Data PCT - Bento service started'' ''info'',
       console_line (se_color env) ''Loading application configuration'' ''info''])"
  by (auto simp: main_def print_console_def Let_def split: prod.splits option.splits)

lemma main_loaded:
  "load_application_configuration (se_getwd env) (se_files env) (se_unmarshal env) [] = (cfg, None) \<Longrightarrow>
   fst (main env) = Served cfg (se_run env cfg ('':'' @ th_http_port (cfg_http cfg)))"
  by (simp add: main_def Let_def split: option.splits)

text \<open>\<open>GetApplicationPath\<close> returns the directory with exactly one separator added unless it already ends with one.\<close>

lemma get_application_path_dir:
  "dir \<noteq> [] \<Longrightarrow> sep \<noteq> CHR '' '' \<Longrightarrow> \<not> go_space sep \<Longrightarrow>
   fst (get_application_path col sep (Inr dir) out) =
     (if last dir = sep then dir else dir @ [sep], None) \<and>
   snd (get_application_path col sep (Inr dir) out) = out"
  by (auto simp: get_application_path_def trim_space_def go_space_def)

text \<open>Both errors of \<open>TimeParse\<close> are classified 400 \<open>Bad Request\<close> in every iteration order.\<close>

lemma time_parse_error_status:
  "time_parse load parse str config = Inl err \<Longrightarrow> map_iteration_order iter \<Longrightarrow>
   error_http_status iter err = (400, ''Bad Request'')"
proof -
  assume t: "time_parse load parse str config = Inl err" and it: "map_iteration_order iter"
  have "err = ''load timezone error'' \<or> err = ''parsing time : invalid time format''"
    using t by (auto simp: time_parse_def split: option.splits)
  moreover have "matching_statuses ''load timezone error'' = []"
    "matching_statuses ''parsing time : invalid time format'' = [(400, ''Bad Request''), (400, ''Bad Request'')]"
    by code_simp+
  ultimately show ?thesis
    using error_http_status_uniform [OF it] by (auto simp: default_status_message_def)
qed

lemma example_config_path: "filepath_join ''/srv/orders'' ''config.json'' = ''/srv/orders/config.json''"
  by (simp add: filepath_join_def path_clean_def)

lemma serve_without_api_keys:
  "cfg_api_keys c = [] \<Longrightarrow> find_route (rq_method r) (rq_path r) \<noteq> None \<Longrightarrow>
   hr_code (fst (serve c dec net iter r b)) = 401 \<and> snd (serve c dec net iter r b) = b"
  by (auto simp: serve_routed api_key_middleware_def auth_error_def with_cors_def format_response_def Let_def)

section \<open>Properties\<close>

text \<open>
  \<open>LoadApplicationConfiguration("")\<close> on each of its branches: a failing \<open>os.Getwd\<close>
  gives the zero configuration and that error; a missing \<open>config.json\<close> in the working
  directory gives the zero configuration with the application path set and the error of
  \<open>os.Open\<close>; a readable one gives what \<open>json.Unmarshal\<close> made of the bytes and \<open>nil\<close>,
  whatever error \<open>json.Unmarshal\<close> reported.
\<close>

theorem load_application_configuration_result:
  "(getwd = Inl e \<longrightarrow> load_application_configuration getwd files u [] = (zero_configuration, Some e)) \<and>
   (getwd = Inr wd \<and> files (filepath_join wd ''config.json'') = None \<longrightarrow>
      fst (load_application_configuration getwd files u []) = zero_configuration\<lparr>cfg_app_path := wd\<rparr> \<and>
      snd (load_application_configuration getwd files u []) \<noteq> None) \<and>
   (getwd = Inr wd \<and> files (filepath_join wd ''config.json'') = Some bytes \<longrightarrow>
      load_application_configuration getwd files u [] = (fst (u bytes (zero_configuration\<lparr>cfg_app_path := wd\<rparr>)), None))"
  by (simp add: load_application_configuration_branches)

text \<open>
  C19. A \<open>config.json\<close> that \<open>json.Unmarshal\<close> rejects (a syntax error leaves the
  configuration untouched) does not stop the service: \<open>main\<close> starts the server with no API
  key and an empty port, and that server answers every request to an order route with 401
  and never touches the broker.
\<close>

theorem main_malformed_config_locks_orders:
  "se_getwd env = Inr wd \<Longrightarrow> se_files env (filepath_join wd ''config.json'') = Some bytes \<Longrightarrow>
   \<forall>c. se_unmarshal env bytes c = (c, Some e) \<Longrightarrow>
   (case fst (main env) of
      FatalExit \<Rightarrow> False
    | Served cfg _ \<Rightarrow>
        cfg_api_keys cfg = [] \<and> th_http_port (cfg_http cfg) = [] \<and>
        (\<forall>dec net iter r b. find_route (rq_method r) (rq_path r) \<noteq> None \<longrightarrow>
           hr_code (fst (serve cfg dec net iter r b)) = 401 \<and> snd (serve cfg dec net iter r b) = b))"
proof -
  assume wd: "se_getwd env = Inr wd" and f: "se_files env (filepath_join wd ''config.json'') = Some bytes"
    and u: "\<forall>c. se_unmarshal env bytes c = (c, Some e)"
  let ?cfg = "zero_configuration\<lparr>cfg_app_path := wd\<rparr>"
  have "load_application_configuration (se_getwd env) (se_files env) (se_unmarshal env) [] = (?cfg, None)"
    using load_application_configuration_branches(3) [of "se_getwd env" wd "se_files env" bytes "se_unmarshal env"] wd f u
    by simp
  then have "fst (main env) = Served ?cfg (se_run env ?cfg ('':'' @ th_http_port (cfg_http ?cfg)))"
    by (rule main_loaded)
  moreover have "cfg_api_keys ?cfg = []" "th_http_port (cfg_http ?cfg) = []"
    by (simp_all add: zero_configuration_def)
  ultimately show ?thesis using serve_without_api_keys by simp
qed

text \<open>
  C26. When the configuration cannot be loaded (no working directory, no \<open>config.json\<close>),
  \<open>main\<close> ends the process through \<open>logrus.Fatal\<close> and the console shows only the two
  start lines: the reason, logged to \<open>io.Discard\<close>, is never shown.
\<close>

theorem main_config_failure_silent:
  "snd (load_application_configuration (se_getwd env) (se_files env) (se_unmarshal env) []) \<noteq> None \<Longrightarrow>
   main env =
     (FatalExit,
      [console_line (se_color env) ''API Sync Data PCT - Bento service started'' ''info'',
       console_line (se_color env) ''Loading application configuration'' ''info''])"
  by (rule main_load_failed)

section \<open>Witnesses\<close>

theorem load_application_configuration_result_witness:
  "example_files (filepath_join ''/srv/orders'' ''config.json'') = Some ''{http'' \<and>
   load_application_configuration (Inr ''/srv/orders'') example_files reject_unmarshal [] =
     (zero_configuration\<lparr>cfg_app_path := ''/srv/orders''\<rparr>, None)"
  using load_application_configuration_result [of "Inr ''/srv/orders''" "''getwd failed''" example_files
      reject_unmarshal "''/srv/orders''" "''{http''"]
  by (simp add: example_config_path example_files_def reject_unmarshal_def)

theorem main_malformed_config_locks_orders_witness:
  "se_getwd example_env = Inr ''/srv/orders'' \<and>
   se_files example_env (filepath_join ''/srv/orders'' ''config.json'') = Some ''{http'' \<and>
   (\<forall>c. se_unmarshal example_env ''{http'' c = (c, Some ''unexpected end of JSON input'')) \<and>
   hr_code (fst (serve (zero_configuration\<lparr>cfg_app_path := ''/srv/orders''\<rparr>) example_decoders network_up
      error_status_map (order_request ''POST'' ''/api/v1/orders/ppob'' ''k1'') empty_broker)) = 401"
proof -
  have h: "se_getwd example_env = Inr ''/srv/orders''"
    "se_files example_env (filepath_join ''/srv/orders'' ''config.json'') = Some ''{http''"
    "\<forall>c. se_unmarshal example_env ''{http'' c = (c, Some ''unexpected end of JSON input'')"
    by (simp_all add: example_env_def example_config_path example_files_def reject_unmarshal_def)
  have "load_application_configuration (se_getwd example_env) (se_files example_env) (se_unmarshal example_env) [] =
      (zero_configuration\<lparr>cfg_app_path := ''/srv/orders''\<rparr>, None)"
    using load_application_configuration_branches(3) [of "se_getwd example_env" "''/srv/orders''"
        "se_files example_env" "''{http''" "se_unmarshal example_env"] h by simp
  then have m: "fst (main example_env) =
      Served (zero_configuration\<lparr>cfg_app_path := ''/srv/orders''\<rparr>)
        (se_run example_env (zero_configuration\<lparr>cfg_app_path := ''/srv/orders''\<rparr>)
          ('':'' @ th_http_port (cfg_http (zero_configuration\<lparr>cfg_app_path := ''/srv/orders''\<rparr>))))"
    by (rule main_loaded)
  have f: "find_route (rq_method (order_request ''POST'' ''/api/v1/orders/ppob'' ''k1''))
      (rq_path (order_request ''POST'' ''/api/v1/orders/ppob'' ''k1'')) \<noteq> None"
    by (simp add: find_route_def route_paths_def)
  show ?thesis
    using main_malformed_config_locks_orders [OF h] m f h by simp
qed

theorem main_config_failure_silent_witness:
  "main (example_env\<lparr>se_getwd := Inl ''getwd: no such file or directory''\<rparr>) =
     (FatalExit, [''[INFO]> API Sync Data PCT - Bento service started'', ''[INFO]> Loading application configuration''])"
proof -
  have "snd (load_application_configuration (Inl ''getwd: no such file or directory'') example_files reject_unmarshal []) \<noteq> None"
    by (simp add: load_application_configuration_def)
  then have "main (example_env\<lparr>se_getwd := Inl ''getwd: no such file or directory''\<rparr>) =
     (FatalExit,
      [console_line False ''API Sync Data PCT - Bento service started'' ''info'',
       console_line False ''Loading application configuration'' ''info''])"
    using main_config_failure_silent [of "example_env\<lparr>se_getwd := Inl ''getwd: no such file or directory''\<rparr>"]
    by (simp add: example_env_def)
  then show ?thesis by (simp add: console_line_def trim_space_def go_space_def to_lower_def ascii_lower_def)
qed

end
