(* ===== verification/Concurrency.thy ===== *)
theory Concurrency
  imports Queue "HOL-Library.Multiset"
begin

text \<open>
  Concurrent requests (spec section 5). gin serves every request on its own goroutine and
  each call of \<open>SendMessageToQueue\<close> opens its own connection, so the broker sees the
  atomic actions of several publishers interleaved: dial, send, and the deferred
  disconnect. A publisher is a thread whose program counter records where it is in
  \<open>SendMessageToQueue\<close> (\<open>src/utility/queue.go\<close>); \<open>thread_step\<close> performs its next
  action with the functions of theory \<open>Queue\<close>, and \<open>conc_step\<close> lets any unfinished
  thread take its step. The theorems relate the interleaved system to the sequential
  function and bound what interleavings can do to the broker.
\<close>

datatype pub_pc = AtDial | AtSend | AtDisconnect "string option" | Finished "string option"

record pub_thread =
  th_config :: configuration
  th_message :: string
  th_net :: net_outcome
  th_pc :: pub_pc

definition start_thread :: "configuration \<Rightarrow> string \<Rightarrow> net_outcome \<Rightarrow> pub_thread" where
  "start_thread c m net = \<lparr>th_config = c, th_message = m, th_net = net, th_pc = AtDial\<rparr>"

text \<open>One atomic action of \<open>SendMessageToQueue\<close>; \<open>None\<close> once the call has returned.\<close>

definition thread_step :: "pub_thread \<Rightarrow> broker \<Rightarrow> (pub_thread \<times> broker) option" where
  "thread_step t b =
     (let q = cfg_queue (th_config t); net = th_net t in
      case th_pc t of
        AtDial \<Rightarrow>
          (let (err, b') = stomp_dial net (queue_server q) (tq_username q) (tq_password q) b
           in case err of
                Some e \<Rightarrow> Some (t\<lparr>th_pc := Finished (Some e)\<rparr>, b')
              | None \<Rightarrow> Some (t\<lparr>th_pc := AtSend\<rparr>, b'))
      | AtSend \<Rightarrow>
          (let (err, b') = conn_send net (tq_queue_name q) ''text/plain'' (th_message t) b
           in Some (t\<lparr>th_pc := AtDisconnect err\<rparr>, b'))
      | AtDisconnect err \<Rightarrow> Some (t\<lparr>th_pc := Finished err\<rparr>, conn_disconnect b)
      | Finished _ \<Rightarrow> None)"

inductive conc_step :: "pub_thread list \<times> broker \<Rightarrow> pub_thread list \<times> broker \<Rightarrow> bool" where
  step: "i < length ts \<Longrightarrow> thread_step (ts ! i) b = Some (t', b') \<Longrightarrow> conc_step (ts, b) (ts[i := t'], b')"

inductive_cases conc_stepE: "conc_step s s'"

text \<open>The bookkeeping the invariant uses.\<close>

fun pc_connected :: "pub_pc \<Rightarrow> bool" where
  "pc_connected AtSend = True"
| "pc_connected (AtDisconnect _) = True"
| "pc_connected _ = False"

fun pc_sent :: "pub_pc \<Rightarrow> bool" where
  "pc_sent (AtDisconnect None) = True"
| "pc_sent (Finished None) = True"
| "pc_sent _ = False"

definition thread_delivery :: "pub_thread \<Rightarrow> string \<times> string" where
  "thread_delivery t = (tq_queue_name (cfg_queue (th_config t)), th_message t)"

definition conc_inv :: "broker \<Rightarrow> pub_thread list \<times> broker \<Rightarrow> bool" where
  "conc_inv b0 s \<longleftrightarrow>
     br_open (snd s) = br_open b0 + length (filter (\<lambda>t. pc_connected (th_pc t)) (fst s)) \<and>
     mset (br_delivered (snd s)) =
       mset (br_delivered b0) + mset (map thread_delivery (filter (\<lambda>t. pc_sent (th_pc t)) (fst s)))"


text \<open>Progress: how many actions a thread still has to take, and whether it has returned.\<close>

fun pc_rank :: "pub_pc \<Rightarrow> nat" where
  "pc_rank AtDial = 3"
| "pc_rank AtSend = 2"
| "pc_rank (AtDisconnect _) = 1"
| "pc_rank (Finished _) = 0"

fun pc_finished :: "pub_pc \<Rightarrow> bool" where
  "pc_finished (Finished _) = True"
| "pc_finished _ = False"

definition conc_measure :: "pub_thread list \<times> broker \<Rightarrow> nat" where
  "conc_measure s = sum_list (map (\<lambda>t. pc_rank (th_pc t)) (fst s))"

section \<open>Lemmas\<close>

lemma thread_step_preserves:
  "thread_step t b = Some (t', b') \<Longrightarrow>
   th_config t' = th_config t \<and> th_message t' = th_message t \<and> th_net t' = th_net t"
  by (auto simp: thread_step_def Let_def split: pub_pc.splits option.splits prod.splits)

lemma pc_sent_result [simp]:
  "pc_sent (AtDisconnect e) \<longleftrightarrow> e = None" "pc_sent (Finished e) \<longleftrightarrow> e = None"
  by (cases e; simp)+

lemma thread_step_effect:
  "thread_step t b = Some (t', b') \<Longrightarrow> (pc_connected (th_pc t) \<Longrightarrow> 0 < br_open b) \<Longrightarrow>
   br_open b' + (if pc_connected (th_pc t) then 1 else 0) = br_open b + (if pc_connected (th_pc t') then 1 else 0) \<and>
   br_delivered b' = br_delivered b @
     (if pc_sent (th_pc t') \<and> \<not> pc_sent (th_pc t) then [thread_delivery t] else []) \<and>
   (pc_sent (th_pc t) \<longrightarrow> pc_sent (th_pc t'))"
  by (auto simp: thread_step_def Let_def stomp_dial_def conn_send_def conn_disconnect_def thread_delivery_def
      split: pub_pc.splits option.splits prod.splits)

lemma mset_filter_update:
  "i < length xs \<Longrightarrow>
   mset (filter P (xs[i := x])) + (if P (xs ! i) then {#xs ! i#} else {#}) =
   mset (filter P xs) + (if P x then {#x#} else {#})"
proof (induction xs arbitrary: i)
  case (Cons y ys)
  then show ?case
  proof (cases i)
    case (Suc j)
    with Cons.prems have "j < length ys" by simp
    from Cons.IH [OF this] Suc show ?thesis by (cases "P y"; cases "P x"; cases "P (ys ! j)") simp_all
  qed simp
qed simp

lemma length_filter_update:
  "i < length xs \<Longrightarrow>
   length (filter P (xs[i := x])) + (if P (xs ! i) then 1 else 0) =
   length (filter P xs) + (if P x then 1 else 0)"
proof (induction xs arbitrary: i)
  case (Cons y ys)
  then show ?case
  proof (cases i)
    case (Suc j)
    with Cons.prems have "j < length ys" by simp
    from Cons.IH [OF this] Suc show ?thesis by simp
  qed simp
qed simp

lemma conc_inv_step:
  assumes "conc_step s s'" and "conc_inv b0 s"
  shows "conc_inv b0 s'"
  using assms(1)
proof cases
  case (step i ts b t' b')
  let ?P = "\<lambda>t. pc_connected (th_pc t)" and ?S = "\<lambda>t. pc_sent (th_pc t)"
  have inv: "br_open b = br_open b0 + length (filter ?P ts)"
    "mset (br_delivered b) = mset (br_delivered b0) + mset (map thread_delivery (filter ?S ts))"
    using assms(2) step(1) by (simp_all add: conc_inv_def)
  have conn: "0 < br_open b" if "?P (ts ! i)"
  proof -
    have "ts ! i \<in> set (filter ?P ts)" using that step(3) by simp
    then have "0 < length (filter ?P ts)" by (metis length_pos_if_in_set)
    then show ?thesis using inv(1) by simp
  qed
  have eff: "br_open b' + (if ?P (ts ! i) then 1 else 0) = br_open b + (if ?P t' then 1 else 0)"
    "br_delivered b' = br_delivered b @
       (if ?S t' \<and> \<not> ?S (ts ! i) then [thread_delivery (ts ! i)] else [])"
    "?S (ts ! i) \<longrightarrow> ?S t'"
    using thread_step_effect [OF step(4)] conn by auto
  have same: "thread_delivery t' = thread_delivery (ts ! i)"
    using thread_step_preserves [OF step(4)] by (simp add: thread_delivery_def)
  have lo: "length (filter ?P (ts[i := t'])) + (if ?P (ts ! i) then 1 else 0) =
            length (filter ?P ts) + (if ?P t' then 1 else 0)"
    using length_filter_update [OF step(3)] .
  have ms: "mset (map thread_delivery (filter ?S (ts[i := t']))) +
              (if ?S (ts ! i) then {#thread_delivery (ts ! i)#} else {#}) =
            mset (map thread_delivery (filter ?S ts)) + (if ?S t' then {#thread_delivery t'#} else {#})"
    using arg_cong [OF mset_filter_update [OF step(3), of ?S t'], of "image_mset thread_delivery"]
    by (simp split: if_splits)
  have "br_open b' = br_open b0 + length (filter ?P (ts[i := t']))"
    using eff(1) inv(1) lo by (simp split: if_splits)
  moreover have "mset (br_delivered b') =
      mset (br_delivered b0) + mset (map thread_delivery (filter ?S (ts[i := t'])))"
    using eff(2,3) inv(2) ms same by (auto split: if_splits)
  ultimately show ?thesis using step(2) by (simp add: conc_inv_def)
qed

lemma thread_step_None: "thread_step t b = None \<longleftrightarrow> pc_finished (th_pc t)"
  by (cases "th_pc t") (auto simp: thread_step_def Let_def split: option.splits prod.splits)

lemma thread_step_rank:
  "thread_step t b = Some (t', b') \<Longrightarrow> pc_rank (th_pc t') < pc_rank (th_pc t)"
  by (auto simp: thread_step_def Let_def split: pub_pc.splits option.splits prod.splits)

lemma sum_list_update_nat:
  "i < length xs \<Longrightarrow> sum_list (xs[i := x]) + xs ! i = sum_list xs + (x :: nat)"
proof (induction xs arbitrary: i)
  case (Cons y ys)
  then show ?case by (cases i) auto
qed simp


lemma conc_step_at:
  "i < length ts \<Longrightarrow> thread_step (ts ! i) b = Some (t', b') \<Longrightarrow> conc_step\<^sup>*\<^sup>* (ts[i := t'], b') s \<Longrightarrow>
   conc_step\<^sup>*\<^sup>* (ts, b) s"
  using conc_step.step [of i ts b t' b'] by (meson converse_rtranclp_into_rtranclp)

lemma conc_inv_start: "list_all (\<lambda>t. th_pc t = AtDial) ts \<Longrightarrow> conc_inv b0 (ts, b0)"
proof -
  assume "list_all (\<lambda>t. th_pc t = AtDial) ts"
  then have "filter (\<lambda>t. pc_connected (th_pc t)) ts = []" "filter (\<lambda>t. pc_sent (th_pc t)) ts = []"
    by (auto simp: list_all_iff filter_empty_conv)
  then show ?thesis by (simp add: conc_inv_def)
qed

section \<open>Properties\<close>

text \<open>
  C7. In every interleaving of concurrent publishers that all start at the beginning of
  \<open>SendMessageToQueue\<close>, the broker holds exactly one open connection per publisher between
  its dial and its disconnect, and the messages in the queues are the earlier ones plus
  one message per publisher whose send has succeeded: no message is lost or duplicated.
\<close>

theorem conc_publish_invariant:
  "conc_step\<^sup>*\<^sup>* (ts0, b0) s \<Longrightarrow> list_all (\<lambda>t. th_pc t = AtDial) ts0 \<Longrightarrow> conc_inv b0 s"
proof (induction rule: rtranclp_induct)
  case base
  then show ?case by (rule conc_inv_start)
next
  case (step s s')
  then show ?case using conc_inv_step by blast
qed

text \<open>
  No order holds across requests: two concurrent successful publishes can reach the queue
  in either order.
\<close>

theorem conc_delivery_order_unspecified:
  "\<exists>s1 s2.
     conc_step\<^sup>*\<^sup>* ([start_thread example_configuration ''A'' \<lparr>dial_error = None, send_error = None\<rparr>,
                      start_thread example_configuration ''B'' \<lparr>dial_error = None, send_error = None\<rparr>],
                     \<lparr>br_frames = [], br_delivered = [], br_open = 0\<rparr>) s1 \<and>
     conc_step\<^sup>*\<^sup>* ([start_thread example_configuration ''A'' \<lparr>dial_error = None, send_error = None\<rparr>,
                      start_thread example_configuration ''B'' \<lparr>dial_error = None, send_error = None\<rparr>],
                     \<lparr>br_frames = [], br_delivered = [], br_open = 0\<rparr>) s2 \<and>
     list_all (\<lambda>t. th_pc t = Finished None) (fst s1) \<and> list_all (\<lambda>t. th_pc t = Finished None) (fst s2) \<and>
     br_delivered (snd s1) = [(''orders'', ''A''), (''orders'', ''B'')] \<and>
     br_delivered (snd s2) = [(''orders'', ''B''), (''orders'', ''A'')]"
  apply (intro exI conjI)
  apply (rule conc_step_at [of 0], simp, simp add: thread_step_def Let_def case_prod_unfold stomp_dial_def conn_send_def conn_disconnect_def start_thread_def)
  apply (rule conc_step_at [of 0], simp, simp add: thread_step_def Let_def case_prod_unfold stomp_dial_def conn_send_def conn_disconnect_def start_thread_def)
  apply (rule conc_step_at [of 1], simp, simp add: thread_step_def Let_def case_prod_unfold stomp_dial_def conn_send_def conn_disconnect_def start_thread_def)
  apply (rule conc_step_at [of 1], simp, simp add: thread_step_def Let_def case_prod_unfold stomp_dial_def conn_send_def conn_disconnect_def start_thread_def)
  apply (rule conc_step_at [of 0], simp, simp add: thread_step_def Let_def case_prod_unfold stomp_dial_def conn_send_def conn_disconnect_def start_thread_def)
  apply (rule conc_step_at [of 1], simp, simp add: thread_step_def Let_def case_prod_unfold stomp_dial_def conn_send_def conn_disconnect_def start_thread_def)
  apply (rule rtranclp.rtrancl_refl)
  apply (rule conc_step_at [of 1], simp, simp add: thread_step_def Let_def case_prod_unfold stomp_dial_def conn_send_def conn_disconnect_def start_thread_def)
  apply (rule conc_step_at [of 1], simp, simp add: thread_step_def Let_def case_prod_unfold stomp_dial_def conn_send_def conn_disconnect_def start_thread_def)
  apply (rule conc_step_at [of 0], simp, simp add: thread_step_def Let_def case_prod_unfold stomp_dial_def conn_send_def conn_disconnect_def start_thread_def)
  apply (rule conc_step_at [of 0], simp, simp add: thread_step_def Let_def case_prod_unfold stomp_dial_def conn_send_def conn_disconnect_def start_thread_def)
  apply (rule conc_step_at [of 1], simp, simp add: thread_step_def Let_def case_prod_unfold stomp_dial_def conn_send_def conn_disconnect_def start_thread_def)
  apply (rule conc_step_at [of 0], simp, simp add: thread_step_def Let_def case_prod_unfold stomp_dial_def conn_send_def conn_disconnect_def start_thread_def)
  apply (rule rtranclp.rtrancl_refl)
  apply (simp_all add: example_configuration_def)
  done

text \<open>
  The step model implements the sequential function: a publisher running alone reaches
  its final state with the result and the broker that \<open>SendMessageToQueue\<close> returns.
\<close>

theorem conc_single_request_refines:
  "conc_step\<^sup>*\<^sup>* ([start_thread c m net], b)
     ([(start_thread c m net)\<lparr>th_pc := Finished (fst (send_message_to_queue c m net b))\<rparr>],
      snd (send_message_to_queue c m net b))"
proof (cases "dial_error net")
  case (Some e)
  show ?thesis
    apply (rule conc_step_at [of 0], simp, simp add: Some start_thread_def thread_step_def stomp_dial_def)
    apply (simp add: Some send_message_to_queue_dial_error start_thread_def)
    done
next
  case None
  show ?thesis
    apply (rule conc_step_at [of 0], simp, simp add: None start_thread_def thread_step_def stomp_dial_def Let_def)
    apply (rule conc_step_at [of 0], simp, simp add: thread_step_def Let_def case_prod_unfold)
    apply (rule conc_step_at [of 0], simp, simp add: thread_step_def Let_def case_prod_unfold)
    apply (cases b; cases "send_error net";
        simp add: None send_message_to_queue_dialled conn_send_def conn_disconnect_def start_thread_def)
    done
qed

text \<open>
  Every interleaving is finite and none gets stuck: each step decreases the number of
  remaining actions, and a system can take a step exactly when some publisher has not
  returned.
\<close>

theorem conc_terminates:
  "(conc_step s s' \<longrightarrow> conc_measure s' < conc_measure s) \<and>
   ((\<exists>s'. conc_step s s') \<longleftrightarrow> \<not> list_all (\<lambda>t. pc_finished (th_pc t)) (fst s))"
proof (intro conjI impI)
  assume "conc_step s s'"
  then show "conc_measure s' < conc_measure s"
  proof cases
    case (step i ts b t' b')
    have "sum_list ((map (\<lambda>t. pc_rank (th_pc t)) ts)[i := pc_rank (th_pc t')]) + pc_rank (th_pc (ts ! i)) =
          sum_list (map (\<lambda>t. pc_rank (th_pc t)) ts) + pc_rank (th_pc t')"
      using sum_list_update_nat [of i "map (\<lambda>t. pc_rank (th_pc t)) ts" "pc_rank (th_pc t')"] step(3)
      by simp
    then show ?thesis
      using thread_step_rank [OF step(4)] step(1,2) by (simp add: conc_measure_def map_update)
  qed
next
  show "(\<exists>s'. conc_step s s') \<longleftrightarrow> \<not> list_all (\<lambda>t. pc_finished (th_pc t)) (fst s)"
  proof
    assume "\<exists>s'. conc_step s s'"
    then show "\<not> list_all (\<lambda>t. pc_finished (th_pc t)) (fst s)"
    proof (clarsimp elim!: conc_stepE simp: list_all_length)
      fix i ts b t' b'
      assume "i < length ts" "thread_step (ts ! i) b = Some (t', b')"
      then show "\<exists>n < length ts. \<not> pc_finished (th_pc (ts ! n))"
        using thread_step_None [of "ts ! i" b] by auto
    qed
  next
    assume "\<not> list_all (\<lambda>t. pc_finished (th_pc t)) (fst s)"
    then obtain i where i: "i < length (fst s)" "\<not> pc_finished (th_pc (fst s ! i))"
      by (auto simp: list_all_length)
    then obtain t' b' where "thread_step (fst s ! i) (snd s) = Some (t', b')"
      using thread_step_None [of "fst s ! i" "snd s"] by fastforce
    then show "\<exists>s'. conc_step s s'"
      using i(1) conc_step.step [of i "fst s" "snd s" t' b'] by (metis prod.collapse)
  qed
qed

section \<open>Witnesses\<close>

theorem conc_publish_invariant_witness:
  "conc_step\<^sup>*\<^sup>* ([start_thread example_configuration ''A'' \<lparr>dial_error = None, send_error = None\<rparr>,
                   start_thread example_configuration ''B'' \<lparr>dial_error = Some ''refused'', send_error = None\<rparr>],
                  \<lparr>br_frames = [], br_delivered = [], br_open = 0\<rparr>)
     ([(start_thread example_configuration ''A'' \<lparr>dial_error = None, send_error = None\<rparr>)\<lparr>th_pc := AtSend\<rparr>,
       start_thread example_configuration ''B'' \<lparr>dial_error = Some ''refused'', send_error = None\<rparr>],
      \<lparr>br_frames = [ConnectFrame (queue_server (cfg_queue example_configuration)) ''svc'' ''pw''],
       br_delivered = [], br_open = 1\<rparr>) \<and>
   list_all (\<lambda>t. th_pc t = AtDial)
     [start_thread example_configuration ''A'' \<lparr>dial_error = None, send_error = None\<rparr>,
      start_thread example_configuration ''B'' \<lparr>dial_error = Some ''refused'', send_error = None\<rparr>] \<and>
   conc_inv \<lparr>br_frames = [], br_delivered = [], br_open = 0\<rparr>
     ([(start_thread example_configuration ''A'' \<lparr>dial_error = None, send_error = None\<rparr>)\<lparr>th_pc := AtSend\<rparr>,
       start_thread example_configuration ''B'' \<lparr>dial_error = Some ''refused'', send_error = None\<rparr>],
      \<lparr>br_frames = [ConnectFrame (queue_server (cfg_queue example_configuration)) ''svc'' ''pw''],
       br_delivered = [], br_open = 1\<rparr>)"
proof -
  have r: "conc_step\<^sup>*\<^sup>* ([start_thread example_configuration ''A'' \<lparr>dial_error = None, send_error = None\<rparr>,
                   start_thread example_configuration ''B'' \<lparr>dial_error = Some ''refused'', send_error = None\<rparr>],
                  \<lparr>br_frames = [], br_delivered = [], br_open = 0\<rparr>)
     ([(start_thread example_configuration ''A'' \<lparr>dial_error = None, send_error = None\<rparr>)\<lparr>th_pc := AtSend\<rparr>,
       start_thread example_configuration ''B'' \<lparr>dial_error = Some ''refused'', send_error = None\<rparr>],
      \<lparr>br_frames = [ConnectFrame (queue_server (cfg_queue example_configuration)) ''svc'' ''pw''],
       br_delivered = [], br_open = 1\<rparr>)"
    apply (rule conc_step_at [of 0], simp, simp add: thread_step_def Let_def case_prod_unfold stomp_dial_def start_thread_def)
    apply (simp add: start_thread_def example_configuration_def)
    done
  have a: "list_all (\<lambda>t. th_pc t = AtDial)
     [start_thread example_configuration ''A'' \<lparr>dial_error = None, send_error = None\<rparr>,
      start_thread example_configuration ''B'' \<lparr>dial_error = Some ''refused'', send_error = None\<rparr>]"
    by (simp add: start_thread_def)
  show ?thesis using r a conc_publish_invariant [OF r a] by simp
qed

theorem conc_terminates_witness:
  "conc_step ([start_thread example_configuration ''A'' \<lparr>dial_error = None, send_error = None\<rparr>],
              \<lparr>br_frames = [], br_delivered = [], br_open = 0\<rparr>)
     ([(start_thread example_configuration ''A'' \<lparr>dial_error = None, send_error = None\<rparr>)\<lparr>th_pc := AtSend\<rparr>],
      \<lparr>br_frames = [ConnectFrame (queue_server (cfg_queue example_configuration)) ''svc'' ''pw''],
       br_delivered = [], br_open = 1\<rparr>) \<and>
   conc_measure
     ([(start_thread example_configuration ''A'' \<lparr>dial_error = None, send_error = None\<rparr>)\<lparr>th_pc := AtSend\<rparr>],
      \<lparr>br_frames = [ConnectFrame (queue_server (cfg_queue example_configuration)) ''svc'' ''pw''],
       br_delivered = [], br_open = 1\<rparr>) <
   conc_measure ([start_thread example_configuration ''A'' \<lparr>dial_error = None, send_error = None\<rparr>],
                 \<lparr>br_frames = [], br_delivered = [], br_open = 0\<rparr>) \<and>
   (\<exists>s'. conc_step ([start_thread example_configuration ''A'' \<lparr>dial_error = None, send_error = None\<rparr>],
                     \<lparr>br_frames = [], br_delivered = [], br_open = 0\<rparr>) s')"
proof -
  have st: "conc_step ([start_thread example_configuration ''A'' \<lparr>dial_error = None, send_error = None\<rparr>],
              \<lparr>br_frames = [], br_delivered = [], br_open = 0\<rparr>)
     ([(start_thread example_configuration ''A'' \<lparr>dial_error = None, send_error = None\<rparr>)\<lparr>th_pc := AtSend\<rparr>],
      \<lparr>br_frames = [ConnectFrame (queue_server (cfg_queue example_configuration)) ''svc'' ''pw''],
       br_delivered = [], br_open = 1\<rparr>)"
    using conc_step.step [of 0 "[start_thread example_configuration ''A'' \<lparr>dial_error = None, send_error = None\<rparr>]"
        "\<lparr>br_frames = [], br_delivered = [], br_open = 0\<rparr>"
        "(start_thread example_configuration ''A'' \<lparr>dial_error = None, send_error = None\<rparr>)\<lparr>th_pc := AtSend\<rparr>"
        "\<lparr>br_frames = [ConnectFrame (queue_server (cfg_queue example_configuration)) ''svc'' ''pw''],
          br_delivered = [], br_open = 1\<rparr>"]
    by (simp add: thread_step_def Let_def stomp_dial_def start_thread_def example_configuration_def)
  show ?thesis
    using st conc_terminates [THEN conjunct1, rule_format, OF st] by blast
qed
end
