(* ===== verification/Md5.thy ===== *)
theory Md5
  imports Prelude
begin

text \<open>
  The digest behind \<open>StringToMD5\<close>: \<open>crypto/md5\<close> (\<open>md5.Sum\<close>, RFC 1321) over bytes
  as \<open>8 word\<close> and 32-bit words as \<open>32 word\<close>, where \<open>+\<close> wraps as Go's \<open>uint32\<close>
  addition does, and \<open>hex.EncodeToString\<close>. The message is padded with \<open>0x80\<close>, zero
  bytes up to 56 modulo 64 and its length in bits as a little-endian 64-bit word
  (\<open>len << 3\<close>, which wraps); each 64-byte block is read as sixteen little-endian words and
  mixed into the state by the 64 steps of the four rounds. This theory models a library
  the code calls, not code of the repository.
\<close>

unbundle bit_operations_syntax

type_synonym byte = "8 word"

record md5_state =
  md5_a :: "32 word"
  md5_b :: "32 word"
  md5_c :: "32 word"
  md5_d :: "32 word"

definition md5_init :: md5_state where
  "md5_init = \<lparr>md5_a = 0x67452301, md5_b = 0xEFCDAB89, md5_c = 0x98BADCFE, md5_d = 0x10325476\<rparr>"

text \<open>The per-step rotation amounts and the sine table \<open>floor(abs(sin(i + 1)) * 2^32)\<close>.\<close>

definition md5_shifts :: "nat list" where
  "md5_shifts =
     concat (map (\<lambda>r. concat (replicate 4 r)) [[7, 12, 17, 22], [5, 9, 14, 20], [4, 11, 16, 23], [6, 10, 15, 21]])"

definition md5_table :: "32 word list" where
  "md5_table =
     [0xD76AA478, 0xE8C7B756, 0x242070DB, 0xC1BDCEEE, 0xF57C0FAF, 0x4787C62A, 0xA8304613, 0xFD469501,
      0x698098D8, 0x8B44F7AF, 0xFFFF5BB1, 0x895CD7BE, 0x6B901122, 0xFD987193, 0xA679438E, 0x49B40821,
      0xF61E2562, 0xC040B340, 0x265E5A51, 0xE9B6C7AA, 0xD62F105D, 0x02441453, 0xD8A1E681, 0xE7D3FBC8,
      0x21E1CDE6, 0xC33707D6, 0xF4D50D87, 0x455A14ED, 0xA9E3E905, 0xFCEFA3F8, 0x676F02D9, 0x8D2A4C8A,
      0xFFFA3942, 0x8771F681, 0x6D9D6122, 0xFDE5380C, 0xA4BEEA44, 0x4BDECFA9, 0xF6BB4B60, 0xBEBFBC70,
      0x289B7EC6, 0xEAA127FA, 0xD4EF3085, 0x04881D05, 0xD9D4D039, 0xE6DB99E5, 0x1FA27CF8, 0xC4AC5665,
      0xF4292244, 0x432AFF97, 0xAB9423A7, 0xFC93A039, 0x655B59C3, 0x8F0CCC92, 0xFFEFF47D, 0x85845DD1,
      0x6FA87E4F, 0xFE2CE6E0, 0xA3014314, 0x4E0811A1, 0xF7537E82, 0xBD3AF235, 0x2AD7D2BB, 0xEB86D391]"

text \<open>The round function and the message word of step \<open>i\<close>.\<close>

definition md5_fun :: "nat \<Rightarrow> 32 word \<Rightarrow> 32 word \<Rightarrow> 32 word \<Rightarrow> 32 word" where
  "md5_fun i b c d =
     (if i < 16 then (b AND c) OR (NOT b AND d)
      else if i < 32 then (d AND b) OR (NOT d AND c)
      else if i < 48 then b XOR c XOR d
      else c XOR (b OR NOT d))"

definition md5_index :: "nat \<Rightarrow> nat" where
  "md5_index i =
     (if i < 16 then i
      else if i < 32 then (5 * i + 1) mod 16
      else if i < 48 then (3 * i + 5) mod 16
      else (7 * i) mod 16)"

definition md5_step :: "32 word list \<Rightarrow> md5_state \<Rightarrow> nat \<Rightarrow> md5_state" where
  "md5_step m st i =
     (let f = md5_fun i (md5_b st) (md5_c st) (md5_d st) + md5_a st + md5_table ! i + m ! md5_index i
      in \<lparr>md5_a = md5_d st, md5_b = md5_b st + word_rotl (md5_shifts ! i) f,
          md5_c = md5_b st, md5_d = md5_c st\<rparr>)"

definition md5_block :: "32 word list \<Rightarrow> md5_state \<Rightarrow> md5_state" where
  "md5_block m st =
     (let st' = foldl (md5_step m) st [0..<64]
      in \<lparr>md5_a = md5_a st + md5_a st', md5_b = md5_b st + md5_b st',
          md5_c = md5_c st + md5_c st', md5_d = md5_d st + md5_d st'\<rparr>)"

text \<open>Little-endian conversions between bytes and words.\<close>

definition le_word :: "byte list \<Rightarrow> 'a::len word" where
  "le_word bs = foldr (\<lambda>b w. ucast b OR push_bit 8 w) bs 0"

definition le_bytes :: "nat \<Rightarrow> 'a::len word \<Rightarrow> byte list" where
  "le_bytes n w = map (\<lambda>k. ucast (drop_bit (8 * k) w)) [0..<n]"

fun words_le :: "byte list \<Rightarrow> 32 word list" where
  "words_le [] = []"
| "words_le (b0 # b1 # b2 # b3 # bs) = le_word [b0, b1, b2, b3] # words_le bs"
| "words_le bs = [le_word bs]"

definition md5_pad :: "byte list \<Rightarrow> byte list" where
  "md5_pad bs =
     bs @ [0x80] @ replicate ((119 - length bs mod 64) mod 64) 0 @
     le_bytes 8 (push_bit 3 (word_of_nat (length bs) :: 64 word))"

function md5_blocks :: "md5_state \<Rightarrow> byte list \<Rightarrow> md5_state" where
  "md5_blocks st bs = (if bs = [] then st else md5_blocks (md5_block (words_le (take 64 bs)) st) (drop 64 bs))"
  by pat_completeness auto
termination by (relation "measure (\<lambda>(st, bs). length bs)") auto

definition md5_sum :: "byte list \<Rightarrow> byte list" where
  "md5_sum bs =
     (let st = md5_blocks md5_init (md5_pad bs)
      in le_bytes 4 (md5_a st) @ le_bytes 4 (md5_b st) @ le_bytes 4 (md5_c st) @ le_bytes 4 (md5_d st))"

text \<open>\<open>hex.EncodeToString\<close>: two lower-case hexadecimal digits per byte, high nibble first.\<close>

definition hex_chars :: string where
  "hex_chars = ''0123456789abcdef''"

definition hex_encode :: "byte list \<Rightarrow> string" where
  "hex_encode bs = concat (map (\<lambda>b. [hex_chars ! unat (drop_bit 4 b), hex_chars ! unat (b AND 0xF)]) bs)"

text \<open>The bytes of a Go string.\<close>

definition string_bytes :: "string \<Rightarrow> byte list" where
  "string_bytes s = map (\<lambda>c. word_of_nat (of_char c)) s"

section \<open>Lemmas\<close>

lemma md5_pad_zeros: "r < (64::nat) \<Longrightarrow> (119 - r) mod 64 = (if r \<le> 55 then 55 - r else 119 - r)"
  by (auto simp: mod_if)

lemma md5_pad_len: "length (md5_pad bs) = length bs + 9 + (119 - length bs mod 64) mod 64"
  by (simp add: md5_pad_def le_bytes_def)

text \<open>The padded message is a whole number of blocks, 9 to 72 bytes longer than the message.\<close>

lemma md5_pad_length:
  "length (md5_pad bs) mod 64 = 0 \<and> length bs + 9 \<le> length (md5_pad bs) \<and> length (md5_pad bs) \<le> length bs + 72"
proof -
  obtain q r where n: "length bs = 64 * q + r" and r: "r < 64"
    using div_mod_decomp [of "length bs" 64] by (metis mod_less_divisor zero_less_numeral mult.commute)
  then have m: "length bs mod 64 = r" by simp
  have "length (md5_pad bs) = length bs + 9 + (if r \<le> 55 then 55 - r else 119 - r)"
    using md5_pad_zeros [OF r] by (simp only: md5_pad_len m)
  then have l: "length (md5_pad bs) = 64 * q + r + 9 + (if r \<le> 55 then 55 - r else 119 - r)"
    by (simp only: n)
  show ?thesis
  proof (cases "r \<le> 55")
    case True
    then have "length (md5_pad bs) = 64 * (q + 1)" using l by simp
    then show ?thesis using True n by simp
  next
    case False
    then have "length (md5_pad bs) = 64 * (q + 2)" using l r by simp
    then show ?thesis using False r n by simp
  qed
qed

lemma le_bytes_length [simp]: "length (le_bytes n w) = n"
  by (simp add: le_bytes_def)

lemma md5_sum_length: "length (md5_sum bs) = 16"
  by (simp add: md5_sum_def Let_def)

lemma hex_encode_length: "length (hex_encode bs) = 2 * length bs"
  by (induction bs) (simp_all add: hex_encode_def)

lemma hex_nibbles: "unat (drop_bit 4 b) < 16" "unat (b AND 0xF) < 16" for b :: byte
proof -
  have "unat b < 2 ^ 8" using unsigned_less [of b] by simp
  then show "unat (drop_bit 4 b) < 16" by (simp add: drop_bit_eq_div unat_div)
  have "b AND 0xF \<le> 0xF" by (rule word_and_le1)
  then have "unat (b AND 0xF) \<le> unat (0xF :: byte)" by (simp add: word_le_nat_alt)
  then show "unat (b AND 0xF) < 16" by simp
qed

lemma hex_encode_chars: "set (hex_encode bs) \<subseteq> set hex_chars"
proof -
  have "hex_chars ! unat (drop_bit 4 b) \<in> set hex_chars" "hex_chars ! unat (b AND 0xF) \<in> set hex_chars" for b :: byte
    using hex_nibbles [of b] by (simp_all add: hex_chars_def del: list.set)
  then show ?thesis by (auto simp: hex_encode_def)
qed

end
