(* ===== verification/Formatting.thy ===== *)
theory Formatting
  imports Json Md5
begin

text \<open>
  The formatting helpers of \<open>src/utility/utility.go\<close> that wrap library code:
  \<open>StringToMD5\<close> (the digest of theory \<open>Md5\<close>, hex-encoded) and \<open>PrettyStruct\<close>
  (\<open>json.MarshalIndent(data, "", "    ")\<close>, which Go implements as \<open>json.Marshal\<close>
  followed by the indenting scanner of \<open>encoding/json\<close>). \<open>json.Marshal\<close> of the
  argument's type is a parameter (\<open>marshal_iface\<close> for decoded values, the struct
  encoders of theory \<open>Orders\<close> for the order types); on these types it cannot fail, so
  neither helper reaches its error branch or \<open>RecoverError\<close>. \<open>json.Compact\<close>, the
  reference against which the indentation is judged, removes the white space outside
  strings.
\<close>

section \<open>StringToMD5\<close>

definition string_to_md5 :: "string \<Rightarrow> string" where
  "string_to_md5 text = hex_encode (md5_sum (string_bytes text))"

section \<open>The indenting scanner and PrettyStruct\<close>

definition json_space :: "char \<Rightarrow> bool" where
  "json_space c \<longleftrightarrow> c = CHR '' '' \<or> c = CHR 0x09 \<or> c = CHR 0x0A \<or> c = CHR 0x0D"

text \<open>\<open>appendNewline\<close> with prefix \<open>""\<close> and indent \<open>"    "\<close>.\<close>

definition json_newline :: "nat \<Rightarrow> string" where
  "json_newline depth = CHR 0x0A # concat (replicate depth ''    '')"

text \<open>
  \<open>appendIndent\<close>: the state is whether the scanner is inside a string, whether the
  previous byte there was an escaping backslash, the depth and \<open>needIndent\<close>, which
  delays the line break after \<open>{\<close> or \<open>[\<close> so that empty objects and arrays stay
  \<open>{}\<close> and \<open>[]\<close>. Go's depth is an \<open>int\<close> and \<open>appendNewline\<close> writes no indent for a
  negative one, which natural subtraction reproduces.
\<close>

fun json_indent_from :: "bool \<Rightarrow> bool \<Rightarrow> nat \<Rightarrow> bool \<Rightarrow> string \<Rightarrow> string" where
  "json_indent_from in_str esc depth need [] = []"
| "json_indent_from in_str esc depth need (c # cs) =
     (if in_str then c # json_indent_from (esc \<or> c \<noteq> dquote) (\<not> esc \<and> c = bslash) depth need cs
      else if json_space c then json_indent_from False False depth need cs
      else
        (let opened = (need \<and> c \<noteq> CHR ''}'' \<and> c \<noteq> CHR '']'');
             depth = (if opened then Suc depth else depth)
         in (if opened then json_newline depth else []) @
            (if c = CHR ''{'' \<or> c = CHR ''['' then c # json_indent_from False False depth True cs
             else if c = CHR '','' then c # json_newline depth @ json_indent_from False False depth False cs
             else if c = CHR '':'' then c # CHR '' '' # json_indent_from False False depth False cs
             else if c = CHR ''}'' \<or> c = CHR '']'' then
               (if need then c # json_indent_from False False depth False cs
                else json_newline (depth - 1) @ c # json_indent_from False False (depth - 1) False cs)
             else c # json_indent_from (c = dquote) False depth False cs)))"

definition pretty_struct :: "('a \<Rightarrow> string) \<Rightarrow> 'a \<Rightarrow> string \<times> string option" where
  "pretty_struct marshal data = (json_indent_from False False 0 False (marshal data), None)"

text \<open>\<open>json.Compact\<close>: the same scanner, dropping white space outside strings.\<close>

fun json_compact_from :: "bool \<Rightarrow> bool \<Rightarrow> string \<Rightarrow> string" where
  "json_compact_from in_str esc [] = []"
| "json_compact_from in_str esc (c # cs) =
     (if in_str then c # json_compact_from (esc \<or> c \<noteq> dquote) (\<not> esc \<and> c = bslash) cs
      else if json_space c then json_compact_from False False cs
      else c # json_compact_from (c = dquote) False cs)"

text \<open>The number texts \<open>json.Marshal\<close> prints, at every depth of a value.\<close>

definition json_number_text :: "string \<Rightarrow> bool" where
  "json_number_text t \<longleftrightarrow> t \<noteq> [] \<and> list_all (\<lambda>c. c \<in> set ''0123456789+-.eE'') t"

fun json_numbers_ok :: "json \<Rightarrow> bool" where
  "json_numbers_ok (JNum t) = json_number_text t"
| "json_numbers_ok (JArr vs) = list_all json_numbers_ok vs"
| "json_numbers_ok (JObj kvs) = list_all (\<lambda>(k, v). json_numbers_ok v) kvs"
| "json_numbers_ok v = True"

definition pretty_example :: json where
  "pretty_example = JObj [(''b'', JArr []), (''a'', JObj [(''x'', JNum ''1''), (''y'', JStr ''q{,:}'')])]"

text \<open>A text the compacting scanner leaves alone, whatever follows it, from a given string state.\<close>

definition compact_stable :: "bool \<Rightarrow> string \<Rightarrow> bool" where
  "compact_stable in_str t \<longleftrightarrow>
     (\<forall>rest. json_compact_from in_str False (t @ rest) = t @ json_compact_from in_str False rest)"

section \<open>Lemmas\<close>

lemma compact_spaces:
  "list_all json_space ws \<Longrightarrow> json_compact_from False False (ws @ rest) = json_compact_from False False rest"
  by (induction ws) auto

lemma json_newline_spaces: "list_all json_space (json_newline d)"
  by (induction d) (auto simp: json_newline_def json_space_def)

lemma compact_newline: "json_compact_from False False (json_newline d @ rest) = json_compact_from False False rest"
  by (rule compact_spaces, rule json_newline_spaces)

lemma compact_out_esc: "json_compact_from False True s = json_compact_from False False s"
  by (cases s) simp_all

lemma compact_indent:
  "json_compact_from in_str esc (json_indent_from in_str esc depth need s) = json_compact_from in_str esc s"
proof (induction s arbitrary: in_str esc depth need)
  case Nil
  then show ?case by simp
next
  case (Cons c cs)
  show ?case
  proof (cases "in_str \<or> json_space c")
    case True
    then show ?thesis using Cons.IH by (cases esc) (auto simp: compact_out_esc)
  next
    case False
    then have o: "\<not> in_str" "\<not> json_space c" by simp_all
    have e: "json_compact_from False esc x = json_compact_from False False x" for x
      by (cases esc) (simp_all add: compact_out_esc)
    let ?opened = "need \<and> c \<noteq> CHR ''}'' \<and> c \<noteq> CHR '']''"
    have pre: "json_compact_from False False ((if ?opened then json_newline d' else []) @ x) =
               json_compact_from False False x" for d' x
      by (simp add: compact_newline)
    have ne: "c \<noteq> dquote" if "c = CHR ''{'' \<or> c = CHR ''['' \<or> c = CHR '','' \<or> c = CHR '':'' \<or> c = CHR ''}'' \<or> c = CHR '']''"
      using that by auto
    have sp: "\<not> json_space (CHR '' '')" if "False" using that by simp
    show ?thesis
      using o ne
      by (simp only: json_indent_from.simps if_False Let_def pre e)
         (simp add: compact_newline Cons.IH json_space_def)
  qed
qed

lemma compact_stable_Nil [simp]: "compact_stable i []"
  by (simp add: compact_stable_def)

lemma compact_stable_append: "compact_stable i a \<Longrightarrow> compact_stable i b \<Longrightarrow> compact_stable i (a @ b)"
  by (simp add: compact_stable_def)

lemma compact_stable_punct: "\<not> json_space c \<Longrightarrow> c \<noteq> dquote \<Longrightarrow> compact_stable False [c]"
  by (simp add: compact_stable_def)

lemma compact_stable_text: "list_all (\<lambda>c. \<not> json_space c \<and> c \<noteq> dquote) t \<Longrightarrow> compact_stable False t"
  by (induction t) (auto simp: compact_stable_def)

lemma hex_digit_plain: "hex_digit n \<noteq> dquote" "hex_digit n \<noteq> bslash"
proof -
  have "hex_digit n \<in> set ''0123456789abcdef''" unfolding hex_digit_def by (rule nth_mem) simp
  then show "hex_digit n \<noteq> dquote" "hex_digit n \<noteq> bslash" by auto
qed

lemma compact_stable_escape_byte: "compact_stable True (json_escape_byte c)"
  by (simp add: compact_stable_def json_escape_byte_def hex_digit_plain)

lemma compact_stable_line_sep: "compact_stable True (bslash # ''u2028'')" "compact_stable True (bslash # ''u2029'')"
  by (simp_all add: compact_stable_def)

lemma compact_stable_escape: "compact_stable True (json_escape s)"
proof (induction s rule: json_escape.induct)
  case (2 c cs)
  then show ?case
    using compact_stable_append [OF compact_stable_line_sep(1)] compact_stable_append [OF compact_stable_line_sep(2)]
      compact_stable_append [OF compact_stable_escape_byte]
    by (simp del: json_escape_byte_def)
qed simp

lemma compact_stable_quote [intro]: "compact_stable False (json_quote s)"
  using compact_stable_escape [of s] by (simp add: compact_stable_def json_quote_def json_space_def)

lemma compact_stable_join:
  "compact_stable False sep \<Longrightarrow> \<forall>x \<in> set xs. compact_stable False x \<Longrightarrow> compact_stable False (join_with sep xs)"
  by (induction sep xs rule: join_with.induct) (auto intro!: compact_stable_append)

lemma compact_stable_plain: "compact_stable False ''null''" "compact_stable False ''true''" "compact_stable False ''false''"
  "compact_stable False ''[''" "compact_stable False '']''" "compact_stable False ''{''" "compact_stable False ''}''"
  "compact_stable False '',''" "compact_stable False '':''"
  by (simp_all add: compact_stable_def json_space_def)

lemma compact_stable_Cons: "\<not> json_space c \<Longrightarrow> c \<noteq> dquote \<Longrightarrow> compact_stable False t \<Longrightarrow> compact_stable False (c # t)"
  using compact_stable_append [OF compact_stable_punct] by simp

lemma number_char_plain: "c \<in> set ''0123456789+-.eE'' \<Longrightarrow> \<not> json_space c \<and> c \<noteq> dquote"
  unfolding json_space_def by (simp only: set_simps insert_iff empty_iff) (elim disjE; simp)

lemma compact_stable_number: "json_number_text t \<Longrightarrow> compact_stable False t"
  by (rule compact_stable_text) (simp add: json_number_text_def list_all_iff number_char_plain)

lemma compact_stable_encode: "json_numbers_ok v \<Longrightarrow> compact_stable False (json_encode v)"
proof (induction v rule: json_encode.induct)
  case (5 vs)
  then have "\<forall>x \<in> set (map json_encode vs). compact_stable False x" by (auto simp: list_all_iff)
  then show ?case
    by (simp only: json_encode.simps)
       (intro compact_stable_append compact_stable_plain compact_stable_join)
next
  case (6 kvs)
  then have "\<forall>x \<in> set (map (\<lambda>(k, v). json_quote k @ '':'' @ json_encode v) kvs). compact_stable False x"
    by (auto simp: list_all_iff json_space_def intro!: compact_stable_append compact_stable_quote compact_stable_Cons)
  then show ?case
    by (simp only: json_encode.simps)
       (intro compact_stable_append compact_stable_plain compact_stable_join)
qed (simp_all add: compact_stable_plain compact_stable_number compact_stable_quote)


lemma json_numbers_ok_norm: "json_numbers_ok v \<Longrightarrow> json_numbers_ok (iface_norm v)"
proof (induction v rule: iface_norm.induct)
  case (1 vs)
  then show ?case by (simp add: list_all_iff)
next
  case (2 kvs)
  then show ?case by (fastforce simp: list_all_iff)
qed simp_all

section \<open>Properties\<close>

text \<open>
  \<open>StringToMD5\<close> computes the MD5 digest of RFC 1321: on the inputs of the RFC's test
  suite it returns the digests the RFC lists.
\<close>

theorem string_to_md5_rfc1321:
  "string_to_md5 '''' = ''d41d8cd98f00b204e9800998ecf8427e'' \<and>
   string_to_md5 ''a'' = ''0cc175b9c0f1b6a831c399e269772661'' \<and>
   string_to_md5 ''abc'' = ''900150983cd24fb0d6963f7d28e17f72'' \<and>
   string_to_md5 ''message digest'' = ''f96b697d7cb7938d525a2f31aaf161d0''"
  unfolding string_to_md5_def by code_simp

text \<open>
  Whatever the text, \<open>StringToMD5\<close> returns exactly 32 characters, all lower-case
  hexadecimal digits: the 16 digest bytes, two digits each.
\<close>

theorem string_to_md5_format:
  "length (string_to_md5 text) = 32 \<and> set (string_to_md5 text) \<subseteq> set ''0123456789abcdef''"
  using hex_encode_chars [of "md5_sum (string_bytes text)"]
  by (simp add: string_to_md5_def hex_encode_length md5_sum_length hex_chars_def)

text \<open>
  \<open>PrettyStruct\<close> only changes the layout: with the white space outside strings
  removed (\<open>json.Compact\<close>), its text is exactly the \<open>json.Marshal\<close> text of the value,
  and it never reports an error.
\<close>

theorem pretty_struct_compact:
  "json_numbers_ok v \<Longrightarrow>
   json_compact_from False False (fst (pretty_struct marshal_iface v)) = marshal_iface v \<and>
   snd (pretty_struct marshal_iface v) = None"
proof -
  assume "json_numbers_ok v"
  then have "compact_stable False (json_encode (iface_norm v))"
    by (intro compact_stable_encode json_numbers_ok_norm)
  then have "json_compact_from False False (marshal_iface v) = marshal_iface v"
    unfolding compact_stable_def marshal_iface_def by (metis append_Nil2 json_compact_from.simps(1))
  then show ?thesis by (simp add: pretty_struct_def compact_indent)
qed

section \<open>Witnesses\<close>

theorem pretty_struct_compact_witness:
  "json_numbers_ok pretty_example \<and>
   json_compact_from False False (fst (pretty_struct marshal_iface pretty_example)) = marshal_iface pretty_example"
proof -
  have h: "json_numbers_ok pretty_example" by (simp add: pretty_example_def json_number_text_def)
  show ?thesis using pretty_struct_compact [OF h] h by simp
qed

end
