(* ===== verification/Spec2Isabelle.thy ===== *)
theory Spec2Isabelle
  imports Startup Concurrency Formatting
begin

text \<open>
  \<^bold>\<open>Verification of the order-ingestion service.\<close>
  The service (\<open>src/\<close>) accepts PPOB and Non-PPOB orders as JSON over HTTP, validates
  them, turns each into one SQL \<open>INSERT\<close> text and publishes that text on a STOMP queue
  for a consumer that executes it. A request flows through the gin engine of
  \<open>src/routers/router.go\<close> (logging, CORS, recovery, the API-key middleware of
  \<open>src/internal/handler/middleware/auth.go\<close>), a handler of \<open>src/internal/handler\<close>
  (body reading and decoding), a use case of \<open>src/internal/usecase\<close> (validation,
  metadata extraction, literal encoding, statement assembly, publishing) and the helpers
  of \<open>src/utility\<close>. The development is a shallow embedding: every Go function that
  changes or computes something is a HOL definition of the same name (snake case), with
  errors as values and state passed explicitly.

  \<^bold>\<open>Theories, bottom up.\<close>
  \<^item> \<open>Prelude\<close>: \<open>int64 = 64 word\<close> (Go \<open>int\<close>, read with \<open>sint\<close>), decimal printing
    (\<open>strconv.Itoa\<close>, \<open>%v\<close>), \<open>strings.Contains\<close>, \<open>strings.ToLower\<close> on ASCII, joins;
    the lemma collections \<open>lexer_simps\<close>, \<open>render_simps\<close>, \<open>contains_intros\<close>.
    \<open>Console\<close>: \<open>PrintConsole\<close> and \<open>RecoverError\<close>, standard output as the list of
    lines printed, colour support an input.
  \<^item> \<open>Sql\<close>: the consumer side, a lexer of PostgreSQL literals (\<open>NULL\<close>, booleans,
    integers, standard and \<open>E\<close> strings) and the parser \<open>parse_insert\<close> of
    \<open>INSERT INTO t (cols) VALUES(vals);\<close>. This is the specification against which
    the statement text is judged; \<open>lex_values\<close> terminates by the length measure.
  \<^item> \<open>Literal\<close>: \<open>SafeString\<close>, \<open>SafeJsonString\<close>, \<open>NullIfEmpty\<close>, \<open>NewNullString\<close>,
    \<open>NewNullInt\<close>, \<open>InArray\<close> (\<open>src/utility/utility.go\<close>, \<open>validation.go\<close>) and
    \<open>fmt.Sprintf\<close> restricted to \<open>%v\<close>; round trips through the lexer.
  \<^item> \<open>Json\<close>: \<open>encoding/json\<close> as used (decoded values, \<open>json.Marshal\<close> with sorted map
    keys and Go 1.22 escaping). \<open>JsonScan\<close>: \<open>json.Valid\<close>, the byte scanner of
    \<open>encoding/json/scanner.go\<close> (one constructor per step function, the stack of open
    containers bounded by \<open>maxNestingDepth\<close>, the sticky error, the end-of-input
    check), which \<open>ReadJsonBodyRequest\<close> runs on every body. \<open>Orders\<close>: the model structs of
    \<open>src/internal/handler/model\<close> as records with their JSON encoders, and example orders.
  \<^item> \<open>Metadata\<close>: \<open>extractAggregatorMetadata\<close> and the lookups of PPOB \<open>Create\<close>,
    refined to a path lookup. \<open>Validation\<close>: the \<open>validate\<close> tags as rule lists in
    go-playground/validator traversal order, \<open>ValidationErrorHandle\<close>.
  \<^item> \<open>Command\<close>: the two \<open>fmt.Sprintf\<close> calls of \<open>Create\<close> (format strings verbatim,
    arguments in source order) and their refinement to the specified column/value rows.
  \<^item> \<open>HttpStatus\<close>: \<open>ErrorHttpStatus\<close>, with Go's random map iteration order as an explicit
    permutation argument. \<open>Queue\<close>: \<open>SendMessageToQueue\<close> over a broker state (frames,
    accepted messages, open connections) and the network outcome as input, and the
    console lines it prints.
  \<^item> \<open>Usecase\<close>: both \<open>Create\<close> methods (validate, build, publish). \<open>Handler\<close>: both
    handlers as one definition parametrised by the decoder, with \<open>ReadJsonBodyRequest\<close>
    and \<open>FormatResponse\<close> (its renderer switch, and the JSON body the handlers use).
    \<open>Router\<close>: \<open>InitRouter\<close> (the constructors of use cases and handlers, and the
    handlers reading bodies with \<open>json.Valid\<close> of \<open>JsonScan\<close>), \<open>CORSMiddleware\<close>,
    \<open>APIKeyMiddleware\<close>, routing, and the response type of the service.
  \<^item> \<open>LogFile\<close>: \<open>src/utility/logfile.go\<close>, \<open>WriteToLogFile\<close> over an explicit file
    system (a map from paths to contents) with injected failures, its interleaving by
    concurrent requests (\<open>log_conc_step\<close>, run through explicit schedules), the capturing
    writer, \<open>BuildLogMessage\<close> and \<open>formatLogEntry\<close>. \<open>Logging\<close>: the logging middleware
    of \<open>InitRouter\<close> around \<open>serve\<close>, writing its record through \<open>WriteToLogFile\<close>.
  \<^item> \<open>Md5\<close>: \<open>crypto/md5\<close> (RFC 1321) over \<open>8 word\<close> bytes and \<open>32 word\<close> words, and
    \<open>hex.EncodeToString\<close>. \<open>Formatting\<close>: \<open>StringToMD5\<close> and \<open>PrettyStruct\<close>
    (\<open>json.MarshalIndent\<close> as \<open>json.Marshal\<close> followed by the indenting scanner of
    \<open>encoding/json\<close>), judged against \<open>json.Compact\<close>.
  \<^item> \<open>Startup\<close>: \<open>src/main.go\<close> and the process helpers of \<open>src/utility/utility.go\<close>:
    \<open>GetApplicationPath\<close>, \<open>LoadApplicationConfiguration\<close>, \<open>TimeParse\<close>, and \<open>main\<close>
    starting the engine of \<open>Router\<close> with the configuration it loaded.
  \<^item> \<open>Concurrency\<close>: concurrent requests as an inductive interleaving relation over the
    atomic broker actions of \<open>SendMessageToQueue\<close>.
  \<^item> This theory: the end-to-end scenario of the specification across all components.

  \<^bold>\<open>What is proved.\<close> Each component theory ends with its properties, each after a
  text naming its claim number, and with witnesses at concrete inputs. \<open>Command\<close>: both
  statements refine the specified column/value rows whenever the fields that bypass
  \<open>SafeString\<close> hold no quote, and a quote there injects SQL. \<open>Literal\<close>: the encoders
  round-trip through the consumer's lexer and the escape order is irrelevant.
  \<open>Metadata\<close>: the extractor is a path lookup. \<open>Validation\<close>: which orders pass, and that
  the diagnostic is the last failing field. \<open>HttpStatus\<close>: the classification for
  every map iteration order, and that every status of a matching keyword is the answer
  under some order. \<open>Queue\<close>: a call
  publishes at most one message, exactly one precisely when it returns \<open>nil\<close>, and never
  leaks a connection. \<open>Usecase\<close>/\<open>Handler\<close>/\<open>Router\<close>: invalid input never reaches the
  broker, only authenticated requests do, a 200 answer means exactly one published
  message and any other answer none, every response is of the service's response type;
  the CORS and logging defects. \<open>JsonScan\<close>: \<open>json.Valid\<close> accepts every
  \<open>json.Marshal\<close> text of an integer-valued value nested at most 10000 deep (by
  induction on the value, through an invariant of the scanner after a complete value),
  and accepts \<open>n\<close> nested arrays exactly for \<open>1 \<le> n \<le> 10000\<close> (facts of the
  library model, recorded for the body check of the handlers). \<open>LogFile\<close>/\<open>Logging\<close>: \<open>WriteToLogFile\<close> only appends
  and reports exactly the failures of its calls, one writer of the step model refines it,
  two concurrent writers can lose a record through the truncating \<open>os.Create\<close>, and the
  middleware never changes the response or the broker, and writes the record of a 200 to
  the debug file and of any other answer to the error file. \<open>Formatting\<close>: \<open>StringToMD5\<close>
  gives the RFC 1321 test-suite digests and always 32 hexadecimal digits; \<open>PrettyStruct\<close>
  is \<open>json.Marshal\<close> up to white space outside strings. \<open>Startup\<close>: the branches of
  \<open>LoadApplicationConfiguration\<close>, a malformed \<open>config.json\<close> starting a server that
  rejects every order, a load failure ending the process silently. \<open>Concurrency\<close>: the
  interleaving invariant (no lost or duplicated message), unspecified cross-request
  order, refinement of the sequential function, termination. This theory: the
  end-to-end scenario of the specification.

  \<^bold>\<open>Bounds and inputs.\<close> No fuel is used: every loop of the code is structural recursion
  or, for the literal lexer, a \<open>function\<close> with a length measure; the concurrent system
  terminates by the measure \<open>conc_measure\<close> (at most three actions per publisher). Go
  \<open>int\<close> is 64 bits (\<open>int64\<close>). \<open>json.Valid\<close> is a left fold of the scanner step
  over the bytes, total by construction; its only bound is Go's own
  \<open>maxNestingDepth\<close> of 10000 open containers, kept as in the library. Library behaviour that the code relies on is an
  explicit input: \<open>json.Unmarshal\<close> into the order structs (the \<open>decoders\<close>), the network's
  answers to dial and send (\<open>net_outcome\<close>), the map iteration order, the clock, the
  failures of the file-system calls (\<open>fs_faults\<close>), the client connection's answer to
  the body write, colour support of the terminal, \<open>os.Getwd\<close>, the time-zone database
  and the error \<open>Run\<close> returns. The concurrent log writers need no fuel either: a
  schedule is a finite list of steps (\<open>run_schedule\<close>, structural recursion) and each
  writer makes at most four actions.

  \<^bold>\<open>Not modelled.\<close> Of the renderers \<open>FormatResponse\<close> and \<open>FormatResponseJson\<close>
  choose, only the output of \<open>c.JSON\<close> (the one the handlers use) is modelled; the
  others are gin internals the service never selects. The Go interfaces
  \<open>PPOBUsecase\<close>, \<open>PPOBHandler\<close> and their Non-PPOB twins have one implementation each,
  which is modelled directly. logrus and
  \<open>log\<close> calls (their output is \<open>io.Discard\<close>), and the internals of gin, go-stomp,
  the operating system and the validator library beyond the documented behaviour stated
  in each theory. The broker always answers: dial and send return an outcome (an input),
  so a request stalled forever by an unresponsive broker (specification, section 5) is
  not representable, and the termination of the concurrent model says nothing about it.
  A failed \<open>WriteString\<close> is modelled as writing nothing, where Go may write part of
  the record. The 307 redirect's \<open>Location\<close> ignores the \<open>X-Forwarded-Prefix\<close>
  header gin prepends when present. Non-ASCII case folding of \<open>strings.ToLower\<close> is not modelled; it
  cannot change the keyword matching of \<open>ErrorHttpStatus\<close>, whose keywords contain no
  letter that a non-ASCII character lower-cases to.
\<close>

section \<open>The end-to-end scenario\<close>

lemma nonppob_spec_example_raw: "nonppob_spec_example\<lparr>no_metadata_raw := ''{}''\<rparr> = nonppob_spec_example"
  by (simp add: nonppob_spec_example_def)

lemma nonppob_spec_request:
  "hr_code (fst (serve example_configuration example_decoders network_up iter
      (order_request ''POST'' ''/api/v1/orders/non-ppob'' ''k1'') empty_broker)) = 200 \<and>
   hr_body (fst (serve example_configuration example_decoders network_up iter
      (order_request ''POST'' ''/api/v1/orders/non-ppob'' ''k1'') empty_broker)) = Some (gin_h_success 200) \<and>
   br_delivered (snd (serve example_configuration example_decoders network_up iter
      (order_request ''POST'' ''/api/v1/orders/non-ppob'' ''k1'') empty_broker)) =
     [(''orders'', nonppob_create_sql nonppob_spec_example)]"
proof -
  have f: "find_route ''POST'' ''/api/v1/orders/non-ppob'' = Some NonPPOBRoute"
    by (simp add: find_route_def route_paths_def)
  have v: "validate_struct (nonppob_order_errors nonppob_spec_example) = None"
    by (simp add: validate_struct_def nonppob_rule_defs nonppob_spec_example_def required_str_def required_int_def)
  show ?thesis
    using f v
    by (simp add: serve_routed api_key_middleware_def example_configuration_def run_route_def Let_def
        nonppob_handler_create_def handler_create_decoded read_json_body_request_def example_decoders_def json_valid_empty_object
        nonppob_usecase_create_valid send_message_to_queue_dialled network_up_def empty_broker_def
        with_cors_def format_response_def nonppob_spec_example_raw)
qed

section \<open>Properties\<close>

text \<open>
  C13. The end-to-end scenario of the specification (section 8): a valid Non-PPOB order
  with delivery URL \<open>null\<close>, amount 50000 and discount 0, posted with a configured key
  while the broker is up, is answered 200 with the body
  \<open>{"code":200,"message":"Success","status":"success"}\<close> (keys sorted by
  \<open>json.Marshal\<close>), exactly one message is published on the configured queue, and the
  consumer reads it as an insert into \<open>orders_nonppob\<close> with \<open>delivery_url\<close> NULL,
  \<open>amount\<close> 50000 and \<open>discount\<close> the integer 0.
\<close>

theorem end_to_end_nonppob_scenario:
  \<open>hr_code (fst (serve example_configuration example_decoders network_up iter
      (order_request ''POST'' ''/api/v1/orders/non-ppob'' ''k1'') empty_broker)) = 200 \<and>
   response_body_text (fst (serve example_configuration example_decoders network_up iter
      (order_request ''POST'' ''/api/v1/orders/non-ppob'' ''k1'') empty_broker)) =
     ''{"code":200,"message":"Success","status":"success"}'' \<and>
   br_delivered (snd (serve example_configuration example_decoders network_up iter
      (order_request ''POST'' ''/api/v1/orders/non-ppob'' ''k1'') empty_broker)) =
     [(''orders'', nonppob_create_sql nonppob_spec_example)] \<and>
   parse_insert (nonppob_create_sql nonppob_spec_example) =
     Some (''orders_nonppob'', map fst (nonppob_row nonppob_spec_example),
           map snd (nonppob_row nonppob_spec_example)) \<and>
   map_of (nonppob_row nonppob_spec_example) ''delivery_url'' = Some SNull \<and>
   map_of (nonppob_row nonppob_spec_example) ''amount'' = Some (SInt 50000) \<and>
   map_of (nonppob_row nonppob_spec_example) ''discount'' = Some (SInt 0)\<close>
proof -
  have h: "no_squote (nonppob_plain_fields nonppob_spec_example)"
    by (simp add: nonppob_spec_example_def nonppob_plain_fields_def no_squote_def)
  have p: "parse_insert (nonppob_create_sql nonppob_spec_example) =
     Some (''orders_nonppob'', map fst (nonppob_row nonppob_spec_example),
           map snd (nonppob_row nonppob_spec_example))"
    unfolding nonppob_create_sql_def
    by (rule sprintf_insert_parse [OF nonppob_insert_format_layout nonppob_sprintf_args_length _ _ _
          nonppob_columns_good nonppob_args_lex [OF h]]) (simp_all add: nonppob_row_def)
  have cols: "map_of (nonppob_row nonppob_spec_example) ''delivery_url'' = Some SNull \<and>
     map_of (nonppob_row nonppob_spec_example) ''amount'' = Some (SInt 50000) \<and>
     map_of (nonppob_row nonppob_spec_example) ''discount'' = Some (SInt 0)"
    by (simp add: nonppob_row_def nonppob_spec_example_def)
  have t: \<open>marshal_iface (gin_h_success 200) = ''{"code":200,"message":"Success","status":"success"}''\<close>
    by code_simp
  show ?thesis
    using nonppob_spec_request [of iter] p cols t by (simp add: response_body_text_def)
qed

end
